theory Spec2Isabelle
  imports Complex_Main "HOL-Library.Char_ord" "HOL-Library.List_Lexorder"
begin

section \<open>Cell values of a table\<close>

text \<open>
  A cell of a pandas table as the scripts read it from a delimited file: an integer, a
  text, or the missing marker (NaN / None).  Fractional cells are outside this model.
\<close>

datatype pyval = PInt int | PStr string | PNaN

text \<open>Python's \<open>v in [a, b, c]\<close> for a list of integer literals: NaN and texts equal none of them.\<close>

fun py_in :: "pyval \<Rightarrow> int list \<Rightarrow> bool" where
  "py_in (PInt n) xs = (n \<in> set xs)"
| "py_in (PStr s) xs = False"
| "py_in PNaN xs = False"

text \<open>Python's \<open>v == 1\<close> and its kin, for an integer literal on the right.\<close>

fun py_eq_int :: "pyval \<Rightarrow> int \<Rightarrow> bool" where
  "py_eq_int (PInt n) k = (n = k)"
| "py_eq_int (PStr s) k = False"
| "py_eq_int PNaN k = False"

section \<open>Texts and numbers\<close>

text \<open>
  Python's \<open>str(n)\<close> for an integer: the decimal digits, with a minus sign in front of a
  negative number.
\<close>

definition digit_char :: "nat \<Rightarrow> char" where
  "digit_char d = ''0123456789'' ! d"

fun string_of_nat :: "nat \<Rightarrow> string" where
  "string_of_nat n =
     (if n < 10 then [digit_char n] else string_of_nat (n div 10) @ [digit_char (n mod 10)])"

declare string_of_nat.simps [simp del]

definition py_str :: "int \<Rightarrow> string" where
  "py_str i = (if i < 0 then CHR ''-'' # string_of_nat (nat (- i)) else string_of_nat (nat i))"

text \<open>
  Reading a text as an integer, as \<open>astype(int)\<close> and \<open>pd.to_numeric\<close> do for a plain
  decimal numeral: an optional sign, then one or more digits.  \<open>None\<close> is the
  \<open>ValueError\<close> of \<open>astype(int)\<close> (and the NaN of a coercing \<open>to_numeric\<close>).  Numerals
  with blanks around them, digit-group underscores or a fraction are outside this model.
\<close>

definition is_digit :: "char \<Rightarrow> bool" where
  "is_digit c = (c \<in> set ''0123456789'')"

definition digit_val :: "char \<Rightarrow> nat" where
  "digit_val c = of_char c - 48"

definition digits_val :: "string \<Rightarrow> nat" where
  "digits_val s = foldl (\<lambda>a c. 10 * a + digit_val c) 0 s"

definition parse_nat :: "string \<Rightarrow> nat option" where
  "parse_nat s = (if s \<noteq> [] \<and> list_all is_digit s then Some (digits_val s) else None)"

definition parse_int :: "string \<Rightarrow> int option" where
  "parse_int s =
     (case s of
        [] \<Rightarrow> None
      | c # cs \<Rightarrow>
          if c = CHR ''-'' then map_option (\<lambda>n. - int n) (parse_nat cs)
          else if c = CHR ''+'' then map_option int (parse_nat cs)
          else map_option int (parse_nat s))"

text \<open>
  \<open>str.zfill(w)\<close>: zeros on the left up to the width \<open>w\<close>, after a leading sign if
  there is one.
\<close>

definition zfill :: "nat \<Rightarrow> string \<Rightarrow> string" where
  "zfill w s =
     (if w \<le> length s then s
      else case s of
        [] \<Rightarrow> replicate w CHR ''0''
      | c # cs \<Rightarrow>
          if c = CHR ''-'' \<or> c = CHR ''+'' then c # replicate (w - length s) CHR ''0'' @ cs
          else replicate (w - length s) CHR ''0'' @ s)"

text \<open>\<open>astype(str)\<close> of a cell.\<close>

definition astype_str :: "pyval \<Rightarrow> string" where
  "astype_str v = (case v of PInt n \<Rightarrow> py_str n | PStr s \<Rightarrow> s | PNaN \<Rightarrow> ''nan'')"

text \<open>\<open>.str[i]\<close>: the character at position \<open>i\<close>, missing when the text is too short.\<close>

definition str_at :: "nat \<Rightarrow> string \<Rightarrow> string option" where
  "str_at i s = (if i < length s then Some [s ! i] else None)"

text \<open>Python's \<open>needle in hay\<close> for two texts.\<close>

fun starts_with :: "string \<Rightarrow> string \<Rightarrow> bool" where
  "starts_with [] hay = True"
| "starts_with (c # needle) [] = False"
| "starts_with (c # needle) (d # hay) = (c = d \<and> starts_with needle hay)"

fun str_in :: "string \<Rightarrow> string \<Rightarrow> bool" where
  "str_in needle [] = (needle = [])"
| "str_in needle (d # hay) = (starts_with needle (d # hay) \<or> str_in needle hay)"

section \<open>Table operations\<close>

text \<open>
  \<open>drop_duplicates\<close> keeps the first row of every group of rows with the same key
  (\<open>subset=\<close>), in the order of the table; missing markers count as equal.
\<close>

fun dd_seen :: "('a \<Rightarrow> 'k) \<Rightarrow> 'k list \<Rightarrow> 'a list \<Rightarrow> 'a list" where
  "dd_seen key seen [] = []"
| "dd_seen key seen (x # xs) =
     (if key x \<in> set seen then dd_seen key seen xs else x # dd_seen key (key x # seen) xs)"

definition drop_duplicates_by :: "('a \<Rightarrow> 'k) \<Rightarrow> 'a list \<Rightarrow> 'a list" where
  "drop_duplicates_by key xs = dd_seen key [] xs"

definition drop_duplicates :: "'a list \<Rightarrow> 'a list" where
  "drop_duplicates xs = drop_duplicates_by (\<lambda>x. x) xs"

text \<open>
  \<open>left.merge(right, how="left")\<close>: every left row, in order, once for each right row
  whose key matches (in the order of the right table), and once with the right columns
  missing when no right row matches.  \<open>on\<close> compares the keys and \<open>combine\<close> builds the
  joined row.  A missing key matches a missing key, as in pandas.
\<close>

definition merge_left ::
  "('a \<Rightarrow> 'b \<Rightarrow> bool) \<Rightarrow> ('a \<Rightarrow> 'b option \<Rightarrow> 'c) \<Rightarrow> 'a list \<Rightarrow> 'b list \<Rightarrow> 'c list" where
  "merge_left on combine left right =
     concat (map (\<lambda>l. case filter (on l) right of
                           [] \<Rightarrow> [combine l None]
                         | r # rs \<Rightarrow> map (\<lambda>r. combine l (Some r)) (r # rs)) left)"

text \<open>Sum of a numeric column, missing cells skipped.\<close>

definition nansum :: "int option list \<Rightarrow> int" where
  "nansum col = sum_list (map (\<lambda>c. case c of None \<Rightarrow> 0 | Some n \<Rightarrow> n) col)"

datatype py_error = ValueError | DateError | PatternError

section \<open>etl.py: season of a month\<close>

definition get_season :: "pyval \<Rightarrow> string" where
  "get_season month =
     (if py_in month [12, 1, 2] then ''Summer''
      else if py_in month [3, 4, 5] then ''Autumn''
      else if py_in month [6, 7, 8] then ''Winter''
      else ''Spring'')"

section \<open>association_mining.py: vehicle type of a crash\<close>

record vehicle_row =
  v_crash_id :: pyval
  articulated_truck_involvement :: pyval
  heavy_rigid_truck_involvement :: pyval
  bus_involvement :: pyval

definition vehicle_type :: "vehicle_row \<Rightarrow> string" where
  "vehicle_type row =
     (if py_eq_int (articulated_truck_involvement row) 1 then ''Articulated Truck''
      else if py_eq_int (heavy_rigid_truck_involvement row) 1 then ''Heavy Rigid Truck''
      else if py_eq_int (bus_involvement row) 1 then ''Bus''
      else ''Other'')"

section \<open>etl.py: loading and filtering\<close>

text \<open>
  The two raw tables after \<open>read_csv\<close> and the cleaning of the column names.
  \<open>Number Fatalities\<close> and \<open>Age\<close> are numeric columns (\<open>None\<close>: a missing cell); every
  other column holds the cells of the file as they are written: an integer numeral, another
  text, or nothing.
\<close>

record raw_crash =
  fc_crash_id :: pyval
  fc_state :: pyval
  fc_month :: pyval
  fc_year :: pyval
  fc_dayweek :: pyval
  fc_time :: pyval
  fc_crash_type :: pyval
  fc_bus_involvement :: pyval
  fc_heavy_rigid_truck_involvement :: pyval
  fc_articulated_truck_involvement :: pyval
  fc_speed_limit :: pyval
  fc_national_road_type :: pyval
  fc_christmas_period :: pyval
  fc_easter_period :: pyval
  fc_national_remoteness_areas :: pyval
  fc_sa4_name_2021 :: pyval
  fc_national_lga_name_2021 :: pyval
  fc_day_of_week :: pyval
  fc_time_of_day :: pyval
  fc_number_fatalities :: "int option"

text \<open>A crash row once the standardized \<open>Date\<close> column is there.\<close>

record crash = raw_crash +
  fc_date :: string

record raw_fatality =
  fa_crash_id :: pyval
  fa_year :: pyval
  fa_road_user :: pyval
  fa_gender :: pyval
  fa_age :: "int option"
  fa_age_group :: pyval

text \<open>
  The type pandas gives a column: \<open>object\<close> when a cell is a text, \<open>float64\<close> when no cell
  is a text and one is missing, \<open>int64\<close> otherwise.  In a column of type \<open>object\<close> every
  cell that is not missing is held as a text, numerals too; in a column of type
  \<open>float64\<close> an integer \<open>n\<close> is held as the fraction \<open>n.0\<close>, which shows when the column is
  turned into texts.
\<close>

datatype dtype = Int64 | Float64 | Object

definition is_text :: "pyval \<Rightarrow> bool" where
  "is_text v = (case v of PStr s \<Rightarrow> True | PInt n \<Rightarrow> False | PNaN \<Rightarrow> False)"

definition dtype_of :: "pyval list \<Rightarrow> dtype" where
  "dtype_of col =
     (if list_ex is_text col then Object else if PNaN \<in> set col then Float64 else Int64)"

text \<open>A cell of the file as \<open>read_csv\<close> holds it, given the cells of its column.\<close>

definition as_read :: "pyval list \<Rightarrow> pyval \<Rightarrow> pyval" where
  "as_read col v =
     (if list_ex is_text col
      then (case v of PInt n \<Rightarrow> PStr (py_str n) | PStr s \<Rightarrow> PStr s | PNaN \<Rightarrow> PNaN)
      else v)"

definition read_crashes :: "raw_crash list \<Rightarrow> raw_crash list" where
  "read_crashes raw =
     map (\<lambda>r.
          \<lparr>fc_crash_id = as_read (map fc_crash_id raw) (fc_crash_id r),
           fc_state = as_read (map fc_state raw) (fc_state r),
           fc_month = as_read (map fc_month raw) (fc_month r),
           fc_year = as_read (map fc_year raw) (fc_year r),
           fc_dayweek = as_read (map fc_dayweek raw) (fc_dayweek r),
           fc_time = as_read (map fc_time raw) (fc_time r),
           fc_crash_type = as_read (map fc_crash_type raw) (fc_crash_type r),
           fc_bus_involvement = as_read (map fc_bus_involvement raw) (fc_bus_involvement r),
           fc_heavy_rigid_truck_involvement = as_read (map fc_heavy_rigid_truck_involvement raw) (fc_heavy_rigid_truck_involvement r),
           fc_articulated_truck_involvement = as_read (map fc_articulated_truck_involvement raw) (fc_articulated_truck_involvement r),
           fc_speed_limit = as_read (map fc_speed_limit raw) (fc_speed_limit r),
           fc_national_road_type = as_read (map fc_national_road_type raw) (fc_national_road_type r),
           fc_christmas_period = as_read (map fc_christmas_period raw) (fc_christmas_period r),
           fc_easter_period = as_read (map fc_easter_period raw) (fc_easter_period r),
           fc_national_remoteness_areas = as_read (map fc_national_remoteness_areas raw) (fc_national_remoteness_areas r),
           fc_sa4_name_2021 = as_read (map fc_sa4_name_2021 raw) (fc_sa4_name_2021 r),
           fc_national_lga_name_2021 = as_read (map fc_national_lga_name_2021 raw) (fc_national_lga_name_2021 r),
           fc_day_of_week = as_read (map fc_day_of_week raw) (fc_day_of_week r),
           fc_time_of_day = as_read (map fc_time_of_day raw) (fc_time_of_day r),
           fc_number_fatalities = fc_number_fatalities r\<rparr>) raw"

definition read_fatalities :: "raw_fatality list \<Rightarrow> raw_fatality list" where
  "read_fatalities raw =
     map (\<lambda>f.
          \<lparr>fa_crash_id = as_read (map fa_crash_id raw) (fa_crash_id f),
           fa_year = as_read (map fa_year raw) (fa_year f),
           fa_road_user = as_read (map fa_road_user raw) (fa_road_user f),
           fa_gender = as_read (map fa_gender raw) (fa_gender f), fa_age = fa_age f,
           fa_age_group = as_read (map fa_age_group raw) (fa_age_group f)\<rparr>) raw"

text \<open>
  \<open>astype(str)\<close> of a cell in a column of the given type (integers of at most fifteen
  digits, which a fraction shows in full).
\<close>

definition col_text :: "dtype \<Rightarrow> pyval \<Rightarrow> string" where
  "col_text dt v =
     (case dt of
        Int64 \<Rightarrow> astype_str v
      | Object \<Rightarrow> astype_str v
      | Float64 \<Rightarrow> (case v of PInt n \<Rightarrow> py_str n @ ''.0'' | PStr s \<Rightarrow> s | PNaN \<Rightarrow> ''nan''))"

text \<open>\<open>clean_missing_values\<close>: \<open>df.replace(-9, np.nan)\<close>, cell by cell.\<close>

definition clean_cell :: "pyval \<Rightarrow> pyval" where
  "clean_cell v = (if v = PInt (- 9) then PNaN else v)"

definition clean_num :: "int option \<Rightarrow> int option" where
  "clean_num v = (if v = Some (- 9) then None else v)"

definition clean_crash :: "raw_crash \<Rightarrow> raw_crash" where
  "clean_crash r =
     \<lparr>fc_crash_id = clean_cell (fc_crash_id r), fc_state = clean_cell (fc_state r),
      fc_month = clean_cell (fc_month r), fc_year = clean_cell (fc_year r),
      fc_dayweek = clean_cell (fc_dayweek r), fc_time = clean_cell (fc_time r),
      fc_crash_type = clean_cell (fc_crash_type r),
      fc_bus_involvement = clean_cell (fc_bus_involvement r),
      fc_heavy_rigid_truck_involvement = clean_cell (fc_heavy_rigid_truck_involvement r),
      fc_articulated_truck_involvement = clean_cell (fc_articulated_truck_involvement r),
      fc_speed_limit = clean_cell (fc_speed_limit r),
      fc_national_road_type = clean_cell (fc_national_road_type r),
      fc_christmas_period = clean_cell (fc_christmas_period r),
      fc_easter_period = clean_cell (fc_easter_period r),
      fc_national_remoteness_areas = clean_cell (fc_national_remoteness_areas r),
      fc_sa4_name_2021 = clean_cell (fc_sa4_name_2021 r),
      fc_national_lga_name_2021 = clean_cell (fc_national_lga_name_2021 r),
      fc_day_of_week = clean_cell (fc_day_of_week r),
      fc_time_of_day = clean_cell (fc_time_of_day r),
      fc_number_fatalities = clean_num (fc_number_fatalities r)\<rparr>"

definition clean_fatality :: "raw_fatality \<Rightarrow> raw_fatality" where
  "clean_fatality f =
     \<lparr>fa_crash_id = clean_cell (fa_crash_id f), fa_year = clean_cell (fa_year f),
      fa_road_user = clean_cell (fa_road_user f), fa_gender = clean_cell (fa_gender f),
      fa_age = clean_num (fa_age f), fa_age_group = clean_cell (fa_age_group f)\<rparr>"

text \<open>\<open>pd.to_numeric(..., errors='coerce')\<close> on a cell.\<close>

definition to_numeric :: "pyval \<Rightarrow> pyval" where
  "to_numeric v =
     (case v of
        PInt n \<Rightarrow> PInt n
      | PStr s \<Rightarrow> (case parse_int s of None \<Rightarrow> PNaN | Some n \<Rightarrow> PInt n)
      | PNaN \<Rightarrow> PNaN)"

text \<open>\<open>(Year >= 2001) & (Year <= 2023)\<close>: false on a missing year.\<close>

definition year_in_range :: "pyval \<Rightarrow> bool" where
  "year_in_range v = (case v of PInt y \<Rightarrow> 2001 \<le> y \<and> y \<le> 2023 | PStr s \<Rightarrow> False | PNaN \<Rightarrow> False)"

text \<open>
  Lines 172 to 184: the table as read, cleaned, with the year made numeric; then the
  rows of the window.
\<close>

definition coerce_crashes :: "raw_crash list \<Rightarrow> raw_crash list" where
  "coerce_crashes raw =
     map (\<lambda>r. r\<lparr>fc_year := to_numeric (fc_year r)\<rparr>) (map clean_crash (read_crashes raw))"

definition coerce_fatalities :: "raw_fatality list \<Rightarrow> raw_fatality list" where
  "coerce_fatalities raw =
     map (\<lambda>f. f\<lparr>fa_year := to_numeric (fa_year f)\<rparr>) (map clean_fatality (read_fatalities raw))"

definition filter_crashes :: "raw_crash list \<Rightarrow> raw_crash list" where
  "filter_crashes raw = filter (\<lambda>r. year_in_range (fc_year r)) (coerce_crashes raw)"

definition filter_fatalities :: "raw_fatality list \<Rightarrow> raw_fatality list" where
  "filter_fatalities raw = filter (\<lambda>f. year_in_range (fa_year f)) (coerce_fatalities raw)"

text \<open>
  The text handed to \<open>pd.to_datetime\<close> for the \<open>Date\<close> column (line 189): the texts of
  the year and of the month depend on the types of the two columns, which are those of
  the whole table, the rows outside the window included.
\<close>

definition date_text :: "dtype \<Rightarrow> dtype \<Rightarrow> 'a raw_crash_scheme \<Rightarrow> string" where
  "date_text year_dtype month_dtype r =
     col_text year_dtype (fc_year r) @ ''-'' @ zfill 2 (col_text month_dtype (fc_month r)) @ ''-01''"

text \<open>
  \<open>pd.to_datetime\<close> on such a text.  pandas accepts it when it reads \<open>YYYY-MM-01\<close> with a
  month from 01 to 12 and a year its timestamps can hold, and raises otherwise (\<open>None\<close>).
  Timestamps reach from 1677-09-21 to 2262-04-11; the two years at the ends are taken as
  out of reach.  Month texts that pandas would read as month names are outside this
  model.
\<close>

definition pd_to_datetime :: "string \<Rightarrow> string option" where
  "pd_to_datetime s =
     (case (parse_nat (take 4 s), parse_nat (take 2 (drop 5 s))) of
        (Some y, Some m) \<Rightarrow>
          if length s = 10 \<and> take 1 (drop 4 s) = ''-'' \<and> drop 7 s = ''-01'' \<and>
             1 \<le> m \<and> m \<le> 12 \<and> 1678 \<le> y \<and> y \<le> 2261
          then Some s else None
      | (Some y, None) \<Rightarrow> None
      | (None, m) \<Rightarrow> None)"

text \<open>
  The \<open>Year-Month\<close> key of line 545.  The script gets there only with a \<open>Date\<close> column,
  that is with a year column of integers and a month column of integers or texts, where
  the text of a cell does not depend on its column.
\<close>

definition year_month :: "'a raw_crash_scheme \<Rightarrow> string" where
  "year_month r = astype_str (fc_year r) @ ''-'' @ zfill 2 (astype_str (fc_month r))"

definition with_date :: "raw_crash \<Rightarrow> string \<Rightarrow> crash" where
  "with_date r d = raw_crash.extend r (crash.fields d)"

text \<open>
  The \<open>Time\<close> column, when it is a column of texts (dtype \<open>object\<close>): colons removed, filled
  to four characters, a colon put back after the first two.
\<close>

definition standard_time :: "pyval \<Rightarrow> pyval" where
  "standard_time v =
     (let t = zfill 4 (filter (\<lambda>c. c \<noteq> CHR '':'') (astype_str v))
      in PStr (take 2 t @ '':'' @ take 2 (drop 2 t)))"

definition standardize_time :: "dtype \<Rightarrow> crash list \<Rightarrow> crash list" where
  "standardize_time time_dtype fatal_crash =
     (if time_dtype = Object
      then map (\<lambda>r. r\<lparr>fc_time := standard_time (fc_time r)\<rparr>) fatal_crash
      else fatal_crash)"

text \<open>
  Lines 171 to 213: the filtered crash table with its \<open>Date\<close> column and the fatality
  table restricted to the crash identifiers that survived (\<open>isin\<close> does not match a
  missing identifier).  A date that does not parse raises outside every \<open>try\<close>, before
  any table is written: the script ends there (\<open>Inl\<close>).
\<close>

definition load ::
  "raw_crash list \<Rightarrow> raw_fatality list \<Rightarrow> py_error + (crash list \<times> raw_fatality list)" where
  "load raw_crash raw_fatalities =
     (let year_dtype = dtype_of (map fc_year (coerce_crashes raw_crash));
          month_dtype = dtype_of (map fc_month (coerce_crashes raw_crash));
          time_dtype = dtype_of (map fc_time (coerce_crashes raw_crash));
          fatal_crash = filter_crashes raw_crash;
          fatalities = filter_fatalities raw_fatalities
      in case those (map (\<lambda>r. pd_to_datetime (date_text year_dtype month_dtype r)) fatal_crash) of
           None \<Rightarrow> Inl DateError
         | Some dates \<Rightarrow>
             (let fatal_crash = map (\<lambda>(r, d). with_date r d) (zip fatal_crash dates);
                  fatal_crash = standardize_time time_dtype fatal_crash;
                  valid_crash_ids = set (map fc_crash_id fatal_crash)
              in Inr (fatal_crash,
                      filter (\<lambda>f. fa_crash_id f \<noteq> PNaN \<and> fa_crash_id f \<in> valid_crash_ids)
                        fatalities)))"

section \<open>etl.py: the dimension tables\<close>

definition fillna :: "pyval \<Rightarrow> pyval \<Rightarrow> pyval" where
  "fillna d v = (if v = PNaN then d else v)"

record location_dim_row =
  ld_crash_id :: pyval
  ld_state :: pyval
  ld_national_remoteness_areas :: pyval
  ld_sa4_name_2021 :: pyval
  ld_national_lga_name_2021 :: pyval

definition location_dim :: "crash list \<Rightarrow> location_dim_row list" where
  "location_dim fatal_crash =
     drop_duplicates
       (map (\<lambda>r. \<lparr>ld_crash_id = fc_crash_id r, ld_state = fc_state r,
                   ld_national_remoteness_areas = fc_national_remoteness_areas r,
                   ld_sa4_name_2021 = fillna (PStr ''Unknown'') (fc_sa4_name_2021 r),
                   ld_national_lga_name_2021 =
                     fillna (PStr ''Unknown'') (fc_national_lga_name_2021 r)\<rparr>) fatal_crash)"

record vehicle_dim_row =
  vd_crash_id :: pyval
  vd_bus_involvement :: pyval
  vd_heavy_rigid_truck_involvement :: pyval
  vd_articulated_truck_involvement :: pyval

definition vehicle_dim :: "crash list \<Rightarrow> vehicle_dim_row list" where
  "vehicle_dim fatal_crash =
     drop_duplicates
       (map (\<lambda>r. \<lparr>vd_crash_id = fc_crash_id r, vd_bus_involvement = fc_bus_involvement r,
                   vd_heavy_rigid_truck_involvement = fc_heavy_rigid_truck_involvement r,
                   vd_articulated_truck_involvement = fc_articulated_truck_involvement r\<rparr>)
          fatal_crash)"

record road_condition_dim_row =
  rc_crash_id :: pyval
  rc_speed_limit :: pyval
  rc_national_road_type :: pyval

definition road_condition_dim :: "crash list \<Rightarrow> road_condition_dim_row list" where
  "road_condition_dim fatal_crash =
     drop_duplicates
       (map (\<lambda>r. \<lparr>rc_crash_id = fc_crash_id r, rc_speed_limit = fc_speed_limit r,
                   rc_national_road_type = fc_national_road_type r\<rparr>) fatal_crash)"

record time_dim_row =
  td_crash_id :: pyval
  td_month :: pyval
  td_year :: pyval
  td_dayweek :: pyval
  td_time :: pyval
  td_day_of_week :: pyval
  td_time_of_day :: pyval
  td_christmas_period :: pyval
  td_easter_period :: pyval
  td_date :: string

definition time_dim :: "crash list \<Rightarrow> time_dim_row list" where
  "time_dim fatal_crash =
     drop_duplicates
       (map (\<lambda>r. \<lparr>td_crash_id = fc_crash_id r, td_month = fc_month r, td_year = fc_year r,
                   td_dayweek = fc_dayweek r, td_time = fc_time r,
                   td_day_of_week = fc_day_of_week r, td_time_of_day = fc_time_of_day r,
                   td_christmas_period = fc_christmas_period r,
                   td_easter_period = fc_easter_period r, td_date = fc_date r\<rparr>) fatal_crash)"

record crash_type_dim_row =
  cd_crash_id :: pyval
  cd_crash_type :: pyval
  cd_number_fatalities :: "int option"

definition crash_type_dim :: "crash list \<Rightarrow> crash_type_dim_row list" where
  "crash_type_dim fatal_crash =
     drop_duplicates
       (map (\<lambda>r. \<lparr>cd_crash_id = fc_crash_id r, cd_crash_type = fc_crash_type r,
                   cd_number_fatalities = fc_number_fatalities r\<rparr>) fatal_crash)"

subsection \<open>Driver dimension and the repair of missing ages\<close>

record driver_dim_row =
  dd_crash_id :: pyval
  dd_road_user :: pyval
  dd_gender :: pyval
  dd_age :: "rat option"
  dd_age_group :: pyval

text \<open>
  \<open>Series.median()\<close>: the middle of the sorted known values, the mean of the two middle
  ones when their number is even, and missing (\<open>None\<close>) when no value is known.  Ages are
  exact fractions here, not floating-point numbers.
\<close>

definition known :: "'a option list \<Rightarrow> 'a list" where
  "known col = concat (map (\<lambda>c. case c of None \<Rightarrow> [] | Some a \<Rightarrow> [a]) col)"

definition median :: "rat list \<Rightarrow> rat option" where
  "median xs =
     (let s = sort xs; n = length s
      in if n = 0 then None
         else if odd n then Some (s ! (n div 2))
         else Some ((s ! (n div 2 - 1) + s ! (n div 2)) / 2))"

definition median_age :: "driver_dim_row list \<Rightarrow> rat option" where
  "median_age rows = median (known (map dd_age rows))"

text \<open>
  The dictionary \<open>age_group_mapping\<close>: for every age-group label of the table that is
  neither missing nor one of the labels standing for "unknown", the median age of the
  rows with that label.  \<open>etl.py\<close> takes \<open>'Unknown'\<close> and \<open>'-9'\<close> as such labels,
  \<open>fix_driver_age.py\<close> only \<open>'Unknown'\<close>; the two scripts are otherwise the same code.
\<close>

definition age_group_mapping :: "string list \<Rightarrow> driver_dim_row list \<Rightarrow> (pyval \<times> rat option) list" where
  "age_group_mapping unknown rows =
     map (\<lambda>g. (g, median_age (filter (\<lambda>r. dd_age_group r = g) rows)))
       (filter (\<lambda>g. g \<notin> PStr ` set unknown)
          (drop_duplicates (filter (\<lambda>g. g \<noteq> PNaN) (map dd_age_group rows))))"

definition get_median_age ::
  "string list \<Rightarrow> driver_dim_row list \<Rightarrow> (pyval \<times> rat option) list \<Rightarrow> pyval \<Rightarrow> rat option" where
  "get_median_age unknown rows mapping age_group =
     (if age_group = PNaN \<or> age_group \<in> PStr ` set unknown then median_age rows
      else case map_of mapping age_group of
             None \<Rightarrow> median_age rows
           | Some m \<Rightarrow> m)"

text \<open>
  The first fill (\<open>driver_dim.loc[...] = ....apply(get_median_age)\<close>): every row without
  an age gets the value \<open>get_median_age\<close> returns for its age group, computed from the
  table as it was before the fill.
\<close>

definition fill_by_age_group :: "string list \<Rightarrow> driver_dim_row list \<Rightarrow> driver_dim_row list" where
  "fill_by_age_group unknown rows =
     (let mapping = age_group_mapping unknown rows
      in map (\<lambda>r. if dd_age r = None
                      then r\<lparr>dd_age := get_median_age unknown rows mapping (dd_age_group r)\<rparr>
                      else r) rows)"

text \<open>
  The whole repair: the first fill, then the ages still missing are set to the median of
  the \<open>Age\<close> column as the first fill left it.
\<close>

definition fill_missing_ages :: "string list \<Rightarrow> driver_dim_row list \<Rightarrow> driver_dim_row list" where
  "fill_missing_ages unknown rows =
     (if list_ex (\<lambda>r. dd_age r = None) rows then
        (let filled = fill_by_age_group unknown rows;
             overall_median = median_age filled
         in map (\<lambda>r. if dd_age r = None then r\<lparr>dd_age := overall_median\<rparr> else r) filled)
      else rows)"

definition driver_dim :: "raw_fatality list \<Rightarrow> driver_dim_row list" where
  "driver_dim fatalities =
     drop_duplicates
       (fill_missing_ages [''Unknown'', ''-9'']
          (map (\<lambda>f. \<lparr>dd_crash_id = fa_crash_id f, dd_road_user = fa_road_user f,
                      dd_gender = fa_gender f, dd_age = map_option of_int (fa_age f),
                      dd_age_group = fa_age_group f\<rparr>) fatalities))"

text \<open>\<open>fix_driver_age.py\<close>, on the rows of \<open>driver_dimension.csv\<close>.\<close>

definition fix_driver_age :: "driver_dim_row list \<Rightarrow> driver_dim_row list" where
  "fix_driver_age rows = fill_missing_ages [''Unknown''] rows"

subsection \<open>Population dimension: matching the remoteness areas\<close>

text \<open>A row of \<open>remoteness_df\<close>, the reference table parsed from the remoteness file.\<close>

record remoteness_ref =
  rr_state :: string
  rr_remoteness_category :: string
  rr_remoteness_area :: string
  rr_population :: rat

definition states :: "string list" where
  "states = [''NSW'', ''Vic'', ''Qld'', ''SA'', ''WA'', ''Tas'', ''NT'', ''ACT'']"

text \<open>
  The loop over the reference rows for one area name (lines 346 to 362).  \<open>best_match\<close> is
  the loop variable; an equal name and a contained name end the loop, a row matching by
  category and state is remembered and the loop goes on.
\<close>

fun find_match :: "string \<Rightarrow> remoteness_ref list \<Rightarrow> remoteness_ref option \<Rightarrow> remoteness_ref option" where
  "find_match area [] best_match = best_match"
| "find_match area (row # rows) best_match =
     (if area = rr_remoteness_area row then Some row
      else if str_in (rr_remoteness_area row) area then Some row
      else if str_in (rr_remoteness_category row) area \<and> str_in (rr_state row) area
           then find_match area rows (Some row)
      else find_match area rows best_match)"

record population_entry =
  pe_remoteness_area :: string
  pe_state :: string
  pe_population :: "rat option"
  pe_data_source :: string

definition area_state :: "string \<Rightarrow> string" where
  "area_state area = (case find (\<lambda>s. str_in s area) states of None \<Rightarrow> ''Unknown'' | Some s \<Rightarrow> s)"

definition text_cells :: "pyval list \<Rightarrow> string list" where
  "text_cells col = concat (map (\<lambda>v. case v of PStr s \<Rightarrow> [s] | PInt n \<Rightarrow> [] | PNaN \<Rightarrow> []) col)"

definition unique_remoteness :: "crash list \<Rightarrow> pyval list" where
  "unique_remoteness fatal_crash =
     drop_duplicates (filter (\<lambda>v. v \<noteq> PNaN) (map fc_national_remoteness_areas fatal_crash))"

text \<open>
  The entries of the population dimension (lines 336 to 407): one for every distinct text
  among the area names of the crashes, with the population of its match.
\<close>

definition remoteness_entries :: "pyval list \<Rightarrow> remoteness_ref list \<Rightarrow> population_entry list" where
  "remoteness_entries areas remoteness_df =
     (if remoteness_df \<noteq> [] then
        map (\<lambda>area.
               (case find_match area remoteness_df None of
                  None \<Rightarrow> \<lparr>pe_remoteness_area = area, pe_state = area_state area,
                            pe_population = None, pe_data_source = ''Derived''\<rparr>
                | Some row \<Rightarrow> \<lparr>pe_remoteness_area = area, pe_state = area_state area,
                               pe_population = Some (rr_population row),
                               pe_data_source = ''Reference Data''\<rparr>))
            (text_cells areas)
      else
        map (\<lambda>area. \<lparr>pe_remoteness_area = area, pe_state = area_state area,
                       pe_population = None, pe_data_source = ''Derived''\<rparr>)
            (text_cells areas))"

text \<open>
  The population dimension is the list of these entries; when there is none, it is the
  list of distinct pairs of state and area name with neither missing.
\<close>

datatype population_dim =
  Enhanced "population_entry list"
| Basic "(pyval \<times> pyval) list"

definition population_dim :: "crash list \<Rightarrow> remoteness_ref list \<Rightarrow> population_dim" where
  "population_dim fatal_crash remoteness_df =
     (let entries = remoteness_entries (unique_remoteness fatal_crash) remoteness_df
      in if entries \<noteq> [] then Enhanced entries
         else Basic (drop_duplicates
                       (filter (\<lambda>(s, a). s \<noteq> PNaN \<and> a \<noteq> PNaN)
                          (map (\<lambda>r. (fc_state r, fc_national_remoteness_areas r)) fatal_crash))))"

text \<open>A list of results is a result: the first error, or all the values.\<close>

fun collect :: "('e + 'a) list \<Rightarrow> 'e + 'a list" where
  "collect [] = Inr []"
| "collect (x # xs) =
     (case x of
        Inl e \<Rightarrow> Inl e
      | Inr a \<Rightarrow> (case collect xs of Inl e \<Rightarrow> Inl e | Inr as \<Rightarrow> Inr (a # as)))"

subsection \<open>LGA dimension\<close>

text \<open>
  A row of \<open>lga_df\<close>, the reference table parsed from the LGA file.  \<open>re_search pat name\<close>
  stands for the regular-expression search behind \<open>Series.str.contains(pat)\<close> on one name
  (\<open>None\<close>: the pattern does not compile and pandas raises).
\<close>

record lga_ref =
  lr_lga_code :: string
  lr_lga_name :: string
  lr_lga_population :: rat

record lga_entry =
  le_lga_name :: string
  le_population :: "rat option"
  le_data_source :: string

definition unique_lgas :: "crash list \<Rightarrow> pyval list" where
  "unique_lgas fatal_crash =
     drop_duplicates (filter (\<lambda>v. v \<noteq> PNaN) (map fc_national_lga_name_2021 fatal_crash))"

definition lga_entry_of ::
  "(string \<Rightarrow> string \<Rightarrow> bool option) \<Rightarrow> lga_ref list \<Rightarrow> string \<Rightarrow> py_error + lga_entry" where
  "lga_entry_of re_search lga_df lga =
     (case those (map (\<lambda>r. re_search lga (lr_lga_name r)) lga_df) of
        None \<Rightarrow> Inl PatternError
      | Some flags \<Rightarrow>
          (case filter snd (zip lga_df flags) of
             [] \<Rightarrow> Inr \<lparr>le_lga_name = lga, le_population = None, le_data_source = ''Derived''\<rparr>
           | m # ms \<Rightarrow> Inr \<lparr>le_lga_name = lga,
                             le_population = Some (lr_lga_population (fst m)),
                             le_data_source = ''Reference Data''\<rparr>))"

definition lga_entries ::
  "(string \<Rightarrow> string \<Rightarrow> bool option) \<Rightarrow> pyval list \<Rightarrow> lga_ref list \<Rightarrow> py_error + lga_entry list" where
  "lga_entries re_search lgas lga_df =
     (if lga_df \<noteq> [] then
        collect (map (lga_entry_of re_search lga_df)
                   (filter (\<lambda>lga. lga \<noteq> ''Unknown'') (text_cells lgas)))
      else
        Inr (map (\<lambda>lga. \<lparr>le_lga_name = lga, le_population = None, le_data_source = ''Derived''\<rparr>)
               (filter (\<lambda>lga. lga \<noteq> ''Unknown'') (text_cells lgas))))"

subsection \<open>Season dimension\<close>

record season_dim_row =
  sd_year :: pyval
  sd_month :: pyval
  sd_season :: string
  sd_quarter :: int
  sd_is_holiday_season :: int
  sd_is_school_holiday :: int
  sd_tourism_season :: string
  sd_date :: string
  sd_season_id :: string

text \<open>
  One season row (lines 485 to 521 and 527).  The format \<open>{month:02d}\<close> raises a
  \<open>ValueError\<close> unless the month is an integer.
\<close>

definition season_row_of :: "pyval \<Rightarrow> pyval \<Rightarrow> py_error + season_dim_row" where
  "season_row_of y mo =
     (case mo of
        PInt m \<Rightarrow>
          (let quarter = (m - 1) div 3 + 1
           in Inr \<lparr>sd_year = y, sd_month = mo, sd_season = get_season mo,
                   sd_quarter = quarter,
                   sd_is_holiday_season = (if py_in mo [11, 12, 1] then 1 else 0),
                   sd_is_school_holiday = (if py_in mo [1, 4, 7, 9, 10] then 1 else 0),
                   sd_tourism_season =
                     (if py_in mo [12, 1, 2] then ''Peak''
                      else if py_in mo [6, 7] then ''Secondary Peak''
                      else ''Off Peak''),
                   sd_date = astype_str y @ ''-'' @ zfill 2 (py_str m) @ ''-01'',
                   sd_season_id = astype_str y @ ''_'' @ py_str quarter\<rparr>)
      | PStr s \<Rightarrow> Inl ValueError
      | PNaN \<Rightarrow> Inl ValueError)"

definition year_month_combinations :: "crash list \<Rightarrow> (pyval \<times> pyval) list" where
  "year_month_combinations fatal_crash =
     drop_duplicates (map (\<lambda>r. (fc_year r, fc_month r)) fatal_crash)"

definition season_dim :: "crash list \<Rightarrow> py_error + season_dim_row list" where
  "season_dim fatal_crash =
     collect (map (\<lambda>(y, m). season_row_of y m) (year_month_combinations fatal_crash))"

subsection \<open>The fact table of etl.py\<close>

record etl_fact_row =
  ef_crash_id :: pyval
  ef_state :: pyval
  ef_number_fatalities :: "int option"
  ef_year :: pyval
  ef_month :: pyval
  ef_date :: string
  ef_monthly_crash_count :: "int option"
  ef_monthly_fatality_count :: "int option"
  ef_season :: pyval
  ef_season_id :: pyval

text \<open>
  \<open>groupby('Year-Month')\<close>: for every key, in ascending order, the number of rows with a
  crash identifier and the sum of their fatalities.
\<close>

definition monthly_counts :: "crash list \<Rightarrow> (string \<times> int \<times> int) list" where
  "monthly_counts fatal_crash =
     map (\<lambda>k. (k,
                int (length (filter (\<lambda>r. year_month r = k \<and> fc_crash_id r \<noteq> PNaN) fatal_crash)),
                nansum (map fc_number_fatalities (filter (\<lambda>r. year_month r = k) fatal_crash))))
         (sort (remdups (map year_month fatal_crash)))"

text \<open>
  Lines 535 to 578.  While the table is built a row travels with its \<open>Year-Month\<close> key
  (the second component), which is dropped before the duplicates are removed.
\<close>

definition fact_table :: "crash list \<Rightarrow> season_dim_row list \<Rightarrow> etl_fact_row list" where
  "fact_table fatal_crash season_lookup =
     (let fact =
            map (\<lambda>r. \<lparr>ef_crash_id = fc_crash_id r, ef_state = fc_state r,
                        ef_number_fatalities = fc_number_fatalities r, ef_year = fc_year r,
                        ef_month = fc_month r, ef_date = fc_date r,
                        ef_monthly_crash_count = None, ef_monthly_fatality_count = None,
                        ef_season = PNaN, ef_season_id = PNaN\<rparr>) fatal_crash;
          fact =
            merge_left (\<lambda>f r. fc_crash_id r = ef_crash_id f)
              (\<lambda>f m. (f, case m of None \<Rightarrow> PNaN | Some r \<Rightarrow> PStr (year_month r)))
              fact fatal_crash;
          fact =
            merge_left (\<lambda>(f, ym) c. PStr (fst c) = ym)
              (\<lambda>(f, ym) m.
                 (case m of
                    None \<Rightarrow> f
                  | Some c \<Rightarrow> f\<lparr>ef_monthly_crash_count := Some (fst (snd c)),
                                 ef_monthly_fatality_count := Some (snd (snd c))\<rparr>, ym))
              fact (monthly_counts fatal_crash);
          fact =
            merge_left (\<lambda>(f, ym) s. sd_year s = ef_year f \<and> sd_month s = ef_month f)
              (\<lambda>(f, ym) m.
                 (case m of
                    None \<Rightarrow> f
                  | Some s \<Rightarrow> f\<lparr>ef_season := PStr (sd_season s),
                                 ef_season_id := PStr (sd_season_id s)\<rparr>, ym))
              fact season_lookup
      in drop_duplicates (map fst fact))"

section \<open>creat_fact_table.py: the fact table\<close>

text \<open>
  The tables \<open>create_fact_table\<close> reads, with the columns it uses (names in lower case, as
  its \<open>read_csv\<close> makes them).  \<open>number fatalities\<close> is a numeric column, \<open>None\<close> a
  missing cell; the other columns hold cells as they are.
\<close>

record crash_type_row =
  ct_crash_id :: pyval
  ct_crash_type :: pyval
  ct_number_fatalities :: "int option"

record driver_row =
  dr_driver_id :: pyval
  dr_crash_id :: pyval

record location_row =
  lo_location_id :: pyval
  lo_state :: pyval

record population_row =
  po_population_id :: pyval
  po_state :: pyval
  po_year :: pyval

record season_row =
  se_season_id :: pyval
  se_year :: pyval
  se_month :: pyval

text \<open>
  A row of \<open>fact_df\<close> while it is assembled.  pandas adds the columns one after the other;
  here a column holds a placeholder (\<open>PNaN\<close>, \<open>0\<close>, the empty text) until the step that
  assigns it, and no step reads a column before that.  The columns of \<open>crash_df\<close> that the
  final selection drops unread (\<open>crash type\<close>) are not carried.
\<close>

record fact_row =
  fact_id :: int
  crash_id :: pyval
  fatalities :: "int option"
  year :: int
  state :: pyval
  season_id :: pyval
  time_id :: pyval
  road_condition_id :: pyval
  vehicle_id :: pyval
  driver_count :: int
  location_id :: pyval
  population_id :: pyval
  lga_id :: pyval
  yearly_crash_count :: int
  yearly_fatality_count :: int
  crash_date :: string

text \<open>The written table: \<open>fact_df[columns_order]\<close>.\<close>

record fact_table_row =
  ft_fact_id :: int
  ft_crash_id :: pyval
  ft_time_id :: pyval
  ft_location_id :: pyval
  ft_road_condition_id :: pyval
  ft_season_id :: pyval
  ft_vehicle_id :: pyval
  ft_driver_count :: int
  ft_population_id :: pyval
  ft_lga_id :: pyval
  ft_fatalities :: "int option"
  ft_yearly_crash_count :: int
  ft_yearly_fatality_count :: int
  ft_crash_date :: string

text \<open>
  Year and state out of the crash identifier: \<open>astype(str).str[:4].astype(int)\<close>, which
  raises when the four characters are no integer, and \<open>astype(str).str[4].map({...})\<close>,
  which gives a missing cell for a short identifier or a character outside the table.
\<close>

definition decode_year :: "pyval \<Rightarrow> int option" where
  "decode_year cid = parse_int (take 4 (astype_str cid))"

definition state_table :: "(string \<times> string) list" where
  "state_table =
     [(''1'', ''NSW''), (''2'', ''VIC''), (''3'', ''QLD''), (''4'', ''SA''),
      (''5'', ''WA''), (''6'', ''TAS''), (''7'', ''NT''), (''8'', ''ACT'')]"

definition decode_state :: "pyval \<Rightarrow> pyval" where
  "decode_state cid =
     (case str_at 4 (astype_str cid) of
        None \<Rightarrow> PNaN
      | Some c \<Rightarrow> (case map_of state_table c of None \<Rightarrow> PNaN | Some s \<Rightarrow> PStr s))"

definition decode_years :: "crash_type_row list \<Rightarrow> int list option" where
  "decode_years crash_df = those (map (\<lambda>c. decode_year (ct_crash_id c)) crash_df)"

text \<open>Step 3: the crash table with \<open>fact_id\<close> 1..N, \<open>year\<close> and \<open>state\<close>.\<close>

definition base_fact :: "crash_type_row list \<Rightarrow> int list \<Rightarrow> fact_row list" where
  "base_fact crash_df years =
     map (\<lambda>(i, c, y).
            \<lparr>fact_id = int i + 1, crash_id = ct_crash_id c,
             fatalities = ct_number_fatalities c, year = y,
             state = decode_state (ct_crash_id c), season_id = PNaN, time_id = PNaN,
             road_condition_id = PNaN, vehicle_id = PNaN, driver_count = 0,
             location_id = PNaN, population_id = PNaN, lga_id = PNaN,
             yearly_crash_count = 0, yearly_fatality_count = 0, crash_date = []\<rparr>)
         (zip [0..<length crash_df] (zip crash_df years))"

text \<open>
  Step 4: \<open>time_id\<close> of a season row is the year's text followed by the month's text
  filled to two characters, read as an integer (\<open>None\<close>: \<open>astype(int)\<close> raises).  The
  season table is then reduced to the first row of every year and joined on the year.
\<close>

definition time_id_of :: "season_row \<Rightarrow> int option" where
  "time_id_of s = parse_int (astype_str (se_year s) @ zfill 2 (astype_str (se_month s)))"

definition season_time_ids :: "season_row list \<Rightarrow> int list option" where
  "season_time_ids season_df = those (map time_id_of season_df)"

definition merge_season :: "fact_row list \<Rightarrow> (season_row \<times> int) list \<Rightarrow> fact_row list" where
  "merge_season fact_df season_df =
     merge_left (\<lambda>f s. se_year (fst s) = PInt (year f))
       (\<lambda>f m. case m of
                 None \<Rightarrow> f\<lparr>season_id := PNaN, time_id := PNaN\<rparr>
               | Some s \<Rightarrow> f\<lparr>season_id := se_season_id (fst s), time_id := PInt (snd s)\<rparr>)
       fact_df (drop_duplicates_by (\<lambda>s. se_year (fst s)) season_df)"

text \<open>
  Step 7: \<open>groupby("crash_id")["driver_id"].count()\<close> has one row for every crash
  identifier of the driver table that is not missing, with the number of its rows whose
  \<open>driver_id\<close> is not missing.  (pandas lists the groups in key order; the table is only
  joined on its key, which is unique, so the order of its rows does not show.)  A fact row
  without a group gets a missing count, which \<open>fillna(0)\<close> turns into 0.
\<close>

definition driver_counts :: "driver_row list \<Rightarrow> (pyval \<times> int) list" where
  "driver_counts driver_df =
     map (\<lambda>k. (k, int (length (filter (\<lambda>d. dr_crash_id d = k \<and> dr_driver_id d \<noteq> PNaN)
                                      driver_df))))
         (drop_duplicates (filter (\<lambda>k. k \<noteq> PNaN) (map dr_crash_id driver_df)))"

definition merge_driver_count :: "fact_row list \<Rightarrow> driver_row list \<Rightarrow> fact_row list" where
  "merge_driver_count fact_df driver_df =
     merge_left (\<lambda>f d. fst d = crash_id f)
       (\<lambda>f m. case m of
                 None \<Rightarrow> f\<lparr>driver_count := 0\<rparr>
               | Some d \<Rightarrow> f\<lparr>driver_count := snd d\<rparr>)
       fact_df (driver_counts driver_df)"

text \<open>Steps 8 and 9: location joined on the state, population on state and year.\<close>

definition merge_location :: "fact_row list \<Rightarrow> location_row list \<Rightarrow> fact_row list" where
  "merge_location fact_df location_df =
     merge_left (\<lambda>f l. lo_state l = state f)
       (\<lambda>f m. case m of
                 None \<Rightarrow> f\<lparr>location_id := PNaN\<rparr>
               | Some l \<Rightarrow> f\<lparr>location_id := lo_location_id l\<rparr>)
       fact_df location_df"

definition merge_population :: "fact_row list \<Rightarrow> population_row list \<Rightarrow> fact_row list" where
  "merge_population fact_df population_df =
     merge_left (\<lambda>f p. po_state p = state f \<and> po_year p = PInt (year f))
       (\<lambda>f m. case m of
                 None \<Rightarrow> f\<lparr>population_id := PNaN\<rparr>
               | Some p \<Rightarrow> f\<lparr>population_id := po_population_id p\<rparr>)
       fact_df population_df"

text \<open>
  Step 11: for every year of the fact rows, in ascending order, the number of rows with a
  crash identifier and the sum of their fatalities; joined back on the year.
\<close>

definition yearly_stats :: "fact_row list \<Rightarrow> (int \<times> int \<times> int) list" where
  "yearly_stats fact_df =
     map (\<lambda>y. (y,
                int (length (filter (\<lambda>f. year f = y \<and> crash_id f \<noteq> PNaN) fact_df)),
                nansum (map fatalities (filter (\<lambda>f. year f = y) fact_df))))
         (sort (remdups (map year fact_df)))"

definition merge_yearly :: "fact_row list \<Rightarrow> fact_row list" where
  "merge_yearly fact_df =
     merge_left (\<lambda>f s. fst s = year f)
       (\<lambda>f m. case m of
                 None \<Rightarrow> f
               | Some s \<Rightarrow> f\<lparr>yearly_crash_count := fst (snd s),
                              yearly_fatality_count := snd (snd s)\<rparr>)
       fact_df (yearly_stats fact_df)"

definition select_columns :: "fact_row \<Rightarrow> fact_table_row" where
  "select_columns f =
     \<lparr>ft_fact_id = fact_id f, ft_crash_id = crash_id f, ft_time_id = time_id f,
      ft_location_id = location_id f, ft_road_condition_id = road_condition_id f,
      ft_season_id = season_id f, ft_vehicle_id = vehicle_id f,
      ft_driver_count = driver_count f, ft_population_id = population_id f,
      ft_lga_id = lga_id f, ft_fatalities = fatalities f,
      ft_yearly_crash_count = yearly_crash_count f,
      ft_yearly_fatality_count = yearly_fatality_count f, ft_crash_date = crash_date f\<rparr>"

text \<open>Steps 3 to 10: the fact rows with every dimension joined.\<close>

definition join_dimensions ::
  "crash_type_row list \<Rightarrow> int list \<Rightarrow> driver_row list \<Rightarrow> location_row list \<Rightarrow>
   population_row list \<Rightarrow> (season_row \<times> int) list \<Rightarrow> fact_row list" where
  "join_dimensions crash_df years driver_df location_df population_df season_df =
     (let fact_df = base_fact crash_df years;
          fact_df = merge_season fact_df season_df;
          fact_df = map (\<lambda>f. f\<lparr>road_condition_id := crash_id f\<rparr>) fact_df;
          fact_df = map (\<lambda>f. f\<lparr>vehicle_id := crash_id f\<rparr>) fact_df;
          fact_df = merge_driver_count fact_df driver_df;
          fact_df = merge_location fact_df location_df;
          fact_df = merge_population fact_df population_df
      in map (\<lambda>f. f\<lparr>lga_id := crash_id f\<rparr>) fact_df)"

text \<open>
  The whole function.  \<open>to_datetime\<close> stands for \<open>pd.to_datetime\<close> on one text (\<open>None\<close>: it
  raises).  Every exception ends in the \<open>except\<close> branch, which writes no table and
  returns \<open>False\<close>: that is \<open>Inl\<close> here; \<open>Inr\<close> carries the table written when the function
  returns \<open>True\<close>.
\<close>

definition create_fact_table ::
  "(string \<Rightarrow> string option) \<Rightarrow> crash_type_row list \<Rightarrow> driver_row list \<Rightarrow>
   location_row list \<Rightarrow> population_row list \<Rightarrow> season_row list \<Rightarrow>
   py_error + fact_table_row list" where
  "create_fact_table to_datetime crash_df driver_df location_df population_df season_df =
     (case decode_years crash_df of
        None \<Rightarrow> Inl ValueError
      | Some years \<Rightarrow>
          (case season_time_ids season_df of
             None \<Rightarrow> Inl ValueError
           | Some time_ids \<Rightarrow>
               (let fact_df = merge_yearly
                                (join_dimensions crash_df years driver_df location_df
                                   population_df (zip season_df time_ids))
                in case those (map (\<lambda>f. to_datetime (py_str (year f) @ ''-01-01'')) fact_df) of
                     None \<Rightarrow> Inl DateError
                   | Some dates \<Rightarrow>
                       Inr (map select_columns
                              (map (\<lambda>(f, d). f\<lparr>crash_date := d\<rparr>) (zip fact_df dates))))))"

section \<open>Example tables\<close>

text \<open>Small Driver tables on which the repair of the ages is run further down.\<close>

definition driver :: "int \<Rightarrow> rat option \<Rightarrow> pyval \<Rightarrow> driver_dim_row" where
  "driver cid age grp =
     \<lparr>dd_crash_id = PInt cid, dd_road_user = PStr ''Driver'', dd_gender = PStr ''Male'',
      dd_age = age, dd_age_group = grp\<rparr>"

definition example_drivers :: "driver_dim_row list" where
  "example_drivers =
     [driver 20101001 (Some 20) (PStr ''17_to_25''), driver 20101002 (Some 22) (PStr ''17_to_25''),
      driver 20101003 (Some 24) (PStr ''17_to_25''), driver 20101004 None (PStr ''17_to_25''),
      driver 20101005 None (PStr ''Unknown''), driver 20101006 None (PStr ''26_to_39'')]"

definition skewed_drivers :: "driver_dim_row list" where
  "skewed_drivers =
     [driver 20101001 (Some 10) (PStr ''0_to_16''), driver 20101002 (Some 100) (PStr ''75_or_older''),
      driver 20101003 None (PStr ''0_to_16''), driver 20101004 None (PStr ''0_to_16''),
      driver 20101005 None (PStr ''0_to_16''), driver 20101006 None (PStr ''Unknown''),
      driver 20101007 None (PStr ''40_to_64'')]"

text \<open>A raw crash row and a raw fatality row, and the tables loaded from them.\<close>

definition example_crash :: "int \<Rightarrow> pyval \<Rightarrow> int \<Rightarrow> raw_crash" where
  "example_crash cid y m =
     \<lparr>fc_crash_id = PInt cid, fc_state = PStr ''NSW'', fc_month = PInt m, fc_year = y,
      fc_dayweek = PStr ''Friday'', fc_time = PInt 1230, fc_crash_type = PStr ''Single'',
      fc_bus_involvement = PStr ''No'', fc_heavy_rigid_truck_involvement = PStr ''No'',
      fc_articulated_truck_involvement = PStr ''No'', fc_speed_limit = PInt 100,
      fc_national_road_type = PStr ''National or State Highway'',
      fc_christmas_period = PStr ''No'', fc_easter_period = PStr ''No'',
      fc_national_remoteness_areas = PStr ''Inner Regional Australia'',
      fc_sa4_name_2021 = PStr ''Riverina'', fc_national_lga_name_2021 = PStr ''Wagga Wagga'',
      fc_day_of_week = PStr ''Weekday'', fc_time_of_day = PStr ''Day'',
      fc_number_fatalities = Some 1\<rparr>"

definition example_fatality :: "int \<Rightarrow> pyval \<Rightarrow> raw_fatality" where
  "example_fatality cid y =
     \<lparr>fa_crash_id = PInt cid, fa_year = y, fa_road_user = PStr ''Driver'',
      fa_gender = PStr ''Male'', fa_age = Some 40, fa_age_group = PStr ''40_to_64''\<rparr>"



text \<open>
  Five crashes of 2010, three in January and two in February: as rows of the crash-type
  dimension read by \<open>create_fact_table\<close>, and as raw crash rows of \<open>etl.py\<close>, with the
  tables both scripts make of them.
\<close>

definition crash_type :: "int \<Rightarrow> int \<Rightarrow> crash_type_row" where
  "crash_type cid n = \<lparr>ct_crash_id = PInt cid, ct_crash_type = PStr ''Single'', ct_number_fatalities = Some n\<rparr>"

definition example_crash_types :: "crash_type_row list" where
  "example_crash_types =
     [crash_type 20101001 1, crash_type 20101002 2, crash_type 20101003 1,
      crash_type 20101004 1, crash_type 20101005 3]"

text \<open>
  Dimension tables for the five crashes, the location and the population table with one
  row for every key, and the fact rows that \<open>create_fact_table\<close> writes for the five
  crashes joined with them.
\<close>

definition example_driver_rows :: "driver_row list" where
  "example_driver_rows =
     [\<lparr>dr_driver_id = PInt 1, dr_crash_id = PInt 20101001\<rparr>,
      \<lparr>dr_driver_id = PInt 2, dr_crash_id = PInt 20101001\<rparr>,
      \<lparr>dr_driver_id = PInt 3, dr_crash_id = PInt 20101003\<rparr>]"

definition example_season_table :: "season_row list" where
  "example_season_table =
     [\<lparr>se_season_id = PStr ''2010_1'', se_year = PInt 2010, se_month = PInt 1\<rparr>,
      \<lparr>se_season_id = PStr ''2010_1'', se_year = PInt 2010, se_month = PInt 2\<rparr>]"

definition example_locations :: "location_row list" where
  "example_locations =
     [\<lparr>lo_location_id = PInt 7, lo_state = PStr ''NSW''\<rparr>,
      \<lparr>lo_location_id = PInt 8, lo_state = PStr ''VIC''\<rparr>]"

definition example_populations :: "population_row list" where
  "example_populations =
     [\<lparr>po_population_id = PInt 9, po_state = PStr ''NSW'', po_year = PInt 2010\<rparr>,
      \<lparr>po_population_id = PInt 10, po_state = PStr ''NSW'', po_year = PInt 2011\<rparr>]"

definition fact_out :: "int \<Rightarrow> int \<Rightarrow> int \<Rightarrow> int \<Rightarrow> fact_table_row" where
  "fact_out i cid drivers n =
     \<lparr>ft_fact_id = i, ft_crash_id = PInt cid, ft_time_id = PInt 201001,
      ft_location_id = PInt 7, ft_road_condition_id = PInt cid,
      ft_season_id = PStr ''2010_1'', ft_vehicle_id = PInt cid,
      ft_driver_count = drivers, ft_population_id = PInt 9, ft_lga_id = PInt cid,
      ft_fatalities = Some n, ft_yearly_crash_count = 5, ft_yearly_fatality_count = 8,
      ft_crash_date = ''2010-01-01''\<rparr>"


text \<open>
  A row of the fact table of \<open>create_fact_table\<close> for a crash of 2010 that no season,
  driver or population row matches.
\<close>

definition fact_line :: "int \<Rightarrow> int \<Rightarrow> pyval \<Rightarrow> int \<Rightarrow> int \<Rightarrow> int \<Rightarrow> fact_table_row" where
  "fact_line i cid loc n cnt fat =
     \<lparr>ft_fact_id = i, ft_crash_id = PInt cid, ft_time_id = PNaN, ft_location_id = loc,
      ft_road_condition_id = PInt cid, ft_season_id = PNaN, ft_vehicle_id = PInt cid,
      ft_driver_count = 0, ft_population_id = PNaN, ft_lga_id = PInt cid,
      ft_fatalities = Some n, ft_yearly_crash_count = cnt, ft_yearly_fatality_count = fat,
      ft_crash_date = ''2010-01-01''\<rparr>"

definition example_month_crashes :: "raw_crash list" where
  "example_month_crashes =
     [example_crash 20101001 (PInt 2010) 1, example_crash 20101002 (PInt 2010) 1,
      example_crash 20101003 (PInt 2010) 1, example_crash 20101004 (PInt 2010) 2,
      example_crash 20101005 (PInt 2010) 2]"

definition example_month_loaded :: "crash list" where
  "example_month_loaded =
     [with_date (example_crash 20101001 (PInt 2010) 1) ''2010-01-01'',
      with_date (example_crash 20101002 (PInt 2010) 1) ''2010-01-01'',
      with_date (example_crash 20101003 (PInt 2010) 1) ''2010-01-01'',
      with_date (example_crash 20101004 (PInt 2010) 2) ''2010-02-01'',
      with_date (example_crash 20101005 (PInt 2010) 2) ''2010-02-01'']"

definition example_month_seasons :: "season_dim_row list" where
  "example_month_seasons =
     [\<lparr>sd_year = PInt 2010, sd_month = PInt 1, sd_season = ''Summer'', sd_quarter = 1,
       sd_is_holiday_season = 1, sd_is_school_holiday = 1, sd_tourism_season = ''Peak'',
       sd_date = ''2010-01-01'', sd_season_id = ''2010_1''\<rparr>,
      \<lparr>sd_year = PInt 2010, sd_month = PInt 2, sd_season = ''Summer'', sd_quarter = 1,
       sd_is_holiday_season = 0, sd_is_school_holiday = 0, sd_tourism_season = ''Peak'',
       sd_date = ''2010-02-01'', sd_season_id = ''2010_1''\<rparr>]"

text \<open>
  Three crash records of 2010, two of them with the same crash identifier, one in
  January and one in February.
\<close>

definition example_repeated_crashes :: "raw_crash list" where
  "example_repeated_crashes =
     [example_crash 20101001 (PInt 2010) 1, example_crash 20101001 (PInt 2010) 2,
      example_crash 20101002 (PInt 2010) 1]"

definition example_repeated_loaded :: "crash list" where
  "example_repeated_loaded =
     [with_date (example_crash 20101001 (PInt 2010) 1) ''2010-01-01'',
      with_date (example_crash 20101001 (PInt 2010) 2) ''2010-02-01'',
      with_date (example_crash 20101002 (PInt 2010) 1) ''2010-01-01'']"

definition etl_fact :: "int \<Rightarrow> int \<Rightarrow> string \<Rightarrow> int \<Rightarrow> etl_fact_row" where
  "etl_fact cid m d n =
     \<lparr>ef_crash_id = PInt cid, ef_state = PStr ''NSW'', ef_number_fatalities = Some 1,
      ef_year = PInt 2010, ef_month = PInt m, ef_date = d,
      ef_monthly_crash_count = Some n, ef_monthly_fatality_count = Some n,
      ef_season = PStr ''Summer'', ef_season_id = PStr ''2010_1''\<rparr>"

section \<open>Auxiliary facts\<close>

subsection \<open>Lists, options and tables\<close>

lemma those_eq_Some: "those xs = Some ys \<longleftrightarrow> xs = map Some ys"
  by (induction xs arbitrary: ys) (auto split: option.splits)

lemma those_map_Some: "those (map h xs) = Some ys \<Longrightarrow> ys = map (\<lambda>x. the (h x)) xs"
proof (induction xs arbitrary: ys)
  case Nil
  then show ?case by simp
next
  case (Cons x xs)
  then show ?case by (auto split: option.splits)
qed

lemma those_map_Some_all: "those (map h xs) = Some ys \<Longrightarrow> x \<in> set xs \<Longrightarrow> h x \<noteq> None"
  by (induction xs arbitrary: ys) (auto split: option.splits)

lemma those_map_None: "x \<in> set xs \<Longrightarrow> h x = None \<Longrightarrow> those (map h xs) = None"
  by (induction xs) (auto split: option.splits)

lemma zip_map_same: "zip xs (map k xs) = map (\<lambda>x. (x, k x)) xs"
  by (induction xs) auto

lemma merge_left_cases:
  assumes "r \<in> set (merge_left on c ls rs)"
  obtains l where "l \<in> set ls" "filter (on l) rs = []" "r = c l None"
  | l x where "l \<in> set ls" "x \<in> set rs" "on l x" "r = c l (Some x)"
proof -
  from assms obtain l where l: "l \<in> set ls"
    and r: "r \<in> set (case filter (on l) rs of [] \<Rightarrow> [c l None]
                       | y # ys \<Rightarrow> map (\<lambda>x. c l (Some x)) (y # ys))"
    by (auto simp: merge_left_def)
  show thesis
  proof (cases "filter (on l) rs")
    case Nil
    with r l that(1) show thesis by simp
  next
    case (Cons y ys)
    with r obtain x where x: "x \<in> set (filter (on l) rs)" "r = c l (Some x)"
      by auto
    with l that(2) show thesis by auto
  qed
qed

lemma merge_left_single:
  assumes "\<And>l. l \<in> set ls \<Longrightarrow> filter (on l) rs = [g l]"
  shows "merge_left on c ls rs = map (\<lambda>l. c l (Some (g l))) ls"
  using assms by (induction ls) (auto simp: merge_left_def)

lemma filter_key_single:
  "distinct ks \<Longrightarrow> k \<in> set ks \<Longrightarrow>
     filter (\<lambda>s. fst s = k) (map (\<lambda>y. (y, g y)) ks) = [(k, g k)]"
proof (induction ks)
  case Nil
  then show ?case by simp
next
  case (Cons a ks)
  show ?case
  proof (cases "a = k")
    case True
    with Cons.prems have "k \<notin> set ks" by simp
    then have "filter (\<lambda>s. fst s = k) (map (\<lambda>y. (y, g y)) ks) = []"
      by (auto simp: filter_empty_conv)
    with True show ?thesis by simp
  next
    case False
    with Cons show ?thesis by auto
  qed
qed

lemma filter_key_none:
  "k \<notin> set ks \<Longrightarrow> filter (\<lambda>s. fst s = k) (map (\<lambda>y. (y, g y)) ks) = []"
  by (auto simp: filter_empty_conv)

lemma dd_seen_subset: "set (dd_seen key seen xs) \<subseteq> set xs"
  by (induction xs arbitrary: seen) auto

lemma dd_seen_keys: "key ` set (dd_seen key seen xs) = key ` set xs - set seen"
  by (induction xs arbitrary: seen) auto

lemma dd_seen_distinct: "distinct (map key (dd_seen key seen xs))"
proof (induction xs arbitrary: seen)
  case Nil
  then show ?case by simp
next
  case (Cons x xs)
  have "key x \<notin> key ` set (dd_seen key (key x # seen) xs)"
    by (simp add: dd_seen_keys)
  with Cons show ?case by auto
qed

lemma dd_seen_id:
  "distinct (map key xs) \<Longrightarrow> key ` set xs \<inter> set seen = {} \<Longrightarrow> dd_seen key seen xs = xs"
  by (induction xs arbitrary: seen) auto

lemma set_drop_duplicates: "set (drop_duplicates xs) = set xs"
  using dd_seen_keys [of "\<lambda>x. x" "[]" xs] by (simp add: drop_duplicates_def drop_duplicates_by_def)

lemma distinct_drop_duplicates: "distinct (drop_duplicates xs)"
  using dd_seen_distinct [of "\<lambda>x. x" "[]" xs] by (simp add: drop_duplicates_def drop_duplicates_by_def)

lemma drop_duplicates_by_subset: "set (drop_duplicates_by key xs) \<subseteq> set xs"
  by (simp add: drop_duplicates_by_def dd_seen_subset)

subsection \<open>The fact table of creat_fact_table.py\<close>

lemmas text_eval = py_str_def string_of_nat.simps digit_char_def parse_int_def parse_nat_def
  is_digit_def digits_val_def digit_val_def zfill_def astype_str_def str_at_def

lemma decode_year_nan: "decode_year PNaN = None"
  by (simp add: decode_year_def text_eval)

lemma base_fact_rows:
  assumes "decode_years crash_df = Some years" and "f \<in> set (base_fact crash_df years)"
  shows "\<exists>c\<in>set crash_df. crash_id f = ct_crash_id c \<and>
           fatalities f = ct_number_fatalities c \<and>
           decode_year (ct_crash_id c) = Some (year f)"
proof -
  let ?k = "\<lambda>c. the (decode_year (ct_crash_id c))"
  from assms(1) have years: "years = map ?k crash_df"
    unfolding decode_years_def by (rule those_map_Some)
  from assms(2) obtain i c y where
    icy: "(i, c, y) \<in> set (zip [0..<length crash_df] (zip crash_df years))"
    and f: "crash_id f = ct_crash_id c" "fatalities f = ct_number_fatalities c" "year f = y"
    by (auto simp: base_fact_def)
  from icy have "(c, y) \<in> set (zip crash_df years)"
    by (rule set_zip_rightD)
  then have "(c, y) \<in> set (map (\<lambda>c. (c, ?k c)) crash_df)"
    by (simp add: years zip_map_same)
  then have c: "c \<in> set crash_df" and y: "y = ?k c"
    by auto
  from assms(1) c have "decode_year (ct_crash_id c) \<noteq> None"
    unfolding decode_years_def by (rule those_map_Some_all)
  with y have "decode_year (ct_crash_id c) = Some y"
    by auto
  with c f show ?thesis by auto
qed

lemma merge_season_rows:
  assumes "f \<in> set (merge_season rows season_df)"
  shows "\<exists>g\<in>set rows. crash_id f = crash_id g \<and> year f = year g \<and> fatalities f = fatalities g"
  using assms unfolding merge_season_def
  by (elim merge_left_cases) auto

lemma merge_driver_count_rows:
  assumes "f \<in> set (merge_driver_count rows driver_df)"
  shows "\<exists>g\<in>set rows. crash_id f = crash_id g \<and> year f = year g \<and> fatalities f = fatalities g"
  using assms unfolding merge_driver_count_def
  by (elim merge_left_cases) auto

lemma driver_counts_keys:
  "fst ` set (driver_counts driver_df) = dr_crash_id ` set driver_df - {PNaN}"
  by (auto simp: driver_counts_def set_drop_duplicates image_iff)

lemma driver_counts_value:
  "d \<in> set (driver_counts driver_df) \<Longrightarrow>
     snd d = int (length (filter (\<lambda>r. dr_crash_id r = fst d \<and> dr_driver_id r \<noteq> PNaN) driver_df))"
  by (auto simp: driver_counts_def)

lemma merge_driver_count_value:
  assumes "f \<in> set (merge_driver_count rows driver_df)" and "crash_id f \<noteq> PNaN"
  shows "driver_count f =
           int (length (filter (\<lambda>r. dr_crash_id r = crash_id f \<and> dr_driver_id r \<noteq> PNaN) driver_df))"
  using assms(1) unfolding merge_driver_count_def
proof (elim merge_left_cases)
  fix l
  assume l: "l \<in> set rows" "filter (\<lambda>d. fst d = crash_id l) (driver_counts driver_df) = []"
    and f: "f = (case None of None \<Rightarrow> l\<lparr>driver_count := 0\<rparr> | Some d \<Rightarrow> l\<lparr>driver_count := snd d\<rparr>)"
  from l(2) have "crash_id l \<notin> fst ` set (driver_counts driver_df)"
    by (auto simp: filter_empty_conv)
  moreover from f assms(2) have "crash_id l \<noteq> PNaN" by simp
  ultimately have "crash_id l \<notin> dr_crash_id ` set driver_df"
    by (simp add: driver_counts_keys)
  then have "filter (\<lambda>r. dr_crash_id r = crash_id l \<and> dr_driver_id r \<noteq> PNaN) driver_df = []"
    by (force simp: filter_empty_conv)
  with f show ?thesis by simp
next
  fix l x
  assume "x \<in> set (driver_counts driver_df)" "fst x = crash_id l"
    and f: "f = (case Some x of None \<Rightarrow> l\<lparr>driver_count := 0\<rparr> | Some d \<Rightarrow> l\<lparr>driver_count := snd d\<rparr>)"
  with driver_counts_value [of x driver_df] show ?thesis by simp
qed

lemma merge_location_rows:
  assumes "f \<in> set (merge_location rows location_df)"
  shows "\<exists>g\<in>set rows. crash_id f = crash_id g \<and> year f = year g \<and>
           fatalities f = fatalities g \<and> driver_count f = driver_count g"
  using assms unfolding merge_location_def
  by (elim merge_left_cases) auto

lemma merge_population_rows:
  assumes "f \<in> set (merge_population rows population_df)"
  shows "\<exists>g\<in>set rows. crash_id f = crash_id g \<and> year f = year g \<and>
           fatalities f = fatalities g \<and> driver_count f = driver_count g"
  using assms unfolding merge_population_def
  by (elim merge_left_cases) auto

lemma join_dimensions_rows:
  assumes years: "decode_years crash_df = Some years"
    and f: "f \<in> set (join_dimensions crash_df years driver_df location_df population_df season_df)"
  shows "decode_year (crash_id f) = Some (year f) \<and>
         driver_count f =
           int (length (filter (\<lambda>r. dr_crash_id r = crash_id f \<and> dr_driver_id r \<noteq> PNaN) driver_df))"
proof -
  let ?f1 = "merge_season (base_fact crash_df years) season_df"
  let ?f3 = "map (\<lambda>f. f\<lparr>vehicle_id := crash_id f\<rparr>) (map (\<lambda>f. f\<lparr>road_condition_id := crash_id f\<rparr>) ?f1)"
  let ?f4 = "merge_driver_count ?f3 driver_df"
  let ?f5 = "merge_location ?f4 location_df"
  let ?f6 = "merge_population ?f5 population_df"
  from f obtain f6 where f6: "f6 \<in> set ?f6" "crash_id f = crash_id f6" "year f = year f6"
    "driver_count f = driver_count f6"
    by (auto simp: join_dimensions_def Let_def)
  from merge_population_rows [OF f6(1)] obtain f5 where f5: "f5 \<in> set ?f5"
    "crash_id f6 = crash_id f5" "year f6 = year f5" "driver_count f6 = driver_count f5"
    by blast
  from merge_location_rows [OF f5(1)] obtain f4 where f4: "f4 \<in> set ?f4"
    "crash_id f5 = crash_id f4" "year f5 = year f4" "driver_count f5 = driver_count f4"
    by blast
  from merge_driver_count_rows [OF f4(1)] obtain f3 where f3: "f3 \<in> set ?f3"
    "crash_id f4 = crash_id f3" "year f4 = year f3"
    by blast
  from f3(1) obtain f1 where f1: "f1 \<in> set ?f1" "crash_id f3 = crash_id f1" "year f3 = year f1"
    by auto
  from merge_season_rows [OF f1(1)] obtain f0 where f0: "f0 \<in> set (base_fact crash_df years)"
    "crash_id f1 = crash_id f0" "year f1 = year f0"
    by blast
  from base_fact_rows [OF years f0(1)] have "decode_year (crash_id f0) = Some (year f0)"
    by auto
  with f0 f1 f3 f4 have dec4: "decode_year (crash_id f4) = Some (year f4)"
    by simp
  then have "crash_id f4 \<noteq> PNaN"
    using decode_year_nan by auto
  from merge_driver_count_value [OF f4(1) this] f4 f5 f6 dec4 show ?thesis
    by simp
qed

lemma merge_yearly_map:
  assumes "\<And>f. f \<in> set rows \<Longrightarrow> crash_id f \<noteq> PNaN"
  shows "merge_yearly rows =
           map (\<lambda>f. f\<lparr>yearly_crash_count := int (length (filter (\<lambda>g. year g = year f) rows)),
                       yearly_fatality_count :=
                         nansum (map fatalities (filter (\<lambda>g. year g = year f) rows))\<rparr>) rows"
proof -
  let ?G = "\<lambda>y. (int (length (filter (\<lambda>f. year f = y \<and> crash_id f \<noteq> PNaN) rows)),
                 nansum (map fatalities (filter (\<lambda>f. year f = y) rows)))"
  let ?ks = "sort (remdups (map year rows))"
  have stats: "yearly_stats rows = map (\<lambda>y. (y, ?G y)) ?ks"
    by (simp add: yearly_stats_def)
  have single: "filter (\<lambda>s. fst s = year f) (yearly_stats rows) = [(year f, ?G (year f))]"
    if "f \<in> set rows" for f
    unfolding stats using that by (intro filter_key_single) auto
  have cnt: "filter (\<lambda>f. year f = y \<and> crash_id f \<noteq> PNaN) rows = filter (\<lambda>f. year f = y) rows"
    for y
    using assms by (intro filter_cong) auto
  have "merge_yearly rows =
          map (\<lambda>f. case Some (year f, ?G (year f)) of
                      None \<Rightarrow> f
                    | Some s \<Rightarrow> f\<lparr>yearly_crash_count := fst (snd s),
                                   yearly_fatality_count := snd (snd s)\<rparr>) rows"
    unfolding merge_yearly_def by (rule merge_left_single) (rule single)
  then show ?thesis
    by (simp add: cnt)
qed

lemma create_fact_table_Inr:
  assumes "create_fact_table to_datetime crash_df driver_df location_df population_df season_df
             = Inr table"
  obtains years time_ids where
    "decode_years crash_df = Some years"
    "season_time_ids season_df = Some time_ids"
    "table = map (\<lambda>f. select_columns (f\<lparr>crash_date := the (to_datetime (py_str (year f) @ ''-01-01''))\<rparr>))
               (merge_yearly (join_dimensions crash_df years driver_df location_df population_df
                                (zip season_df time_ids)))"
proof -
  from assms obtain years where years: "decode_years crash_df = Some years"
    by (auto simp: create_fact_table_def split: option.splits)
  from assms years obtain time_ids where tids: "season_time_ids season_df = Some time_ids"
    by (auto simp: create_fact_table_def split: option.splits)
  let ?F = "merge_yearly (join_dimensions crash_df years driver_df location_df population_df
                            (zip season_df time_ids))"
  let ?h = "\<lambda>f. to_datetime (py_str (year f) @ ''-01-01'')"
  from assms years tids obtain dates where dates: "those (map ?h ?F) = Some dates"
    and table: "table = map select_columns (map (\<lambda>(f, d). f\<lparr>crash_date := d\<rparr>) (zip ?F dates))"
    by (auto simp: create_fact_table_def Let_def split: option.splits)
  from dates have "dates = map (\<lambda>f. the (?h f)) ?F"
    by (rule those_map_Some)
  with table have "table = map (\<lambda>f. select_columns (f\<lparr>crash_date := the (?h f)\<rparr>)) ?F"
    by (simp add: zip_map_same)
  with years tids that show thesis
    by blast
qed


lemma yearly_aggregates:
  assumes "create_fact_table to_datetime crash_df driver_df location_df population_df season_df
             = Inr table"
    and "r \<in> set table"
  shows "ft_yearly_crash_count r =
           int (length (filter (\<lambda>r'. decode_year (ft_crash_id r') = decode_year (ft_crash_id r)) table)) \<and>
         ft_yearly_fatality_count r =
           nansum (map ft_fatalities
                     (filter (\<lambda>r'. decode_year (ft_crash_id r') = decode_year (ft_crash_id r)) table))"
proof -
  from assms(1) obtain years time_ids where
    years: "decode_years crash_df = Some years"
    and table: "table = map (\<lambda>f. select_columns (f\<lparr>crash_date := the (to_datetime (py_str (year f) @ ''-01-01''))\<rparr>))
               (merge_yearly (join_dimensions crash_df years driver_df location_df population_df
                                (zip season_df time_ids)))"
    by (rule create_fact_table_Inr)
  let ?J = "join_dimensions crash_df years driver_df location_df population_df
              (zip season_df time_ids)"
  let ?cnt = "\<lambda>f. int (length (filter (\<lambda>g. year g = year f) ?J))"
  let ?sum = "\<lambda>f. nansum (map fatalities (filter (\<lambda>g. year g = year f) ?J))"
  let ?out = "\<lambda>f. select_columns
                 (f\<lparr>yearly_crash_count := ?cnt f, yearly_fatality_count := ?sum f,
                    crash_date := the (to_datetime (py_str (year f) @ ''-01-01''))\<rparr>)"
  have inv: "decode_year (crash_id f) = Some (year f)" if "f \<in> set ?J" for f
    using join_dimensions_rows [OF years that] by simp
  have nn: "crash_id f \<noteq> PNaN" if "f \<in> set ?J" for f
    using inv [OF that] decode_year_nan by auto
  have my: "merge_yearly ?J =
           map (\<lambda>f. f\<lparr>yearly_crash_count := ?cnt f, yearly_fatality_count := ?sum f\<rparr>) ?J"
    by (rule merge_yearly_map) (rule nn)
  have tab: "table = map ?out ?J"
    unfolding table my by (simp add: o_def)
  from assms(2) obtain f where f: "f \<in> set ?J" "r = ?out f"
    unfolding tab by auto
  have same: "filter (\<lambda>r'. decode_year (ft_crash_id r') = decode_year (ft_crash_id r)) table
                = map ?out (filter (\<lambda>g. year g = year f) ?J)"
    unfolding tab filter_map
    by (rule arg_cong [where f = "map ?out"], rule filter_cong)
       (auto simp: f select_columns_def inv)
  have cnt: "ft_yearly_crash_count r = ?cnt f" and sm: "ft_yearly_fatality_count r = ?sum f"
    by (simp_all add: f select_columns_def)
  have fat: "map ft_fatalities (map ?out xs) = map fatalities xs" for xs
    by (induction xs) (simp_all add: select_columns_def)
  show ?thesis
    unfolding same fat cnt sm by simp
qed

lemmas fact_eval = create_fact_table_def join_dimensions_def decode_years_def decode_year_def
  season_time_ids_def time_id_of_def base_fact_def merge_season_def merge_left_def
  drop_duplicates_by_def drop_duplicates_def merge_driver_count_def driver_counts_def
  merge_location_def merge_population_def merge_yearly_def yearly_stats_def nansum_def
  select_columns_def decode_state_def state_table_def

lemma those_map_total: "(\<And>x. x \<in> set xs \<Longrightarrow> h x \<noteq> None) \<Longrightarrow> \<exists>ys. those (map h xs) = Some ys"
  by (induction xs) (auto split: option.splits)


subsection \<open>Decimal texts\<close>

lemma digit_char_props:
  assumes "d < 10"
  shows "is_digit (digit_char d)" "digit_val (digit_char d) = d"
    "digit_char d \<noteq> CHR ''-''" "digit_char d \<noteq> CHR ''+''"
proof -
  from assms have "d = 0 \<or> d = 1 \<or> d = 2 \<or> d = 3 \<or> d = 4 \<or> d = 5 \<or> d = 6 \<or> d = 7 \<or> d = 8 \<or> d = 9"
    by arith
  then show "is_digit (digit_char d)" "digit_val (digit_char d) = d"
    "digit_char d \<noteq> CHR ''-''" "digit_char d \<noteq> CHR ''+''"
    by (auto simp: digit_char_def is_digit_def digit_val_def)
qed

lemma digits_val_append:
  "digits_val (a @ b) = digits_val a * 10 ^ length b + digits_val b"
proof -
  define f where "f = (\<lambda>a c. 10 * a + digit_val c)"
  have "foldl f k b = k * 10 ^ length b + foldl f 0 b" for k
  proof (induction b arbitrary: k)
    case Nil
    then show ?case by simp
  next
    case (Cons c b)
    have "foldl f k (c # b) = foldl f (10 * k + digit_val c) b"
      by (simp add: f_def)
    also have "\<dots> = (10 * k + digit_val c) * 10 ^ length b + foldl f 0 b"
      by (rule Cons.IH)
    finally have l: "foldl f k (c # b) = (10 * k + digit_val c) * 10 ^ length b + foldl f 0 b" .
    have "foldl f 0 (c # b) = foldl f (digit_val c) b"
      by (simp add: f_def)
    also have "\<dots> = digit_val c * 10 ^ length b + foldl f 0 b"
      by (rule Cons.IH)
    finally have r: "foldl f 0 (c # b) = digit_val c * 10 ^ length b + foldl f 0 b" .
    show ?case
      unfolding l r by (simp add: algebra_simps)
  qed
  from this [of "foldl f 0 a"] show ?thesis
    unfolding digits_val_def f_def by simp
qed

lemma string_of_nat_digits:
  "string_of_nat n \<noteq> [] \<and> list_all is_digit (string_of_nat n) \<and>
   digits_val (string_of_nat n) = n \<and> hd (string_of_nat n) \<noteq> CHR ''-'' \<and>
   hd (string_of_nat n) \<noteq> CHR ''+''"
proof (induction n rule: string_of_nat.induct)
  case (1 n)
  show ?case
  proof (cases "n < 10")
    case True
    then show ?thesis
      by (simp add: string_of_nat.simps [of n] digit_char_props digits_val_def)
  next
    case False
    have d: "n mod 10 < 10" by simp
    from False 1 have ih: "string_of_nat (n div 10) \<noteq> []"
      "list_all is_digit (string_of_nat (n div 10))"
      "digits_val (string_of_nat (n div 10)) = n div 10"
      "hd (string_of_nat (n div 10)) \<noteq> CHR ''-''" "hd (string_of_nat (n div 10)) \<noteq> CHR ''+''"
      by simp_all
    have s: "string_of_nat n = string_of_nat (n div 10) @ [digit_char (n mod 10)]"
      using False by (simp add: string_of_nat.simps [of n])
    have "digits_val (string_of_nat n) = n"
      unfolding s digits_val_append ih(3)
      by (simp add: digits_val_def digit_char_props(2) [OF d])
    with ih d show ?thesis
      unfolding s by (simp add: digit_char_props)
  qed
qed

lemma parse_int_digits:
  assumes "list_all is_digit ds"
  shows "parse_int (string_of_nat n @ ds) = Some (int (n * 10 ^ length ds + digits_val ds))"
proof -
  from string_of_nat_digits [of n] obtain c cs where cs: "string_of_nat n = c # cs"
    and c: "c \<noteq> CHR ''-''" "c \<noteq> CHR ''+''"
    by (cases "string_of_nat n") auto
  have all: "list_all is_digit (string_of_nat n @ ds)"
    using assms string_of_nat_digits [of n] by simp
  have "parse_nat (string_of_nat n @ ds) = Some (n * 10 ^ length ds + digits_val ds)"
    using all string_of_nat_digits [of n] by (simp add: parse_nat_def digits_val_append)
  then show ?thesis
    using c by (simp add: parse_int_def cs)
qed

lemma zfill_month:
  assumes "m < 100"
  shows "zfill 2 (string_of_nat m) = [digit_char (m div 10), digit_char (m mod 10)]"
proof (cases "m < 10")
  case True
  then have "string_of_nat m = [digit_char m]"
    by (simp add: string_of_nat.simps [of m])
  moreover have "digit_char m \<noteq> CHR ''-''" "digit_char m \<noteq> CHR ''+''"
    using True by (rule digit_char_props)+
  ultimately show ?thesis
    using True by (simp add: zfill_def digit_char_def)
next
  case False
  with assms have "m div 10 < 10" by simp
  then have "string_of_nat (m div 10) = [digit_char (m div 10)]"
    by (simp add: string_of_nat.simps [of "m div 10"])
  with False have "string_of_nat m = [digit_char (m div 10), digit_char (m mod 10)]"
    by (simp add: string_of_nat.simps [of m])
  then show ?thesis
    by (simp add: zfill_def)
qed

lemma time_id_value:
  assumes "se_year s = PInt y" "se_month s = PInt m" "0 \<le> y" "0 \<le> m" "m < 100"
  shows "time_id_of s = Some (100 * y + m)"
proof -
  let ?m = "nat m"
  have m: "?m < 100" using assms by simp
  then have d: "?m div 10 < 10" "?m mod 10 < 10" by simp_all
  let ?ds = "[digit_char (?m div 10), digit_char (?m mod 10)]"
  have "list_all is_digit ?ds"
    using d by (simp add: digit_char_props)
  from parse_int_digits [OF this, of "nat y"]
  have "parse_int (string_of_nat (nat y) @ ?ds) = Some (int (nat y * 100 + digits_val ?ds))"
    by simp
  moreover have "digits_val ?ds = ?m"
    using d by (simp add: digits_val_def digit_char_props)
  ultimately have "parse_int (string_of_nat (nat y) @ ?ds) = Some (100 * y + m)"
    using assms by simp
  then show ?thesis
    using assms m by (simp add: time_id_of_def astype_str_def py_str_def zfill_month)
qed

subsection \<open>Containment of texts\<close>

lemma starts_with_iff: "starts_with needle hay \<longleftrightarrow> (\<exists>s. hay = needle @ s)"
  by (induction needle hay rule: starts_with.induct) auto

lemma str_in_iff: "str_in needle hay \<longleftrightarrow> (\<exists>p s. hay = p @ needle @ s)"
proof (induction hay)
  case Nil
  then show ?case by auto
next
  case (Cons d hay)
  show ?case
  proof
    assume "str_in needle (d # hay)"
    then consider "starts_with needle (d # hay)" | "str_in needle hay"
      by auto
    then show "\<exists>p s. d # hay = p @ needle @ s"
    proof cases
      case 1
      then obtain s where "d # hay = needle @ s"
        by (auto simp: starts_with_iff)
      then have "d # hay = [] @ needle @ s" by simp
      then show ?thesis by blast
    next
      case 2
      with Cons obtain p s where "hay = p @ needle @ s" by auto
      then have "d # hay = (d # p) @ needle @ s" by simp
      then show ?thesis by blast
    qed
  next
    assume "\<exists>p s. d # hay = p @ needle @ s"
    then obtain p s where ps: "d # hay = p @ needle @ s" by auto
    show "str_in needle (d # hay)"
    proof (cases p)
      case Nil
      with ps have "starts_with needle (d # hay)"
        by (auto simp: starts_with_iff)
      then show ?thesis by simp
    next
      case (Cons e q)
      with ps have "hay = q @ needle @ s" by simp
      with Cons.IH have "str_in needle hay" by auto
      then show ?thesis by simp
    qed
  qed
qed

subsection \<open>The repair of missing ages\<close>

lemma map_of_keyed:
  "map_of (map (\<lambda>k. (k, f k)) ks) k = (if k \<in> set ks then Some (f k) else None)"
  by (induction ks) auto

lemma age_group_mapping_lookup:
  assumes "r \<in> set rows" "dd_age_group r \<noteq> PNaN" "dd_age_group r \<notin> PStr ` set unknown"
  shows "map_of (age_group_mapping unknown rows) (dd_age_group r)
           = Some (median_age (filter (\<lambda>r'. dd_age_group r' = dd_age_group r) rows))"
  using assms unfolding age_group_mapping_def
  by (simp add: map_of_keyed set_drop_duplicates)

lemma fill_by_age_group_nth:
  assumes "i < length rows"
  shows "fill_by_age_group unknown rows ! i =
           (if dd_age (rows ! i) = None
            then (rows ! i)\<lparr>dd_age :=
                    (if dd_age_group (rows ! i) = PNaN \<or> dd_age_group (rows ! i) \<in> PStr ` set unknown
                     then median_age rows
                     else median_age (filter (\<lambda>r'. dd_age_group r' = dd_age_group (rows ! i)) rows))\<rparr>
            else rows ! i)"
proof -
  have "rows ! i \<in> set rows" using assms by simp
  from age_group_mapping_lookup [OF this] assms show ?thesis
    by (simp add: fill_by_age_group_def Let_def get_median_age_def)
qed

lemma fill_missing_ages_nth:
  assumes "i < length rows" "dd_age (rows ! i) = None"
  shows "fill_missing_ages unknown rows ! i =
           (if dd_age (fill_by_age_group unknown rows ! i) = None
            then (fill_by_age_group unknown rows ! i)
                   \<lparr>dd_age := median_age (fill_by_age_group unknown rows)\<rparr>
            else fill_by_age_group unknown rows ! i)"
proof -
  have "rows ! i \<in> set rows" using assms by simp
  with assms(2) have "list_ex (\<lambda>r. dd_age r = None) rows"
    by (auto simp: list_ex_iff)
  moreover have "length (fill_by_age_group unknown rows) = length rows"
    by (simp add: fill_by_age_group_def Let_def)
  ultimately show ?thesis
    using assms(1) by (simp add: fill_missing_ages_def Let_def)
qed

lemmas age_eval = fill_missing_ages_def fill_by_age_group_def age_group_mapping_def
  get_median_age_def median_age_def median_def known_def drop_duplicates_def
  drop_duplicates_by_def driver_def

subsection \<open>The tables of etl.py\<close>

lemma year_in_range_iff: "year_in_range v \<longleftrightarrow> (\<exists>y. v = PInt y \<and> 2001 \<le> y \<and> y \<le> 2023)"
  by (cases v) (auto simp: year_in_range_def)

lemma with_date_fields [simp]:
  "fc_crash_id (with_date r d) = fc_crash_id r"
  "fc_state (with_date r d) = fc_state r"
  "fc_month (with_date r d) = fc_month r"
  "fc_year (with_date r d) = fc_year r"
  "fc_dayweek (with_date r d) = fc_dayweek r"
  "fc_time (with_date r d) = fc_time r"
  "fc_crash_type (with_date r d) = fc_crash_type r"
  "fc_bus_involvement (with_date r d) = fc_bus_involvement r"
  "fc_heavy_rigid_truck_involvement (with_date r d) = fc_heavy_rigid_truck_involvement r"
  "fc_articulated_truck_involvement (with_date r d) = fc_articulated_truck_involvement r"
  "fc_speed_limit (with_date r d) = fc_speed_limit r"
  "fc_national_road_type (with_date r d) = fc_national_road_type r"
  "fc_christmas_period (with_date r d) = fc_christmas_period r"
  "fc_easter_period (with_date r d) = fc_easter_period r"
  "fc_national_remoteness_areas (with_date r d) = fc_national_remoteness_areas r"
  "fc_sa4_name_2021 (with_date r d) = fc_sa4_name_2021 r"
  "fc_national_lga_name_2021 (with_date r d) = fc_national_lga_name_2021 r"
  "fc_day_of_week (with_date r d) = fc_day_of_week r"
  "fc_time_of_day (with_date r d) = fc_time_of_day r"
  "fc_number_fatalities (with_date r d) = fc_number_fatalities r"
  "fc_date (with_date r d) = d"
  by (simp_all add: with_date_def raw_crash.defs crash.defs)

lemma standardize_time_rows:
  assumes "r \<in> set (standardize_time dt rows)"
  shows "\<exists>r0\<in>set rows. \<exists>t. r = r0\<lparr>fc_time := t\<rparr>"
proof (cases "dt = Object")
  case True
  with assms show ?thesis
    by (auto simp: standardize_time_def)
next
  case False
  with assms have "r \<in> set rows"
    by (simp add: standardize_time_def)
  moreover have "r = r\<lparr>fc_time := fc_time r\<rparr>" by simp
  ultimately show ?thesis by blast
qed

lemma load_Inr:
  assumes "load raw_crashes raw_fatalities = Inr (fatal_crash, fatality_rows)"
  shows "\<And>r. r \<in> set fatal_crash \<Longrightarrow>
           \<exists>r0\<in>set (filter_crashes raw_crashes). \<exists>d t. r = (with_date r0 d)\<lparr>fc_time := t\<rparr> \<and>
             pd_to_datetime (date_text (dtype_of (map fc_year (coerce_crashes raw_crashes)))
                (dtype_of (map fc_month (coerce_crashes raw_crashes))) r0) = Some d"
    and "fatality_rows =
           filter (\<lambda>f. fa_crash_id f \<noteq> PNaN \<and> fa_crash_id f \<in> fc_crash_id ` set fatal_crash)
             (filter_fatalities raw_fatalities)"
proof -
  let ?FC = "filter_crashes raw_crashes"
  let ?p = "\<lambda>r. pd_to_datetime (date_text (dtype_of (map fc_year (coerce_crashes raw_crashes)))
                (dtype_of (map fc_month (coerce_crashes raw_crashes))) r)"
  let ?tdt = "dtype_of (map fc_time (coerce_crashes raw_crashes))"
  from assms obtain dates where
    dates: "those (map ?p ?FC) = Some dates"
    and fc: "fatal_crash = standardize_time ?tdt (map (\<lambda>(r, d). with_date r d) (zip ?FC dates))"
    and fa: "fatality_rows =
               filter (\<lambda>f. fa_crash_id f \<noteq> PNaN \<and> fa_crash_id f \<in> set (map fc_crash_id fatal_crash))
                 (filter_fatalities raw_fatalities)"
    by (auto simp: load_def Let_def split: option.splits)
  from fa show "fatality_rows =
           filter (\<lambda>f. fa_crash_id f \<noteq> PNaN \<and> fa_crash_id f \<in> fc_crash_id ` set fatal_crash)
             (filter_fatalities raw_fatalities)"
    by simp
  from dates have ds: "map ?p ?FC = map Some dates"
    by (simp add: those_eq_Some)
  fix r assume "r \<in> set fatal_crash"
  with fc obtain r1 t where r1: "r1 \<in> set (map (\<lambda>(r, d). with_date r d) (zip ?FC dates))"
    and r: "r = r1\<lparr>fc_time := t\<rparr>"
    using standardize_time_rows by blast
  from r1 obtain r0 d where z: "(r0, d) \<in> set (zip ?FC dates)" and w: "r1 = with_date r0 d"
    by auto
  from z obtain i where i: "i < length ?FC" "i < length dates" "?FC ! i = r0" "dates ! i = d"
    by (auto simp: set_zip)
  from ds i(1,2) have "map ?p ?FC ! i = map Some dates ! i" by simp
  with i have "?p r0 = Some d" by simp
  moreover from i(1,3) have "r0 \<in> set ?FC" by (metis nth_mem)
  ultimately show "\<exists>r0\<in>set ?FC. \<exists>d t. r = (with_date r0 d)\<lparr>fc_time := t\<rparr> \<and> ?p r0 = Some d"
    using r w by blast
qed

lemma filter_crashes_year: "r \<in> set (filter_crashes raw) \<Longrightarrow> year_in_range (fc_year r)"
  by (simp add: filter_crashes_def)


lemma load_crash_year:
  assumes "load raw_crashes raw_fatalities = Inr (fatal_crash, fatality_rows)"
    and "r \<in> set fatal_crash"
  shows "year_in_range (fc_year r)"
proof -
  from load_Inr(1) [OF assms] obtain r0 d t where
    "r0 \<in> set (filter_crashes raw_crashes)" "r = (with_date r0 d)\<lparr>fc_time := t\<rparr>"
    by blast
  then show ?thesis
    by (simp add: filter_crashes_year)
qed


lemma collect_Inr: "collect xs = Inr ys \<Longrightarrow> xs = map Inr ys"
  by (induction xs arbitrary: ys) (auto split: sum.splits)


lemma season_row_of_year: "season_row_of y m = Inr s \<Longrightarrow> sd_year s = y \<and> sd_month s = m"
  by (auto simp: season_row_of_def Let_def split: pyval.splits)


lemma merge_left_rows:
  assumes "r \<in> set (merge_left on c ls rs)" and "\<And>l m. l \<in> set ls \<Longrightarrow> P l (c l m)"
  shows "\<exists>l\<in>set ls. P l r"
  using assms by (elim merge_left_cases) blast+






lemmas load_eval = load_def filter_crashes_def filter_fatalities_def coerce_crashes_def
  coerce_fatalities_def read_crashes_def read_fatalities_def as_read_def dtype_of_def
  col_text_def astype_str_def pd_to_datetime_def zfill_def digits_val_def is_digit_def
  digit_val_def clean_crash_def clean_fatality_def clean_cell_def clean_num_def to_numeric_def
  year_in_range_def date_text_def standardize_time_def is_text_def example_crash_def
  example_fatality_def



lemmas dim_eval = location_dim_def vehicle_dim_def road_condition_dim_def time_dim_def
  crash_type_dim_def driver_dim_def drop_duplicates_def drop_duplicates_by_def
  season_dim_def year_month_combinations_def season_row_of_def get_season_def
  fact_table_def monthly_counts_def merge_left_def nansum_def year_month_def
  lga_entries_def unique_lgas_def text_cells_def remoteness_entries_def unique_remoteness_def
  area_state_def states_def fill_missing_ages_def

subsection \<open>The monthly counts of etl.py\<close>

lemma parse_int_py_str: "parse_int (py_str a) = Some a"
proof (cases "a < 0")
  case True
  have "parse_nat (string_of_nat (nat (- a))) = Some (nat (- a))"
    using string_of_nat_digits [of "nat (- a)"] by (simp add: parse_nat_def)
  with True show ?thesis
    by (simp add: py_str_def parse_int_def)
next
  case False
  from parse_int_digits [of "[]" "nat a"] False show ?thesis
    by (simp add: py_str_def digits_val_def)
qed

lemma py_str_inj: "py_str a = py_str b \<Longrightarrow> a = b"
  by (metis parse_int_py_str option.inject)

lemma string_of_nat_length_ge2: "10 \<le> n \<Longrightarrow> 2 \<le> length (string_of_nat n)"
proof -
  assume "10 \<le> n"
  then have "string_of_nat n = string_of_nat (n div 10) @ [digit_char (n mod 10)]"
    by (simp add: string_of_nat.simps [of n])
  moreover have "string_of_nat (n div 10) \<noteq> []"
    using string_of_nat_digits [of "n div 10"] by simp
  ultimately show ?thesis
    by (cases "string_of_nat (n div 10)") simp_all
qed

lemma parse_int_zfill_py_str: "parse_int (zfill 2 (py_str a)) = Some a"
proof -
  consider "a < 0" | "0 \<le> a" "a < 10" | "10 \<le> a" by linarith
  then show ?thesis
  proof cases
    case 1
    have "string_of_nat (nat (- a)) \<noteq> []"
      using string_of_nat_digits [of "nat (- a)"] by simp
    then have "2 \<le> length (py_str a)"
      using 1 by (cases "string_of_nat (nat (- a))") (simp_all add: py_str_def)
    then have "zfill 2 (py_str a) = py_str a"
      by (simp add: zfill_def)
    then show ?thesis by (simp add: parse_int_py_str)
  next
    case 2
    then have n: "nat a < 100" "nat a div 10 = 0" "nat a mod 10 = nat a" "nat a < 10" by simp_all
    have z: "zfill 2 (py_str a) = [digit_char 0, digit_char (nat a)]"
      using 2 zfill_month [OF n(1)] by (simp add: py_str_def n)
    have "list_all is_digit [digit_char 0, digit_char (nat a)]"
      using n(4) by (simp add: digit_char_props)
    moreover have "digits_val [digit_char 0, digit_char (nat a)] = nat a"
      using n(4) by (simp add: digits_val_def digit_char_props)
    moreover have "digit_char 0 \<noteq> CHR ''-''" "digit_char 0 \<noteq> CHR ''+''"
      by (simp_all add: digit_char_props)
    ultimately show ?thesis
      using 2 unfolding z by (simp add: parse_int_def parse_nat_def)
  next
    case 3
    then have "2 \<le> length (string_of_nat (nat a))"
      by (intro string_of_nat_length_ge2) simp
    with 3 have "zfill 2 (py_str a) = py_str a"
      by (simp add: zfill_def py_str_def)
    then show ?thesis by (simp add: parse_int_py_str)
  qed
qed

lemma zfill_py_str_inj: "zfill 2 (py_str a) = zfill 2 (py_str b) \<Longrightarrow> a = b"
  by (metis parse_int_zfill_py_str option.inject)

lemma string_of_nat_length4:
  assumes "1000 \<le> n" "n < 10000"
  shows "length (string_of_nat n) = 4"
proof -
  have s: "10 \<le> k \<Longrightarrow> length (string_of_nat k) = Suc (length (string_of_nat (k div 10)))" for k
    by (simp add: string_of_nat.simps [of k])
  have a: "n div 10 div 10 div 10 < 10" "10 \<le> n div 10 div 10" "10 \<le> n div 10" "10 \<le> n"
    using assms by simp_all
  have "length (string_of_nat (n div 10 div 10 div 10)) = 1"
    using a(1) by (simp add: string_of_nat.simps [of "n div 10 div 10 div 10"])
  with s [OF a(2)] s [OF a(3)] s [OF a(4)] show ?thesis by simp
qed

lemma year_month_inj:
  assumes "fc_year r = PInt y" "2001 \<le> y" "y \<le> 2023" "fc_month r = PInt m"
    and "fc_year r' = PInt y'" "2001 \<le> y'" "y' \<le> 2023" "fc_month r' = PInt m'"
  shows "year_month r = year_month r' \<longleftrightarrow> fc_year r = fc_year r' \<and> fc_month r = fc_month r'"
proof
  assume eq: "year_month r = year_month r'"
  have l: "length (py_str y) = 4" "length (py_str y') = 4"
    using assms by (simp_all add: py_str_def string_of_nat_length4)
  from eq assms have e: "py_str y @ ''-'' @ zfill 2 (py_str m) = py_str y' @ ''-'' @ zfill 2 (py_str m')"
    by (simp add: year_month_def astype_str_def)
  with l have p: "py_str y = py_str y'" and z: "zfill 2 (py_str m) = zfill 2 (py_str m')"
    by simp_all
  have "y = y'" "m = m'"
    by (rule py_str_inj [OF p], rule zfill_py_str_inj [OF z])
  with assms show "fc_year r = fc_year r' \<and> fc_month r = fc_month r'" by simp
next
  assume "fc_year r = fc_year r' \<and> fc_month r = fc_month r'"
  then show "year_month r = year_month r'"
    by (simp add: year_month_def)
qed

lemma merge_left_map:
  assumes "\<And>x. x \<in> set xs \<Longrightarrow> filter (on (h x)) rs = [g x]"
  shows "merge_left on c (map h xs) rs = map (\<lambda>x. c (h x) (Some (g x))) xs"
  using assms by (induction xs) (auto simp: merge_left_def)

lemma distinct_filter_single:
  "distinct (map k xs) \<Longrightarrow> x \<in> set xs \<Longrightarrow> filter (\<lambda>y. k y = k x) xs = [x]"
proof (induction xs)
  case Nil
  then show ?case by simp
next
  case (Cons a xs)
  show ?case
  proof (cases "a = x")
    case True
    with Cons.prems have "k x \<notin> k ` set xs" by simp
    then have "\<forall>y\<in>set xs. k y \<noteq> k x"
      by (metis image_eqI)
    then have "filter (\<lambda>y. k y = k x) xs = []"
      by (simp add: filter_empty_conv)
    with True show ?thesis by simp
  next
    case False
    with Cons.prems have x: "x \<in> set xs" and "k a \<notin> k ` set xs" by auto
    then have "k a \<noteq> k x" by (metis image_eqI)
    with Cons.IH x Cons.prems(1) show ?thesis by simp
  qed
qed

lemma drop_duplicates_distinct: "distinct xs \<Longrightarrow> drop_duplicates xs = xs"
  using dd_seen_id [of "\<lambda>x. x" xs "[]"] by (simp add: drop_duplicates_def drop_duplicates_by_def)

lemma season_row_of_month: "season_row_of y m = Inr s \<Longrightarrow> \<exists>k. m = PInt k"
  by (cases m) (simp_all add: season_row_of_def)

lemma season_dim_total:
  assumes "season_dim fatal_crash = Inr season_lookup" "r \<in> set fatal_crash"
  shows "\<exists>s\<in>set season_lookup. season_row_of (fc_year r) (fc_month r) = Inr s"
proof -
  let ?ym = "year_month_combinations fatal_crash"
  from assms(1) have eq: "map (\<lambda>(y, m). season_row_of y m) ?ym = map Inr season_lookup"
    unfolding season_dim_def by (rule collect_Inr)
  from assms(2) have "(fc_year r, fc_month r) \<in> set ?ym"
    by (simp add: year_month_combinations_def set_drop_duplicates)
  then have "season_row_of (fc_year r) (fc_month r) \<in> set (map (\<lambda>(y, m). season_row_of y m) ?ym)"
    by force
  then have "season_row_of (fc_year r) (fc_month r) \<in> set (map Inr season_lookup)"
    unfolding eq .
  then show ?thesis by auto
qed

lemma season_dim_keys:
  assumes "season_dim fatal_crash = Inr season_lookup"
  shows "distinct (map (\<lambda>s. (sd_year s, sd_month s)) season_lookup)"
proof -
  let ?ym = "year_month_combinations fatal_crash"
  from assms have eq: "map (\<lambda>(y, m). season_row_of y m) ?ym = map Inr season_lookup"
    unfolding season_dim_def by (rule collect_Inr)
  have "map (\<lambda>s. (sd_year s, sd_month s)) season_lookup = ?ym"
  proof (rule nth_equalityI)
    from eq have "length (map (\<lambda>(y, m). season_row_of y m) ?ym) = length (map Inr season_lookup)"
      by simp
    then show len: "length (map (\<lambda>s. (sd_year s, sd_month s)) season_lookup) = length ?ym"
      by simp
    fix i assume "i < length (map (\<lambda>s. (sd_year s, sd_month s)) season_lookup)"
    with len have i: "i < length ?ym" "i < length season_lookup" by simp_all
    from eq have "map (\<lambda>(y, m). season_row_of y m) ?ym ! i = map Inr season_lookup ! i"
      by simp
    with i have "season_row_of (fst (?ym ! i)) (snd (?ym ! i)) = Inr (season_lookup ! i)"
      by (simp add: case_prod_beta)
    from season_row_of_year [OF this] i
    show "map (\<lambda>s. (sd_year s, sd_month s)) season_lookup ! i = ?ym ! i"
      by simp
  qed
  moreover have "distinct ?ym"
    by (simp add: year_month_combinations_def distinct_drop_duplicates)
  ultimately show ?thesis by simp
qed

lemma fact_table_unique_ids:
  assumes season: "season_dim fatal_crash = Inr season_lookup"
    and ids: "distinct (map fc_crash_id fatal_crash)"
  shows "fact_table fatal_crash season_lookup =
           map (\<lambda>r. \<lparr>ef_crash_id = fc_crash_id r, ef_state = fc_state r,
                       ef_number_fatalities = fc_number_fatalities r, ef_year = fc_year r,
                       ef_month = fc_month r, ef_date = fc_date r,
                       ef_monthly_crash_count =
                         Some (int (length (filter (\<lambda>r'. year_month r' = year_month r \<and>
                                                     fc_crash_id r' \<noteq> PNaN) fatal_crash))),
                       ef_monthly_fatality_count =
                         Some (nansum (map fc_number_fatalities
                                 (filter (\<lambda>r'. year_month r' = year_month r) fatal_crash))),
                       ef_season = PStr (sd_season (hd (filter (\<lambda>s. sd_year s = fc_year r \<and>
                                     sd_month s = fc_month r) season_lookup))),
                       ef_season_id = PStr (sd_season_id (hd (filter (\<lambda>s. sd_year s = fc_year r \<and>
                                     sd_month s = fc_month r) season_lookup)))\<rparr>) fatal_crash"
    (is "_ = map ?G fatal_crash")
proof -
  define F0 where "F0 = (\<lambda>r::crash. \<lparr>ef_crash_id = fc_crash_id r, ef_state = fc_state r,
                        ef_number_fatalities = fc_number_fatalities r, ef_year = fc_year r,
                        ef_month = fc_month r, ef_date = fc_date r,
                        ef_monthly_crash_count = None, ef_monthly_fatality_count = None,
                        ef_season = PNaN, ef_season_id = PNaN\<rparr>)"
  define c1 where "c1 = (\<lambda>(f::etl_fact_row) (m::crash option).
                 (f, case m of None \<Rightarrow> PNaN | Some r \<Rightarrow> PStr (year_month r)))"
  define c2 where "c2 = (\<lambda>(f::etl_fact_row, ym::pyval) (m::(string \<times> int \<times> int) option).
                 (case m of
                    None \<Rightarrow> f
                  | Some c \<Rightarrow> f\<lparr>ef_monthly_crash_count := Some (fst (snd c)),
                                 ef_monthly_fatality_count := Some (snd (snd c))\<rparr>, ym))"
  define c3 where "c3 = (\<lambda>(f::etl_fact_row, ym::pyval) (m::season_dim_row option).
                 (case m of
                    None \<Rightarrow> f
                  | Some s \<Rightarrow> f\<lparr>ef_season := PStr (sd_season s),
                                 ef_season_id := PStr (sd_season_id s)\<rparr>, ym))"
  define MC where "MC = (\<lambda>k. (int (length (filter (\<lambda>r. year_month r = k \<and> fc_crash_id r \<noteq> PNaN) fatal_crash)),
                nansum (map fc_number_fatalities (filter (\<lambda>r. year_month r = k) fatal_crash))))"
  define S where "S = (\<lambda>r::crash. hd (filter (\<lambda>s. sd_year s = fc_year r \<and> sd_month s = fc_month r)
                                   season_lookup))"
  define f1 where "f1 = merge_left (\<lambda>f r. fc_crash_id r = ef_crash_id f) c1 (map F0 fatal_crash) fatal_crash"
  define f2 where "f2 = merge_left (\<lambda>(f, ym) c. PStr (fst c) = ym) c2 f1 (monthly_counts fatal_crash)"
  define f3 where "f3 = merge_left (\<lambda>(f, ym) s. sd_year s = ef_year f \<and> sd_month s = ef_month f)
                          c3 f2 season_lookup"
  have ft: "fact_table fatal_crash season_lookup = drop_duplicates (map fst f3)"
    by (simp add: fact_table_def Let_def f1_def f2_def f3_def F0_def c1_def c2_def c3_def)
  have mc: "monthly_counts fatal_crash = map (\<lambda>k. (k, MC k)) (sort (remdups (map year_month fatal_crash)))"
    by (simp add: monthly_counts_def MC_def)
  have e1: "f1 = map (\<lambda>r. (F0 r, PStr (year_month r))) fatal_crash"
  proof -
    have "filter (\<lambda>r. fc_crash_id r = ef_crash_id (F0 x)) fatal_crash = [x]"
      if "x \<in> set fatal_crash" for x
      using distinct_filter_single [OF ids that] by (simp add: F0_def)
    then have "f1 = map (\<lambda>x. c1 (F0 x) (Some x)) fatal_crash"
      unfolding f1_def by (rule merge_left_map)
    then show ?thesis by (simp add: c1_def)
  qed
  have e2: "f2 = map (\<lambda>r. ((F0 r)\<lparr>ef_monthly_crash_count := Some (fst (MC (year_month r))),
                                 ef_monthly_fatality_count := Some (snd (MC (year_month r)))\<rparr>,
                          PStr (year_month r))) fatal_crash"
  proof -
    have "filter (case (F0 x, PStr (year_month x)) of (f, ym) \<Rightarrow> \<lambda>c. PStr (fst c) = ym)
            (monthly_counts fatal_crash) = [(year_month x, MC (year_month x))]"
      if "x \<in> set fatal_crash" for x
    proof -
      have "filter (\<lambda>s. fst s = year_month x) (map (\<lambda>k. (k, MC k)) (sort (remdups (map year_month fatal_crash))))
              = [(year_month x, MC (year_month x))]"
        using that by (intro filter_key_single) auto
      then show ?thesis
        by (simp add: mc)
    qed
    then have "f2 = map (\<lambda>x. c2 (F0 x, PStr (year_month x)) (Some (year_month x, MC (year_month x))))
                      fatal_crash"
      unfolding f2_def e1 by (rule merge_left_map)
    then show ?thesis by (simp add: c2_def)
  qed
  let ?H2 = "\<lambda>r. ((F0 r)\<lparr>ef_monthly_crash_count := Some (fst (MC (year_month r))),
                                 ef_monthly_fatality_count := Some (snd (MC (year_month r)))\<rparr>,
                          PStr (year_month r))"
  have e3: "f3 = map (\<lambda>r. c3 (?H2 r) (Some (S r))) fatal_crash"
  proof -
    have "filter (case ?H2 x of (f, ym) \<Rightarrow> \<lambda>s. sd_year s = ef_year f \<and> sd_month s = ef_month f)
            season_lookup = [S x]"
      if "x \<in> set fatal_crash" for x
    proof -
      from season_dim_total [OF season that] obtain s where s: "s \<in> set season_lookup"
        "season_row_of (fc_year x) (fc_month x) = Inr s"
        by blast
      from season_row_of_year [OF s(2)] have k: "sd_year s = fc_year x" "sd_month s = fc_month x"
        by simp_all
      have "filter (\<lambda>s'. (sd_year s', sd_month s') = (sd_year s, sd_month s)) season_lookup = [s]"
        using season_dim_keys [OF season] s(1) by (rule distinct_filter_single)
      then have one: "filter (\<lambda>s'. sd_year s' = fc_year x \<and> sd_month s' = fc_month x) season_lookup = [s]"
        by (simp add: k)
      then have "S x = s" by (simp add: S_def)
      with one show ?thesis by (simp add: F0_def)
    qed
    then show ?thesis
      unfolding f3_def e2 by (rule merge_left_map)
  qed
  have G: "map fst f3 = map ?G fatal_crash"
    unfolding e3 by (simp add: c3_def F0_def MC_def S_def o_def)
  have "distinct (map ef_crash_id (map ?G fatal_crash))"
    using ids by (simp add: o_def)
  then have "distinct (map ?G fatal_crash)"
    unfolding distinct_map [of ef_crash_id] by blast
  then show ?thesis
    unfolding ft G by (rule drop_duplicates_distinct)
qed

lemma monthly_aggregates:
  assumes load: "load raw_crashes raw_fatalities = Inr (fatal_crash, fatality_rows)"
    and season: "season_dim fatal_crash = Inr season_lookup"
    and ids: "distinct (map fc_crash_id fatal_crash)"
    and nn: "PNaN \<notin> fc_crash_id ` set fatal_crash"
    and e: "e \<in> set (fact_table fatal_crash season_lookup)"
  shows "ef_monthly_crash_count e =
           Some (int (length (filter (\<lambda>e'. ef_year e' = ef_year e \<and> ef_month e' = ef_month e)
                                (fact_table fatal_crash season_lookup)))) \<and>
         ef_monthly_fatality_count e =
           Some (nansum (map ef_number_fatalities
                           (filter (\<lambda>e'. ef_year e' = ef_year e \<and> ef_month e' = ef_month e)
                              (fact_table fatal_crash season_lookup))))"
proof -
  define G where "G = (\<lambda>r::crash. \<lparr>ef_crash_id = fc_crash_id r, ef_state = fc_state r,
                       ef_number_fatalities = fc_number_fatalities r, ef_year = fc_year r,
                       ef_month = fc_month r, ef_date = fc_date r,
                       ef_monthly_crash_count =
                         Some (int (length (filter (\<lambda>r'. year_month r' = year_month r \<and>
                                                     fc_crash_id r' \<noteq> PNaN) fatal_crash))),
                       ef_monthly_fatality_count =
                         Some (nansum (map fc_number_fatalities
                                 (filter (\<lambda>r'. year_month r' = year_month r) fatal_crash))),
                       ef_season = PStr (sd_season (hd (filter (\<lambda>s. sd_year s = fc_year r \<and>
                                     sd_month s = fc_month r) season_lookup))),
                       ef_season_id = PStr (sd_season_id (hd (filter (\<lambda>s. sd_year s = fc_year r \<and>
                                     sd_month s = fc_month r) season_lookup)))\<rparr>)"
  have table: "fact_table fatal_crash season_lookup = map G fatal_crash"
    unfolding G_def using season ids by (rule fact_table_unique_ids)
  from e obtain x where x: "x \<in> set fatal_crash" "e = G x"
    unfolding table by auto
  have key: "year_month r = year_month x \<longleftrightarrow> fc_year r = fc_year x \<and> fc_month r = fc_month x"
    if "r \<in> set fatal_crash" for r
  proof -
    from load_crash_year [OF load that] obtain y where y: "fc_year r = PInt y" "2001 \<le> y" "y \<le> 2023"
      by (auto simp: year_in_range_iff)
    from load_crash_year [OF load x(1)] obtain y' where y': "fc_year x = PInt y'" "2001 \<le> y'" "y' \<le> 2023"
      by (auto simp: year_in_range_iff)
    from season_dim_total [OF season that] obtain m where m: "fc_month r = PInt m"
      using season_row_of_month by blast
    from season_dim_total [OF season x(1)] obtain m' where m': "fc_month x = PInt m'"
      using season_row_of_month by blast
    from y m y' m' show ?thesis by (rule year_month_inj)
  qed
  have nn': "fc_crash_id r \<noteq> PNaN" if "r \<in> set fatal_crash" for r
    using nn that by (metis image_eqI)
  let ?same = "\<lambda>r. fc_year r = fc_year x \<and> fc_month r = fc_month x"
  have f1: "filter (\<lambda>r'. year_month r' = year_month x \<and> fc_crash_id r' \<noteq> PNaN) fatal_crash
              = filter ?same fatal_crash"
    by (rule filter_cong) (auto simp: key nn')
  have f2: "filter (\<lambda>r'. year_month r' = year_month x) fatal_crash = filter ?same fatal_crash"
    by (rule filter_cong) (auto simp: key)
  have f3: "filter (\<lambda>e'. ef_year e' = ef_year e \<and> ef_month e' = ef_month e)
              (fact_table fatal_crash season_lookup) = map G (filter ?same fatal_crash)"
    unfolding table filter_map
    by (rule arg_cong [where f = "map G"], rule filter_cong) (simp_all add: x(2) G_def)
  have num: "map ef_number_fatalities (map G rs) = map fc_number_fatalities rs" for rs
    by (induction rs) (simp_all add: G_def)
  have cnt: "ef_monthly_crash_count e = Some (int (length (filter ?same fatal_crash)))"
    unfolding x(2) f1 [symmetric] by (simp add: G_def)
  have sm: "ef_monthly_fatality_count e
              = Some (nansum (map fc_number_fatalities (filter ?same fatal_crash)))"
    unfolding x(2) f2 [symmetric] by (simp add: G_def)
  show ?thesis
    unfolding f3 num cnt sm by simp
qed

lemma example_dates:
  "pd_to_datetime ''2010-01-01'' = Some ''2010-01-01''"
  "pd_to_datetime ''1999-01-01'' = Some ''1999-01-01''"
  by (simp_all add: pd_to_datetime_def parse_nat_def is_digit_def digits_val_def digit_val_def)

lemma example_fact_table:
  "create_fact_table pd_to_datetime example_crash_types example_driver_rows example_locations
     example_populations example_season_table
     = Inr [fact_out 1 20101001 2 1, fact_out 2 20101002 0 2, fact_out 3 20101003 1 1,
            fact_out 4 20101004 0 1, fact_out 5 20101005 0 3]"
  by (simp add: example_crash_types_def crash_type_def fact_out_def example_locations_def
      example_populations_def example_driver_rows_def example_season_table_def
      fact_eval text_eval example_dates)

lemma example_month_load:
  "load example_month_crashes [] = Inr (example_month_loaded, [])"
  by (simp add: example_month_crashes_def example_month_loaded_def load_eval text_eval Let_def)

lemma example_month_season_dim:
  "season_dim example_month_loaded = Inr example_month_seasons"
  by (simp add: example_month_loaded_def example_month_seasons_def example_crash_def
      dim_eval text_eval)

lemma example_month_fact_table:
  "fact_table example_month_loaded example_month_seasons
     = [etl_fact 20101001 1 ''2010-01-01'' 3, etl_fact 20101002 1 ''2010-01-01'' 3,
        etl_fact 20101003 1 ''2010-01-01'' 3, etl_fact 20101004 2 ''2010-02-01'' 2,
        etl_fact 20101005 2 ''2010-02-01'' 2]"
  by (simp add: example_month_loaded_def example_month_seasons_def example_crash_def
      etl_fact_def dim_eval text_eval)

subsection \<open>The Date column of etl.py\<close>











subsection \<open>Rows of the fact table of creat_fact_table.py\<close>

lemma merge_left_total:
  assumes "l \<in> set ls"
  shows "\<exists>m. c l m \<in> set (merge_left on c ls rs) \<and>
           (case m of None \<Rightarrow> filter (on l) rs = [] | Some x \<Rightarrow> x \<in> set rs \<and> on l x)"
proof (cases "filter (on l) rs")
  case Nil
  with assms have "c l None \<in> set (merge_left on c ls rs)"
    by (force simp: merge_left_def)
  with Nil show ?thesis by (intro exI [of _ None]) simp
next
  case (Cons x xs)
  with assms have "c l (Some x) \<in> set (merge_left on c ls rs)"
    by (force simp: merge_left_def)
  moreover from Cons have "x \<in> set (filter (on l) rs)" by simp
  ultimately show ?thesis by (intro exI [of _ "Some x"]) simp
qed

lemma join_dimensions_crash:
  assumes years: "decode_years crash_df = Some years"
    and f: "f \<in> set (join_dimensions crash_df years driver_df location_df population_df season_df)"
  shows "\<exists>c\<in>set crash_df. crash_id f = ct_crash_id c \<and> fatalities f = ct_number_fatalities c \<and>
           decode_year (ct_crash_id c) = Some (year f)"
proof -
  let ?f1 = "merge_season (base_fact crash_df years) season_df"
  let ?f3 = "map (\<lambda>f. f\<lparr>vehicle_id := crash_id f\<rparr>) (map (\<lambda>f. f\<lparr>road_condition_id := crash_id f\<rparr>) ?f1)"
  let ?f4 = "merge_driver_count ?f3 driver_df"
  let ?f5 = "merge_location ?f4 location_df"
  let ?f6 = "merge_population ?f5 population_df"
  from f obtain f6 where f6: "f6 \<in> set ?f6" "crash_id f = crash_id f6" "year f = year f6"
    "fatalities f = fatalities f6"
    by (auto simp: join_dimensions_def Let_def)
  from merge_population_rows [OF f6(1)] obtain f5 where f5: "f5 \<in> set ?f5"
    "crash_id f6 = crash_id f5" "year f6 = year f5" "fatalities f6 = fatalities f5"
    by blast
  from merge_location_rows [OF f5(1)] obtain f4 where f4: "f4 \<in> set ?f4"
    "crash_id f5 = crash_id f4" "year f5 = year f4" "fatalities f5 = fatalities f4"
    by blast
  from merge_driver_count_rows [OF f4(1)] obtain f3 where f3: "f3 \<in> set ?f3"
    "crash_id f4 = crash_id f3" "year f4 = year f3" "fatalities f4 = fatalities f3"
    by blast
  from f3(1) obtain f1 where f1: "f1 \<in> set ?f1" "crash_id f3 = crash_id f1" "year f3 = year f1"
    "fatalities f3 = fatalities f1"
    by auto
  from merge_season_rows [OF f1(1)] obtain f0 where f0: "f0 \<in> set (base_fact crash_df years)"
    "crash_id f1 = crash_id f0" "year f1 = year f0" "fatalities f1 = fatalities f0"
    by blast
  from base_fact_rows [OF years f0(1)] obtain c where "c \<in> set crash_df"
    "crash_id f0 = ct_crash_id c" "fatalities f0 = ct_number_fatalities c"
    "decode_year (ct_crash_id c) = Some (year f0)"
    by blast
  with f0 f1 f3 f4 f5 f6 show ?thesis
    by (intro bexI [of _ c]) simp_all
qed


lemma merge_left_keeps:
  assumes "l \<in> set ls" and "\<And>m. P (c l m)"
  shows "\<exists>r\<in>set (merge_left on c ls rs). P r"
  using merge_left_total [OF assms(1), of c on rs] assms(2) by blast

lemma base_fact_total:
  assumes years: "decode_years crash_df = Some years" and c: "c \<in> set crash_df"
  shows "\<exists>f\<in>set (base_fact crash_df years). crash_id f = ct_crash_id c \<and>
           fatalities f = ct_number_fatalities c"
proof -
  from years have "map (\<lambda>c. decode_year (ct_crash_id c)) crash_df = map Some years"
    by (simp add: decode_years_def those_eq_Some)
  then have len: "length years = length crash_df"
    by (metis length_map)
  from c obtain i where i: "i < length crash_df" "crash_df ! i = c"
    by (auto simp: in_set_conv_nth)
  with len have "(i, c, years ! i) \<in> set (zip [0..<length crash_df] (zip crash_df years))"
    by (auto simp: set_zip intro!: exI [of _ i])
  then have "\<lparr>fact_id = int i + 1, crash_id = ct_crash_id c,
             fatalities = ct_number_fatalities c, year = years ! i,
             state = decode_state (ct_crash_id c), season_id = PNaN, time_id = PNaN,
             road_condition_id = PNaN, vehicle_id = PNaN, driver_count = 0,
             location_id = PNaN, population_id = PNaN, lga_id = PNaN,
             yearly_crash_count = 0, yearly_fatality_count = 0, crash_date = []\<rparr>
           \<in> set (base_fact crash_df years)"
    unfolding base_fact_def by force
  then show ?thesis by force
qed

lemma join_dimensions_total:
  assumes years: "decode_years crash_df = Some years" and c: "c \<in> set crash_df"
  shows "\<exists>f\<in>set (join_dimensions crash_df years driver_df location_df population_df season_df).
           crash_id f = ct_crash_id c \<and> fatalities f = ct_number_fatalities c"
proof -
  define P :: "fact_row \<Rightarrow> bool"
    where "P = (\<lambda>f. crash_id f = ct_crash_id c \<and> fatalities f = ct_number_fatalities c)"
  let ?f0 = "base_fact crash_df years"
  let ?f1 = "merge_season ?f0 season_df"
  let ?f3 = "map (\<lambda>f. f\<lparr>vehicle_id := crash_id f\<rparr>) (map (\<lambda>f. f\<lparr>road_condition_id := crash_id f\<rparr>) ?f1)"
  let ?f4 = "merge_driver_count ?f3 driver_df"
  let ?f5 = "merge_location ?f4 location_df"
  let ?f6 = "merge_population ?f5 population_df"
  from base_fact_total [OF years c] obtain f0 where f0: "f0 \<in> set ?f0" "P f0"
    by (auto simp: P_def)
  have "\<exists>r\<in>set ?f1. P r"
    unfolding merge_season_def using f0
    by (intro merge_left_keeps [of f0]) (auto simp: P_def split: option.splits)
  then obtain f1 where f1: "f1 \<in> set ?f1" "P f1" by blast
  let ?f3' = "(f1\<lparr>road_condition_id := crash_id f1\<rparr>)\<lparr>vehicle_id := crash_id f1\<rparr>"
  from f1 have f3: "?f3' \<in> set ?f3" "P ?f3'"
    by (force simp: P_def)+
  have "\<exists>r\<in>set ?f4. P r"
    unfolding merge_driver_count_def using f3
    by (intro merge_left_keeps [of ?f3']) (auto simp: P_def split: option.splits)
  then obtain f4 where f4: "f4 \<in> set ?f4" "P f4" by blast
  have "\<exists>r\<in>set ?f5. P r"
    unfolding merge_location_def using f4
    by (intro merge_left_keeps [of f4]) (auto simp: P_def split: option.splits)
  then obtain f5 where f5: "f5 \<in> set ?f5" "P f5" by blast
  have "\<exists>r\<in>set ?f6. P r"
    unfolding merge_population_def using f5
    by (intro merge_left_keeps [of f5]) (auto simp: P_def split: option.splits)
  then obtain f6 where f6: "f6 \<in> set ?f6" "P f6" by blast
  then have "f6\<lparr>lga_id := crash_id f6\<rparr>
               \<in> set (join_dimensions crash_df years driver_df location_df population_df season_df)"
    "P (f6\<lparr>lga_id := crash_id f6\<rparr>)"
    by (force simp: join_dimensions_def Let_def P_def)+
  then show ?thesis
    unfolding P_def by blast
qed

lemma join_dimensions_state:
  assumes f: "f \<in> set (join_dimensions crash_df years driver_df location_df population_df season_df)"
  shows "state f = decode_state (crash_id f) \<and>
         (state f \<notin> lo_state ` set location_df \<longrightarrow> location_id f = PNaN) \<and>
         (state f \<notin> po_state ` set population_df \<longrightarrow> population_id f = PNaN)"
proof -
  define Q :: "fact_row \<Rightarrow> fact_row \<Rightarrow> bool"
    where "Q = (\<lambda>g f. crash_id f = crash_id g \<and> state f = state g)"
  define Q' :: "fact_row \<Rightarrow> fact_row \<Rightarrow> bool"
    where "Q' = (\<lambda>g f. crash_id f = crash_id g \<and> state f = state g \<and>
                  location_id f = location_id g)"
  let ?f0 = "base_fact crash_df years"
  let ?f1 = "merge_season ?f0 season_df"
  let ?f3 = "map (\<lambda>f. f\<lparr>vehicle_id := crash_id f\<rparr>) (map (\<lambda>f. f\<lparr>road_condition_id := crash_id f\<rparr>) ?f1)"
  let ?f4 = "merge_driver_count ?f3 driver_df"
  let ?f5 = "merge_location ?f4 location_df"
  let ?f6 = "merge_population ?f5 population_df"
  from f obtain f6 where f6: "f6 \<in> set ?f6" "crash_id f = crash_id f6" "state f = state f6"
    "location_id f = location_id f6" "population_id f = population_id f6"
    by (auto simp: join_dimensions_def Let_def)
  from f6(1) have p: "state f6 \<notin> po_state ` set population_df \<longrightarrow> population_id f6 = PNaN"
    unfolding merge_population_def by (elim merge_left_cases) (auto simp: image_iff)
  from f6(1) have "\<exists>g\<in>set ?f5. Q' g f6"
    unfolding merge_population_def
    by (rule merge_left_rows) (simp add: Q'_def split: option.splits)
  then obtain f5 where f5: "f5 \<in> set ?f5" "Q' f5 f6" by blast
  from f5(1) have l: "state f5 \<notin> lo_state ` set location_df \<longrightarrow> location_id f5 = PNaN"
    unfolding merge_location_def by (elim merge_left_cases) (auto simp: image_iff)
  from f5(1) have "\<exists>g\<in>set ?f4. Q g f5"
    unfolding merge_location_def
    by (rule merge_left_rows) (simp add: Q_def split: option.splits)
  then obtain f4 where f4: "f4 \<in> set ?f4" "Q f4 f5" by blast
  from f4(1) have "\<exists>g\<in>set ?f3. Q g f4"
    unfolding merge_driver_count_def
    by (rule merge_left_rows) (simp add: Q_def split: option.splits)
  then obtain f3 where f3: "f3 \<in> set ?f3" "Q f3 f4" by blast
  from f3(1) obtain f1 where f1: "f1 \<in> set ?f1" "Q f1 f3"
    by (auto simp: Q_def)
  from f1(1) have "\<exists>g\<in>set ?f0. Q g f1"
    unfolding merge_season_def
    by (rule merge_left_rows) (simp add: Q_def split: option.splits)
  then obtain f0 where f0: "f0 \<in> set ?f0" "Q f0 f1" by blast
  from f0(1) have "state f0 = decode_state (crash_id f0)"
    by (auto simp: base_fact_def)
  with f0(2) f1(2) f3(2) f4(2) f5(2) f6 l p show ?thesis
    by (simp add: Q_def Q'_def)
qed

lemma merge_yearly_rows:
  assumes "f \<in> set (merge_yearly rows)"
  shows "\<exists>g\<in>set rows. crash_id f = crash_id g \<and> year f = year g \<and> fatalities f = fatalities g \<and>
           state f = state g \<and> location_id f = location_id g \<and> population_id f = population_id g"
  using assms unfolding merge_yearly_def
  by (rule merge_left_rows) (simp split: option.splits)

lemma create_fact_table_total:
  assumes dec: "\<And>c. c \<in> set crash_df \<Longrightarrow>
             \<exists>y. decode_year (ct_crash_id c) = Some y \<and> to_datetime (py_str y @ ''-01-01'') \<noteq> None"
    and tid: "\<And>s. s \<in> set season_df \<Longrightarrow> time_id_of s \<noteq> None"
  shows "\<exists>table. create_fact_table to_datetime crash_df driver_df location_df population_df
                   season_df = Inr table \<and>
           (\<forall>c\<in>set crash_df. \<exists>r\<in>set table. ft_crash_id r = ct_crash_id c \<and>
               ft_fatalities r = ct_number_fatalities c) \<and>
           (\<forall>r\<in>set table.
               (decode_state (ft_crash_id r) \<notin> lo_state ` set location_df \<longrightarrow>
                  ft_location_id r = PNaN) \<and>
               (decode_state (ft_crash_id r) \<notin> po_state ` set population_df \<longrightarrow>
                  ft_population_id r = PNaN))"
proof -
  have "\<And>c. c \<in> set crash_df \<Longrightarrow> decode_year (ct_crash_id c) \<noteq> None"
    using dec by fastforce
  then obtain years where years: "decode_years crash_df = Some years"
    unfolding decode_years_def using those_map_total [of crash_df "\<lambda>c. decode_year (ct_crash_id c)"]
    by blast
  from tid obtain time_ids where tids: "season_time_ids season_df = Some time_ids"
    unfolding season_time_ids_def using those_map_total [of season_df time_id_of]
    by blast
  let ?J = "join_dimensions crash_df years driver_df location_df population_df
              (zip season_df time_ids)"
  let ?F = "merge_yearly ?J"
  let ?h = "\<lambda>f. to_datetime (py_str (year f) @ ''-01-01'')"
  have "?h f \<noteq> None" if "f \<in> set ?F" for f
  proof -
    from merge_yearly_rows [OF that] obtain g where g: "g \<in> set ?J" "year f = year g"
      by blast
    from join_dimensions_crash [OF years g(1)] obtain c where
      "c \<in> set crash_df" "decode_year (ct_crash_id c) = Some (year g)"
      by blast
    with dec [of c] g(2) show ?thesis by simp
  qed
  then obtain dates where dates: "those (map ?h ?F) = Some dates"
    using those_map_total [of ?F ?h] by blast
  define table where
    "table = map select_columns (map (\<lambda>(f, d). f\<lparr>crash_date := d\<rparr>) (zip ?F dates))"
  from years tids dates have run: "create_fact_table to_datetime crash_df driver_df location_df
      population_df season_df = Inr table"
    by (simp add: create_fact_table_def Let_def table_def)
  from dates have "dates = map (\<lambda>f. the (?h f)) ?F"
    by (rule those_map_Some)
  then have tab: "table = map (\<lambda>f. select_columns (f\<lparr>crash_date := the (?h f)\<rparr>)) ?F"
    by (simp add: table_def zip_map_same)
  have every: "\<exists>r\<in>set table. ft_crash_id r = ct_crash_id c \<and>
      ft_fatalities r = ct_number_fatalities c" if "c \<in> set crash_df" for c
  proof -
    from join_dimensions_total [OF years that] obtain g where g: "g \<in> set ?J"
      "crash_id g = ct_crash_id c" "fatalities g = ct_number_fatalities c"
      by blast
    have "\<exists>f\<in>set ?F. crash_id f = ct_crash_id c \<and> fatalities f = ct_number_fatalities c"
      unfolding merge_yearly_def using g
      by (intro merge_left_keeps [of g]) (auto split: option.splits)
    then obtain f where f: "f \<in> set ?F" "crash_id f = ct_crash_id c"
      "fatalities f = ct_number_fatalities c"
      by blast
    from f(1) have "select_columns (f\<lparr>crash_date := the (?h f)\<rparr>) \<in> set table"
      unfolding tab by simp
    moreover have "ft_crash_id (select_columns (f\<lparr>crash_date := the (?h f)\<rparr>)) = ct_crash_id c"
      "ft_fatalities (select_columns (f\<lparr>crash_date := the (?h f)\<rparr>)) = ct_number_fatalities c"
      using f by (simp_all add: select_columns_def)
    ultimately show ?thesis by blast
  qed
  have degrade: "(decode_state (ft_crash_id r) \<notin> lo_state ` set location_df \<longrightarrow>
                  ft_location_id r = PNaN) \<and>
               (decode_state (ft_crash_id r) \<notin> po_state ` set population_df \<longrightarrow>
                  ft_population_id r = PNaN)" if "r \<in> set table" for r
  proof -
    from that obtain f where f: "f \<in> set ?F" "r = select_columns (f\<lparr>crash_date := the (?h f)\<rparr>)"
      unfolding tab by auto
    from merge_yearly_rows [OF f(1)] obtain g where g: "g \<in> set ?J" "crash_id f = crash_id g"
      "state f = state g" "location_id f = location_id g" "population_id f = population_id g"
      by blast
    from join_dimensions_state [OF g(1)] f(2) g show ?thesis
      by (simp add: select_columns_def)
  qed
  from run every degrade show ?thesis by blast
qed



lemma example_state_fact:
  "create_fact_table pd_to_datetime [crash_type 20101001 1, crash_type 20109001 2] []
     [\<lparr>lo_location_id = PInt 7, lo_state = PStr ''NSW''\<rparr>] [] []
     = Inr [fact_line 1 20101001 (PInt 7) 1 2 3, fact_line 2 20109001 PNaN 2 2 3]"
  by (simp add: crash_type_def fact_line_def fact_eval text_eval example_dates)

subsection \<open>Aggregates over crashes\<close>

lemma distinct_filter_le1:
  "distinct (map k xs) \<Longrightarrow> length (filter (\<lambda>x. k x = v) xs) \<le> 1"
proof (induction xs)
  case Nil
  then show ?case by simp
next
  case (Cons a xs)
  show ?case
  proof (cases "k a = v")
    case True
    with Cons.prems have "v \<notin> k ` set xs" by simp
    then have "filter (\<lambda>x. k x = v) xs = []"
      by (auto simp: filter_empty_conv)
    with True show ?thesis by simp
  next
    case False
    with Cons show ?thesis by simp
  qed
qed

lemma merge_left_core:
  assumes "\<And>l. l \<in> set ls \<Longrightarrow> length (filter (on l) rs) \<le> 1"
    and "\<And>l m. g (c l m) = h l"
  shows "map g (merge_left on c ls rs) = map h ls"
  using assms(1)
proof (induction ls)
  case Nil
  then show ?case by (simp add: merge_left_def)
next
  case (Cons l ls)
  have rest: "map g (merge_left on c ls rs) = map h ls"
    using Cons by simp
  have split: "merge_left on c (l # ls) rs
      = (case filter (on l) rs of [] \<Rightarrow> [c l None] | r # rs' \<Rightarrow> map (\<lambda>r. c l (Some r)) (r # rs'))
        @ merge_left on c ls rs"
    by (simp add: merge_left_def)
  from Cons.prems [of l] have le: "length (filter (on l) rs) \<le> 1" by simp
  have "map g (case filter (on l) rs of [] \<Rightarrow> [c l None]
                 | r # rs' \<Rightarrow> map (\<lambda>r. c l (Some r)) (r # rs')) = [h l]"
  proof (cases "filter (on l) rs")
    case Nil
    then show ?thesis by (simp add: assms(2))
  next
    case (Cons x xs)
    with le have "xs = []" by simp
    with Cons show ?thesis by (simp add: assms(2))
  qed
  with rest show ?case
    unfolding split by simp
qed

lemma base_fact_core:
  assumes years: "decode_years crash_df = Some years"
  shows "map (\<lambda>f. (crash_id f, fatalities f, year f)) (base_fact crash_df years)
           = map (\<lambda>c. (ct_crash_id c, ct_number_fatalities c, the (decode_year (ct_crash_id c))))
               crash_df"
proof -
  let ?k = "\<lambda>c. the (decode_year (ct_crash_id c))"
  from years have y: "years = map ?k crash_df"
    unfolding decode_years_def by (rule those_map_Some)
  have z: "zip [0..<length xs] (map (\<lambda>c. (c, ?k c)) xs)
             = map (\<lambda>i. (i, xs ! i, ?k (xs ! i))) [0..<length xs]" for xs :: "crash_type_row list"
    by (rule nth_equalityI) simp_all
  have "map (\<lambda>f. (crash_id f, fatalities f, year f)) (base_fact crash_df years)
          = map (\<lambda>i. (ct_crash_id (crash_df ! i), ct_number_fatalities (crash_df ! i),
                       ?k (crash_df ! i))) [0..<length crash_df]"
    by (simp add: base_fact_def y zip_map_same z o_def)
  also have "\<dots> = map (\<lambda>c. (ct_crash_id c, ct_number_fatalities c, ?k c)) crash_df"
    by (rule nth_equalityI) simp_all
  finally show ?thesis .
qed

lemma join_dimensions_core:
  assumes years: "decode_years crash_df = Some years"
    and loc: "distinct (map lo_state location_df)"
    and pop: "distinct (map (\<lambda>p. (po_state p, po_year p)) population_df)"
  shows "map (\<lambda>f. (crash_id f, fatalities f, year f))
           (join_dimensions crash_df years driver_df location_df population_df season_df)
         = map (\<lambda>c. (ct_crash_id c, ct_number_fatalities c, the (decode_year (ct_crash_id c))))
             crash_df"
proof -
  define core :: "fact_row \<Rightarrow> pyval \<times> int option \<times> int"
    where "core = (\<lambda>f. (crash_id f, fatalities f, year f))"
  let ?f0 = "base_fact crash_df years"
  let ?f1 = "merge_season ?f0 season_df"
  let ?f3 = "map (\<lambda>f. f\<lparr>vehicle_id := crash_id f\<rparr>) (map (\<lambda>f. f\<lparr>road_condition_id := crash_id f\<rparr>) ?f1)"
  let ?f4 = "merge_driver_count ?f3 driver_df"
  let ?f5 = "merge_location ?f4 location_df"
  let ?f6 = "merge_population ?f5 population_df"
  have s1: "map core ?f1 = map core ?f0"
    unfolding merge_season_def
  proof (rule merge_left_core)
    fix l :: fact_row
    have "distinct (map (\<lambda>s. se_year (fst s)) (drop_duplicates_by (\<lambda>s. se_year (fst s)) season_df))"
      by (simp add: drop_duplicates_by_def dd_seen_distinct)
    then show "length (filter (\<lambda>s. se_year (fst s) = PInt (year l))
                 (drop_duplicates_by (\<lambda>s. se_year (fst s)) season_df)) \<le> 1"
      by (rule distinct_filter_le1)
  qed (simp add: core_def split: option.splits)
  have s3: "map core ?f3 = map core ?f1"
    by (simp add: core_def o_def)
  have s4: "map core ?f4 = map core ?f3"
    unfolding merge_driver_count_def
  proof (rule merge_left_core)
    fix l :: fact_row
    have "map fst (driver_counts driver_df)
            = drop_duplicates (filter (\<lambda>k. k \<noteq> PNaN) (map dr_crash_id driver_df))"
      by (simp add: driver_counts_def o_def)
    then have "distinct (map fst (driver_counts driver_df))"
      by (simp add: distinct_drop_duplicates)
    then show "length (filter (\<lambda>d. fst d = crash_id l) (driver_counts driver_df)) \<le> 1"
      by (rule distinct_filter_le1)
  qed (simp add: core_def split: option.splits)
  have s5: "map core ?f5 = map core ?f4"
    unfolding merge_location_def
  proof (rule merge_left_core)
    fix l :: fact_row
    from loc show "length (filter (\<lambda>x. lo_state x = state l) location_df) \<le> 1"
      by (rule distinct_filter_le1)
  qed (simp add: core_def split: option.splits)
  have s6: "map core ?f6 = map core ?f5"
    unfolding merge_population_def
  proof (rule merge_left_core)
    fix l :: fact_row
    from distinct_filter_le1 [OF pop, of "(state l, PInt (year l))"]
    show "length (filter (\<lambda>p. po_state p = state l \<and> po_year p = PInt (year l)) population_df) \<le> 1"
      by simp
  qed (simp add: core_def split: option.splits)
  have "map core (join_dimensions crash_df years driver_df location_df population_df season_df)
          = map core ?f6"
    by (simp add: join_dimensions_def Let_def core_def o_def)
  also have "\<dots> = map core ?f0"
    by (simp only: s6 s5 s4 s3 s1)
  finally show ?thesis
    unfolding core_def by (simp only: base_fact_core [OF years])
qed

lemma yearly_aggregates_crashes:
  assumes run: "create_fact_table to_datetime crash_df driver_df location_df population_df season_df
             = Inr table"
    and r: "r \<in> set table"
    and loc: "distinct (map lo_state location_df)"
    and pop: "distinct (map (\<lambda>p. (po_state p, po_year p)) population_df)"
  shows "ft_yearly_crash_count r =
           int (length (filter (\<lambda>c. decode_year (ct_crash_id c) = decode_year (ft_crash_id r))
                          crash_df)) \<and>
         ft_yearly_fatality_count r =
           nansum (map ct_number_fatalities
                     (filter (\<lambda>c. decode_year (ct_crash_id c) = decode_year (ft_crash_id r))
                        crash_df))"
proof -
  from run obtain years time_ids where
    years: "decode_years crash_df = Some years"
    and table: "table = map (\<lambda>f. select_columns (f\<lparr>crash_date := the (to_datetime (py_str (year f) @ ''-01-01''))\<rparr>))
               (merge_yearly (join_dimensions crash_df years driver_df location_df population_df
                                (zip season_df time_ids)))"
    by (rule create_fact_table_Inr)
  let ?J = "join_dimensions crash_df years driver_df location_df population_df
              (zip season_df time_ids)"
  let ?cnt = "\<lambda>f. int (length (filter (\<lambda>g. year g = year f) ?J))"
  let ?sum = "\<lambda>f. nansum (map fatalities (filter (\<lambda>g. year g = year f) ?J))"
  let ?out = "\<lambda>f. select_columns
                 (f\<lparr>yearly_crash_count := ?cnt f, yearly_fatality_count := ?sum f,
                    crash_date := the (to_datetime (py_str (year f) @ ''-01-01''))\<rparr>)"
  define core :: "fact_row \<Rightarrow> pyval \<times> int option \<times> int"
    where "core = (\<lambda>f. (crash_id f, fatalities f, year f))"
  define core' :: "crash_type_row \<Rightarrow> pyval \<times> int option \<times> int"
    where "core' = (\<lambda>c. (ct_crash_id c, ct_number_fatalities c, the (decode_year (ct_crash_id c))))"
  have inv: "decode_year (crash_id f) = Some (year f)" if "f \<in> set ?J" for f
    using join_dimensions_rows [OF years that] by simp
  have nn: "crash_id f \<noteq> PNaN" if "f \<in> set ?J" for f
    using inv [OF that] decode_year_nan by auto
  have my: "merge_yearly ?J =
           map (\<lambda>f. f\<lparr>yearly_crash_count := ?cnt f, yearly_fatality_count := ?sum f\<rparr>) ?J"
    by (rule merge_yearly_map) (rule nn)
  have tab: "table = map ?out ?J"
    unfolding table my by (simp add: o_def)
  from r obtain f where f: "f \<in> set ?J" "r = ?out f"
    unfolding tab by auto
  have dr: "decode_year (ft_crash_id r) = Some (year f)"
    using inv [OF f(1)] by (simp add: f(2) select_columns_def)
  have dec: "decode_year (ct_crash_id c) \<noteq> None" if "c \<in> set crash_df" for c
    using years that unfolding decode_years_def by (rule those_map_Some_all)
  have eq: "map core ?J = map core' crash_df"
    unfolding core_def core'_def using years loc pop by (rule join_dimensions_core)
  have a: "map fatalities (filter (\<lambda>g. year g = year f) ?J)
             = map (\<lambda>t. fst (snd t)) (filter (\<lambda>t. snd (snd t) = year f) (map core ?J))"
    by (simp add: filter_map o_def core_def)
  have same: "filter (\<lambda>c. decode_year (ct_crash_id c) = decode_year (ft_crash_id r)) crash_df
                = filter (\<lambda>c. the (decode_year (ct_crash_id c)) = year f) crash_df"
  proof (rule filter_cong)
    fix c assume "c \<in> set crash_df"
    from dec [OF this] obtain y where "decode_year (ct_crash_id c) = Some y" by auto
    with dr show "(decode_year (ct_crash_id c) = decode_year (ft_crash_id r))
                    = (the (decode_year (ct_crash_id c)) = year f)"
      by simp
  qed simp
  have b: "map ct_number_fatalities
             (filter (\<lambda>c. decode_year (ct_crash_id c) = decode_year (ft_crash_id r)) crash_df)
             = map (\<lambda>t. fst (snd t)) (filter (\<lambda>t. snd (snd t) = year f) (map core' crash_df))"
    unfolding same by (simp add: filter_map o_def core'_def)
  from a b eq have fat: "map fatalities (filter (\<lambda>g. year g = year f) ?J)
      = map ct_number_fatalities
          (filter (\<lambda>c. decode_year (ct_crash_id c) = decode_year (ft_crash_id r)) crash_df)"
    by simp
  then have "length (map fatalities (filter (\<lambda>g. year g = year f) ?J))
      = length (map ct_number_fatalities
          (filter (\<lambda>c. decode_year (ct_crash_id c) = decode_year (ft_crash_id r)) crash_df))"
    by (rule arg_cong)
  then have len: "length (filter (\<lambda>g. year g = year f) ?J)
      = length (filter (\<lambda>c. decode_year (ct_crash_id c) = decode_year (ft_crash_id r)) crash_df)"
    by simp
  have cnt: "ft_yearly_crash_count r = ?cnt f" and sm: "ft_yearly_fatality_count r = ?sum f"
    by (simp_all add: f(2) select_columns_def)
  show ?thesis
    unfolding cnt sm fat len by simp
qed

lemma fact_table_counts:
  assumes "e \<in> set (fact_table fatal_crash season_lookup)"
  shows "\<exists>r1\<in>set fatal_crash. fc_crash_id r1 = ef_crash_id e \<and>
           ef_monthly_crash_count e =
             Some (int (length (filter (\<lambda>r. year_month r = year_month r1 \<and> fc_crash_id r \<noteq> PNaN)
                                  fatal_crash))) \<and>
           ef_monthly_fatality_count e =
             Some (nansum (map fc_number_fatalities
                             (filter (\<lambda>r. year_month r = year_month r1) fatal_crash)))"
proof -
  define F0 where "F0 = (\<lambda>r::crash. \<lparr>ef_crash_id = fc_crash_id r, ef_state = fc_state r,
                        ef_number_fatalities = fc_number_fatalities r, ef_year = fc_year r,
                        ef_month = fc_month r, ef_date = fc_date r,
                        ef_monthly_crash_count = None, ef_monthly_fatality_count = None,
                        ef_season = PNaN, ef_season_id = PNaN\<rparr>)"
  define c1 where "c1 = (\<lambda>(f::etl_fact_row) (m::crash option).
                 (f, case m of None \<Rightarrow> PNaN | Some r \<Rightarrow> PStr (year_month r)))"
  define c2 where "c2 = (\<lambda>(f::etl_fact_row, ym::pyval) (m::(string \<times> int \<times> int) option).
                 (case m of
                    None \<Rightarrow> f
                  | Some c \<Rightarrow> f\<lparr>ef_monthly_crash_count := Some (fst (snd c)),
                                 ef_monthly_fatality_count := Some (snd (snd c))\<rparr>, ym))"
  define c3 where "c3 = (\<lambda>(f::etl_fact_row, ym::pyval) (m::season_dim_row option).
                 (case m of
                    None \<Rightarrow> f
                  | Some s \<Rightarrow> f\<lparr>ef_season := PStr (sd_season s),
                                 ef_season_id := PStr (sd_season_id s)\<rparr>, ym))"
  define MC where "MC = (\<lambda>k. (int (length (filter (\<lambda>r. year_month r = k \<and> fc_crash_id r \<noteq> PNaN) fatal_crash)),
                nansum (map fc_number_fatalities (filter (\<lambda>r. year_month r = k) fatal_crash))))"
  define f1 where "f1 = merge_left (\<lambda>f r. fc_crash_id r = ef_crash_id f) c1 (map F0 fatal_crash) fatal_crash"
  define f2 where "f2 = merge_left (\<lambda>(f, ym) c. PStr (fst c) = ym) c2 f1 (monthly_counts fatal_crash)"
  define f3 where "f3 = merge_left (\<lambda>(f, ym) s. sd_year s = ef_year f \<and> sd_month s = ef_month f)
                          c3 f2 season_lookup"
  define good :: "etl_fact_row \<Rightarrow> bool" where
    "good = (\<lambda>e. \<exists>r1\<in>set fatal_crash. fc_crash_id r1 = ef_crash_id e \<and>
               ef_monthly_crash_count e = Some (fst (MC (year_month r1))) \<and>
               ef_monthly_fatality_count e = Some (snd (MC (year_month r1))))"
  have ft: "fact_table fatal_crash season_lookup = drop_duplicates (map fst f3)"
    by (simp add: fact_table_def Let_def f1_def f2_def f3_def F0_def c1_def c2_def c3_def)
  have mc: "monthly_counts fatal_crash = map (\<lambda>k. (k, MC k)) (sort (remdups (map year_month fatal_crash)))"
    by (simp add: monthly_counts_def MC_def)
  have g1: "\<exists>r1\<in>set fatal_crash. fc_crash_id r1 = ef_crash_id (fst p) \<and> snd p = PStr (year_month r1)"
    if "p \<in> set f1" for p
    using that unfolding f1_def
  proof (elim merge_left_cases)
    fix l assume l: "l \<in> set (map F0 fatal_crash)"
      and none: "filter (\<lambda>r. fc_crash_id r = ef_crash_id l) fatal_crash = []"
    from l obtain r0 where "r0 \<in> set fatal_crash" "ef_crash_id l = fc_crash_id r0"
      by (auto simp: F0_def)
    then have "r0 \<in> set (filter (\<lambda>r. fc_crash_id r = ef_crash_id l) fatal_crash)"
      by simp
    with none show ?thesis by simp
  next
    fix l x assume "x \<in> set fatal_crash" "fc_crash_id x = ef_crash_id l" "p = c1 l (Some x)"
    then show ?thesis
      by (intro bexI [of _ x]) (simp_all add: c1_def)
  qed
  have g2: "good (fst p)" if "p \<in> set f2" for p
    using that unfolding f2_def
  proof (elim merge_left_cases)
    fix l assume l: "l \<in> set f1"
      and none: "filter (case l of (f, ym) \<Rightarrow> \<lambda>c. PStr (fst c) = ym) (monthly_counts fatal_crash) = []"
    from g1 [OF l] obtain r1 where r1: "r1 \<in> set fatal_crash" "snd l = PStr (year_month r1)"
      by blast
    have "filter (\<lambda>s. fst s = year_month r1)
            (map (\<lambda>k. (k, MC k)) (sort (remdups (map year_month fatal_crash))))
            = [(year_month r1, MC (year_month r1))]"
      using r1(1) by (intro filter_key_single) auto
    with r1(2) have "filter (case l of (f, ym) \<Rightarrow> \<lambda>c. PStr (fst c) = ym) (monthly_counts fatal_crash)
            = [(year_month r1, MC (year_month r1))]"
      by (cases l) (simp add: mc)
    with none show ?thesis by simp
  next
    fix l x assume l: "l \<in> set f1" and x: "x \<in> set (monthly_counts fatal_crash)"
      and on: "(case l of (f, ym) \<Rightarrow> \<lambda>c. PStr (fst c) = ym) x" and p: "p = c2 l (Some x)"
    from g1 [OF l] obtain r1 where r1: "r1 \<in> set fatal_crash"
      "fc_crash_id r1 = ef_crash_id (fst l)" "snd l = PStr (year_month r1)"
      by blast
    from on r1(3) have k: "fst x = year_month r1"
      by (cases l) simp
    from x have "snd x = MC (fst x)"
      unfolding mc by auto
    with k have v: "snd x = MC (year_month r1)" by simp
    from p v r1 show ?thesis
      unfolding good_def by (cases l) (auto simp: c2_def)
  qed
  from assms obtain p3 where p3: "p3 \<in> set f3" "e = fst p3"
    unfolding ft by (auto simp: set_drop_duplicates)
  from p3(1) have "\<exists>p2\<in>set f2. ef_crash_id (fst p3) = ef_crash_id (fst p2) \<and>
      ef_monthly_crash_count (fst p3) = ef_monthly_crash_count (fst p2) \<and>
      ef_monthly_fatality_count (fst p3) = ef_monthly_fatality_count (fst p2)"
    unfolding f3_def
    by (rule merge_left_rows [where P = "\<lambda>l r. ef_crash_id (fst r) = ef_crash_id (fst l) \<and>
      ef_monthly_crash_count (fst r) = ef_monthly_crash_count (fst l) \<and>
      ef_monthly_fatality_count (fst r) = ef_monthly_fatality_count (fst l)"])
       (auto simp: c3_def split: prod.splits option.splits)
  then obtain p2 where p2: "p2 \<in> set f2" "ef_crash_id e = ef_crash_id (fst p2)"
      "ef_monthly_crash_count e = ef_monthly_crash_count (fst p2)"
      "ef_monthly_fatality_count e = ef_monthly_fatality_count (fst p2)"
    using p3(2) by auto
  from g2 [OF p2(1)] p2 have "good e"
    unfolding good_def by simp
  then show ?thesis
    unfolding good_def MC_def by simp
qed

lemma monthly_counts_of_crashes:
  assumes load: "load raw_crashes raw_fatalities = Inr (fatal_crash, fatality_rows)"
    and season: "season_dim fatal_crash = Inr season_lookup"
    and e: "e \<in> set (fact_table fatal_crash season_lookup)"
  shows "\<exists>r1\<in>set fatal_crash. fc_crash_id r1 = ef_crash_id e \<and>
           ef_monthly_crash_count e =
             Some (int (length (filter (\<lambda>r. fc_year r = fc_year r1 \<and> fc_month r = fc_month r1 \<and>
                                          fc_crash_id r \<noteq> PNaN) fatal_crash))) \<and>
           ef_monthly_fatality_count e =
             Some (nansum (map fc_number_fatalities
                             (filter (\<lambda>r. fc_year r = fc_year r1 \<and> fc_month r = fc_month r1)
                                fatal_crash)))"
proof -
  from fact_table_counts [OF e] obtain r1 where r1: "r1 \<in> set fatal_crash"
    "fc_crash_id r1 = ef_crash_id e"
    "ef_monthly_crash_count e =
       Some (int (length (filter (\<lambda>r. year_month r = year_month r1 \<and> fc_crash_id r \<noteq> PNaN)
                            fatal_crash)))"
    "ef_monthly_fatality_count e =
       Some (nansum (map fc_number_fatalities
                       (filter (\<lambda>r. year_month r = year_month r1) fatal_crash)))"
    by blast
  have key: "year_month r = year_month r1 \<longleftrightarrow> fc_year r = fc_year r1 \<and> fc_month r = fc_month r1"
    if "r \<in> set fatal_crash" for r
  proof -
    from load_crash_year [OF load that] obtain y where y: "fc_year r = PInt y" "2001 \<le> y" "y \<le> 2023"
      by (auto simp: year_in_range_iff)
    from load_crash_year [OF load r1(1)] obtain y' where y': "fc_year r1 = PInt y'" "2001 \<le> y'" "y' \<le> 2023"
      by (auto simp: year_in_range_iff)
    from season_dim_total [OF season that] obtain m where m: "fc_month r = PInt m"
      using season_row_of_month by blast
    from season_dim_total [OF season r1(1)] obtain m' where m': "fc_month r1 = PInt m'"
      using season_row_of_month by blast
    from y m y' m' show ?thesis by (rule year_month_inj)
  qed
  have f1: "filter (\<lambda>r. year_month r = year_month r1 \<and> fc_crash_id r \<noteq> PNaN) fatal_crash
              = filter (\<lambda>r. fc_year r = fc_year r1 \<and> fc_month r = fc_month r1 \<and>
                          fc_crash_id r \<noteq> PNaN) fatal_crash"
    by (rule filter_cong) (auto simp: key)
  have f2: "filter (\<lambda>r. year_month r = year_month r1) fatal_crash
              = filter (\<lambda>r. fc_year r = fc_year r1 \<and> fc_month r = fc_month r1) fatal_crash"
    by (rule filter_cong) (auto simp: key)
  from r1 show ?thesis
    unfolding f1 f2 by blast
qed

lemma example_duplicated_fact:
  "create_fact_table pd_to_datetime [crash_type 20101001 2, crash_type 20102002 3] []
     [\<lparr>lo_location_id = PInt 1, lo_state = PStr ''NSW''\<rparr>,
      \<lparr>lo_location_id = PInt 2, lo_state = PStr ''NSW''\<rparr>] [] []
     = Inr [fact_line 1 20101001 (PInt 1) 2 3 7, fact_line 1 20101001 (PInt 2) 2 3 7,
            fact_line 2 20102002 PNaN 3 3 7]"
  by (simp add: crash_type_def fact_line_def fact_eval text_eval example_dates)

lemma example_repeated_load:
  "load example_repeated_crashes [] = Inr (example_repeated_loaded, [])"
  by (simp add: example_repeated_crashes_def example_repeated_loaded_def load_eval text_eval Let_def)

lemma example_repeated_season_dim:
  "season_dim example_repeated_loaded = Inr example_month_seasons"
  by (simp add: example_repeated_loaded_def example_month_seasons_def example_crash_def
      dim_eval text_eval)

lemma example_repeated_fact_table:
  "fact_table example_repeated_loaded example_month_seasons
     = [etl_fact 20101001 1 ''2010-01-01'' 2, etl_fact 20101001 1 ''2010-01-01'' 1,
        etl_fact 20101001 2 ''2010-02-01'' 2, etl_fact 20101001 2 ''2010-02-01'' 1,
        etl_fact 20101002 1 ''2010-01-01'' 2]"
  by (simp add: example_repeated_loaded_def example_month_seasons_def example_crash_def
      etl_fact_def dim_eval text_eval)

section \<open>Theorems\<close>

text \<open>
  C8.  The vehicle classification gives every row exactly one of the four categories, by
  the priority Articulated Truck, Heavy Rigid Truck, Bus, Other: the first involvement
  flag equal to 1 decides.  In particular a row with both the articulated-truck flag and
  the bus flag equal to 1 is classified "Articulated Truck".
\<close>

theorem vehicle_type_priority:
  "(py_eq_int (articulated_truck_involvement row) 1 \<longrightarrow>
      vehicle_type row = ''Articulated Truck'') \<and>
   (\<not> py_eq_int (articulated_truck_involvement row) 1 \<and>
    py_eq_int (heavy_rigid_truck_involvement row) 1 \<longrightarrow>
      vehicle_type row = ''Heavy Rigid Truck'') \<and>
   (\<not> py_eq_int (articulated_truck_involvement row) 1 \<and>
    \<not> py_eq_int (heavy_rigid_truck_involvement row) 1 \<and>
    py_eq_int (bus_involvement row) 1 \<longrightarrow>
      vehicle_type row = ''Bus'') \<and>
   (\<not> py_eq_int (articulated_truck_involvement row) 1 \<and>
    \<not> py_eq_int (heavy_rigid_truck_involvement row) 1 \<and>
    \<not> py_eq_int (bus_involvement row) 1 \<longrightarrow>
      vehicle_type row = ''Other'') \<and>
   (articulated_truck_involvement row = PInt 1 \<and> bus_involvement row = PInt 1 \<longrightarrow>
      vehicle_type row = ''Articulated Truck'') \<and>
   vehicle_type row \<in> {''Articulated Truck'', ''Heavy Rigid Truck'', ''Bus'', ''Other''}"
  by (simp add: vehicle_type_def)

theorem vehicle_type_priority_witness:
  "py_eq_int (articulated_truck_involvement
      \<lparr>v_crash_id = PInt 20101234, articulated_truck_involvement = PInt 1,
       heavy_rigid_truck_involvement = PInt 0, bus_involvement = PInt 1\<rparr>) 1 \<and>
   py_eq_int (bus_involvement
      \<lparr>v_crash_id = PInt 20101234, articulated_truck_involvement = PInt 1,
       heavy_rigid_truck_involvement = PInt 0, bus_involvement = PInt 1\<rparr>) 1 \<and>
   vehicle_type
      \<lparr>v_crash_id = PInt 20101234, articulated_truck_involvement = PInt 1,
       heavy_rigid_truck_involvement = PInt 0, bus_involvement = PInt 1\<rparr>
     = ''Articulated Truck''"
  using vehicle_type_priority
    [of "\<lparr>v_crash_id = PInt 20101234, articulated_truck_involvement = PInt 1,
          heavy_rigid_truck_involvement = PInt 0, bus_involvement = PInt 1\<rparr>"]
  by simp





text \<open>
  C4 (as amended).  For every row of the fact table that \<open>create_fact_table\<close> writes,
  \<open>driver_count\<close> is the number of Driver rows with the row's crash identifier whose
  \<open>driver_id\<close> is not missing; a crash with no such Driver row has \<open>driver_count\<close> 0.
\<close>

theorem driver_count_consistency:
  assumes "create_fact_table to_datetime crash_df driver_df location_df population_df season_df
             = Inr table"
    and "r \<in> set table"
  shows "ft_driver_count r =
           int (length (filter (\<lambda>d. dr_crash_id d = ft_crash_id r \<and> dr_driver_id d \<noteq> PNaN)
                          driver_df))"
proof -
  from assms(1) obtain years time_ids where
    years: "decode_years crash_df = Some years"
    and table: "table = map (\<lambda>f. select_columns (f\<lparr>crash_date := the (to_datetime (py_str (year f) @ ''-01-01''))\<rparr>))
               (merge_yearly (join_dimensions crash_df years driver_df location_df population_df
                                (zip season_df time_ids)))"
    by (rule create_fact_table_Inr)
  let ?J = "join_dimensions crash_df years driver_df location_df population_df
              (zip season_df time_ids)"
  have inv: "decode_year (crash_id f) = Some (year f) \<and>
         driver_count f =
           int (length (filter (\<lambda>r. dr_crash_id r = crash_id f \<and> dr_driver_id r \<noteq> PNaN) driver_df))"
    if "f \<in> set ?J" for f
    using years that by (rule join_dimensions_rows)
  have nn: "crash_id f \<noteq> PNaN" if "f \<in> set ?J" for f
    using inv [OF that] decode_year_nan by auto
  have my: "merge_yearly ?J =
           map (\<lambda>f. f\<lparr>yearly_crash_count := int (length (filter (\<lambda>g. year g = year f) ?J)),
                       yearly_fatality_count :=
                         nansum (map fatalities (filter (\<lambda>g. year g = year f) ?J))\<rparr>) ?J"
    by (rule merge_yearly_map) (rule nn)
  from assms(2) obtain f where f: "f \<in> set ?J" "ft_crash_id r = crash_id f"
    "ft_driver_count r = driver_count f"
    unfolding table my
    by (auto simp: select_columns_def)
  with inv [OF f(1)] show ?thesis by simp
qed


theorem driver_count_consistency_witness:
  "create_fact_table Some
     [\<lparr>ct_crash_id = PInt 20101001, ct_crash_type = PStr ''Single'', ct_number_fatalities = Some 1\<rparr>]
     [\<lparr>dr_driver_id = PInt 1, dr_crash_id = PInt 20101001\<rparr>,
      \<lparr>dr_driver_id = PInt 2, dr_crash_id = PInt 20101001\<rparr>,
      \<lparr>dr_driver_id = PInt 3, dr_crash_id = PInt 20112002\<rparr>] [] [] []
   = Inr [\<lparr>ft_fact_id = 1, ft_crash_id = PInt 20101001, ft_time_id = PNaN, ft_location_id = PNaN,
           ft_road_condition_id = PInt 20101001, ft_season_id = PNaN,
           ft_vehicle_id = PInt 20101001, ft_driver_count = 2, ft_population_id = PNaN,
           ft_lga_id = PInt 20101001, ft_fatalities = Some 1, ft_yearly_crash_count = 1,
           ft_yearly_fatality_count = 1, ft_crash_date = ''2010-01-01''\<rparr>] \<and>
   ft_driver_count
     \<lparr>ft_fact_id = 1, ft_crash_id = PInt 20101001, ft_time_id = PNaN, ft_location_id = PNaN,
      ft_road_condition_id = PInt 20101001, ft_season_id = PNaN,
      ft_vehicle_id = PInt 20101001, ft_driver_count = 2, ft_population_id = PNaN,
      ft_lga_id = PInt 20101001, ft_fatalities = Some 1, ft_yearly_crash_count = 1,
      ft_yearly_fatality_count = 1, ft_crash_date = ''2010-01-01''\<rparr>
   = int (length (filter (\<lambda>d. dr_crash_id d = PInt 20101001 \<and> dr_driver_id d \<noteq> PNaN)
       [\<lparr>dr_driver_id = PInt 1, dr_crash_id = PInt 20101001\<rparr>,
        \<lparr>dr_driver_id = PInt 2, dr_crash_id = PInt 20101001\<rparr>,
        \<lparr>dr_driver_id = PInt 3, dr_crash_id = PInt 20112002\<rparr>]))"
  using driver_count_consistency
    [of Some
      "[\<lparr>ct_crash_id = PInt 20101001, ct_crash_type = PStr ''Single'', ct_number_fatalities = Some 1\<rparr>]"
      "[\<lparr>dr_driver_id = PInt 1, dr_crash_id = PInt 20101001\<rparr>,
        \<lparr>dr_driver_id = PInt 2, dr_crash_id = PInt 20101001\<rparr>,
        \<lparr>dr_driver_id = PInt 3, dr_crash_id = PInt 20112002\<rparr>]" "[]" "[]" "[]"
      "[\<lparr>ft_fact_id = 1, ft_crash_id = PInt 20101001, ft_time_id = PNaN, ft_location_id = PNaN,
         ft_road_condition_id = PInt 20101001, ft_season_id = PNaN,
         ft_vehicle_id = PInt 20101001, ft_driver_count = 2, ft_population_id = PNaN,
         ft_lga_id = PInt 20101001, ft_fatalities = Some 1, ft_yearly_crash_count = 1,
         ft_yearly_fatality_count = 1, ft_crash_date = ''2010-01-01''\<rparr>]"
      "\<lparr>ft_fact_id = 1, ft_crash_id = PInt 20101001, ft_time_id = PNaN, ft_location_id = PNaN,
        ft_road_condition_id = PInt 20101001, ft_season_id = PNaN,
        ft_vehicle_id = PInt 20101001, ft_driver_count = 2, ft_population_id = PNaN,
        ft_lga_id = PInt 20101001, ft_fatalities = Some 1, ft_yearly_crash_count = 1,
        ft_yearly_fatality_count = 1, ft_crash_date = ''2010-01-01''\<rparr>"]
  by (simp add: fact_eval text_eval)

text \<open>
  The claim as it stands counts every Driver row of the crash.  A Driver row whose
  \<open>driver_id\<close> cell is empty is not counted: here one Driver row shares the crash
  identifier and \<open>driver_count\<close> is 0.
\<close>

theorem driver_count_counterexample:
  "create_fact_table Some
     [\<lparr>ct_crash_id = PInt 20101001, ct_crash_type = PStr ''Single'', ct_number_fatalities = Some 1\<rparr>]
     [\<lparr>dr_driver_id = PNaN, dr_crash_id = PInt 20101001\<rparr>] [] [] []
   = Inr [\<lparr>ft_fact_id = 1, ft_crash_id = PInt 20101001, ft_time_id = PNaN, ft_location_id = PNaN,
           ft_road_condition_id = PInt 20101001, ft_season_id = PNaN,
           ft_vehicle_id = PInt 20101001, ft_driver_count = 0, ft_population_id = PNaN,
           ft_lga_id = PInt 20101001, ft_fatalities = Some 1, ft_yearly_crash_count = 1,
           ft_yearly_fatality_count = 1, ft_crash_date = ''2010-01-01''\<rparr>] \<and>
   length (filter (\<lambda>d. dr_crash_id d = PInt 20101001)
             [\<lparr>dr_driver_id = PNaN, dr_crash_id = PInt 20101001\<rparr>]) = 1"
  by (simp add: fact_eval text_eval)

text \<open>
  C6 (as amended).  The state of a crash identifier is looked up from its 5th character
  in the table of eight jurisdictions (1 NSW, 2 VIC, 3 QLD, 4 SA, 5 WA, 6 TAS, 7 NT,
  8 ACT); a missing 5th character or one outside the table gives a missing state, never
  an error, and the run goes on: \<open>create_fact_table\<close> writes its table whenever every
  crash identifier decodes to a year whose first of January is accepted as a date and
  every time identifier parses.  Every crash then keeps a row, and a row whose state
  matches no location row (no population row) has a missing \<open>location_id\<close>
  (\<open>population_id\<close>).  A crash identifier whose first four characters are not an integer
  makes \<open>create_fact_table\<close> fail as a whole: it ends in its \<open>except\<close> branch and writes
  no table.
\<close>

theorem key_decode:
  "(str_at 4 (astype_str cid) = Some ''1'' \<longrightarrow> decode_state cid = PStr ''NSW'') \<and>
   (str_at 4 (astype_str cid) = Some ''2'' \<longrightarrow> decode_state cid = PStr ''VIC'') \<and>
   (str_at 4 (astype_str cid) = Some ''3'' \<longrightarrow> decode_state cid = PStr ''QLD'') \<and>
   (str_at 4 (astype_str cid) = Some ''4'' \<longrightarrow> decode_state cid = PStr ''SA'') \<and>
   (str_at 4 (astype_str cid) = Some ''5'' \<longrightarrow> decode_state cid = PStr ''WA'') \<and>
   (str_at 4 (astype_str cid) = Some ''6'' \<longrightarrow> decode_state cid = PStr ''TAS'') \<and>
   (str_at 4 (astype_str cid) = Some ''7'' \<longrightarrow> decode_state cid = PStr ''NT'') \<and>
   (str_at 4 (astype_str cid) = Some ''8'' \<longrightarrow> decode_state cid = PStr ''ACT'') \<and>
   (str_at 4 (astype_str cid) = None \<longrightarrow> decode_state cid = PNaN) \<and>
   (\<forall>ch. str_at 4 (astype_str cid) = Some ch \<and>
         ch \<notin> {''1'', ''2'', ''3'', ''4'', ''5'', ''6'', ''7'', ''8''}
          \<longrightarrow> decode_state cid = PNaN) \<and>
   (\<forall>ch. str_at 4 (astype_str cid) = Some ch \<and> map_of state_table ch = None
          \<longrightarrow> decode_state cid = PNaN) \<and>
   (c \<in> set crash_df \<and> decode_year (ct_crash_id c) = None \<longrightarrow>
      create_fact_table to_datetime crash_df driver_df location_df population_df season_df
        = Inl ValueError) \<and>
   ((\<forall>c\<in>set crash_df. \<exists>y. decode_year (ct_crash_id c) = Some y \<and>
                              to_datetime (py_str y @ ''-01-01'') \<noteq> None) \<and>
    (\<forall>s\<in>set season_df. time_id_of s \<noteq> None) \<longrightarrow>
      (\<exists>table. create_fact_table to_datetime crash_df driver_df location_df population_df
                  season_df = Inr table \<and>
         (\<forall>c\<in>set crash_df. \<exists>r\<in>set table. ft_crash_id r = ct_crash_id c \<and>
             ft_fatalities r = ct_number_fatalities c) \<and>
         (\<forall>r\<in>set table.
             (decode_state (ft_crash_id r) \<notin> lo_state ` set location_df \<longrightarrow>
                ft_location_id r = PNaN) \<and>
             (decode_state (ft_crash_id r) \<notin> po_state ` set population_df \<longrightarrow>
                ft_population_id r = PNaN))))"
proof -
  have states: "(str_at 4 (astype_str cid) = Some ''1'' \<longrightarrow> decode_state cid = PStr ''NSW'') \<and>
   (str_at 4 (astype_str cid) = Some ''2'' \<longrightarrow> decode_state cid = PStr ''VIC'') \<and>
   (str_at 4 (astype_str cid) = Some ''3'' \<longrightarrow> decode_state cid = PStr ''QLD'') \<and>
   (str_at 4 (astype_str cid) = Some ''4'' \<longrightarrow> decode_state cid = PStr ''SA'') \<and>
   (str_at 4 (astype_str cid) = Some ''5'' \<longrightarrow> decode_state cid = PStr ''WA'') \<and>
   (str_at 4 (astype_str cid) = Some ''6'' \<longrightarrow> decode_state cid = PStr ''TAS'') \<and>
   (str_at 4 (astype_str cid) = Some ''7'' \<longrightarrow> decode_state cid = PStr ''NT'') \<and>
   (str_at 4 (astype_str cid) = Some ''8'' \<longrightarrow> decode_state cid = PStr ''ACT'')"
    by (simp add: decode_state_def state_table_def)
  have short: "str_at 4 (astype_str cid) = None \<longrightarrow> decode_state cid = PNaN"
    by (simp add: decode_state_def)
  have other: "\<forall>ch. str_at 4 (astype_str cid) = Some ch \<and>
         ch \<notin> {''1'', ''2'', ''3'', ''4'', ''5'', ''6'', ''7'', ''8''}
          \<longrightarrow> decode_state cid = PNaN"
    by (simp add: decode_state_def state_table_def)
  have unmapped: "\<forall>ch. str_at 4 (astype_str cid) = Some ch \<and> map_of state_table ch = None
          \<longrightarrow> decode_state cid = PNaN"
    by (simp add: decode_state_def)
  have year: "c \<in> set crash_df \<and> decode_year (ct_crash_id c) = None \<longrightarrow>
      create_fact_table to_datetime crash_df driver_df location_df population_df season_df
        = Inl ValueError"
  proof
    assume "c \<in> set crash_df \<and> decode_year (ct_crash_id c) = None"
    then have "those (map (\<lambda>c. decode_year (ct_crash_id c)) crash_df) = None"
      by (intro those_map_None [of c]) auto
    then show "create_fact_table to_datetime crash_df driver_df location_df population_df season_df
        = Inl ValueError"
      by (simp add: create_fact_table_def decode_years_def)
  qed
  have run: "(\<forall>c\<in>set crash_df. \<exists>y. decode_year (ct_crash_id c) = Some y \<and>
                              to_datetime (py_str y @ ''-01-01'') \<noteq> None) \<and>
    (\<forall>s\<in>set season_df. time_id_of s \<noteq> None) \<longrightarrow>
      (\<exists>table. create_fact_table to_datetime crash_df driver_df location_df population_df
                  season_df = Inr table \<and>
         (\<forall>c\<in>set crash_df. \<exists>r\<in>set table. ft_crash_id r = ct_crash_id c \<and>
             ft_fatalities r = ct_number_fatalities c) \<and>
         (\<forall>r\<in>set table.
             (decode_state (ft_crash_id r) \<notin> lo_state ` set location_df \<longrightarrow>
                ft_location_id r = PNaN) \<and>
             (decode_state (ft_crash_id r) \<notin> po_state ` set population_df \<longrightarrow>
                ft_population_id r = PNaN)))"
  proof
    assume a: "(\<forall>c\<in>set crash_df. \<exists>y. decode_year (ct_crash_id c) = Some y \<and>
                              to_datetime (py_str y @ ''-01-01'') \<noteq> None) \<and>
    (\<forall>s\<in>set season_df. time_id_of s \<noteq> None)"
    show "\<exists>table. create_fact_table to_datetime crash_df driver_df location_df population_df
                  season_df = Inr table \<and>
         (\<forall>c\<in>set crash_df. \<exists>r\<in>set table. ft_crash_id r = ct_crash_id c \<and>
             ft_fatalities r = ct_number_fatalities c) \<and>
         (\<forall>r\<in>set table.
             (decode_state (ft_crash_id r) \<notin> lo_state ` set location_df \<longrightarrow>
                ft_location_id r = PNaN) \<and>
             (decode_state (ft_crash_id r) \<notin> po_state ` set population_df \<longrightarrow>
                ft_population_id r = PNaN))"
      by (rule create_fact_table_total) (use a in blast)+
  qed
  from states short other unmapped year run show ?thesis
    by (intro conjI) blast+
qed

theorem key_decode_witness:
  "str_at 4 (astype_str (PInt 20101001)) = Some ''1'' \<and> decode_state (PInt 20101001) = PStr ''NSW'' \<and>
   str_at 4 (astype_str (PInt 20108001)) = Some ''8'' \<and> decode_state (PInt 20108001) = PStr ''ACT'' \<and>
   str_at 4 (astype_str (PInt 2010)) = None \<and> decode_state (PInt 2010) = PNaN \<and>
   str_at 4 (astype_str (PInt 20109001)) = Some ''9'' \<and> map_of state_table ''9'' = None \<and>
   decode_state (PInt 20109001) = PNaN \<and>
   decode_year (PStr ''ABCD1001'') = None \<and>
   create_fact_table pd_to_datetime
     [\<lparr>ct_crash_id = PStr ''ABCD1001'', ct_crash_type = PStr ''Single'',
       ct_number_fatalities = Some 1\<rparr>] [] [] [] [] = Inl ValueError \<and>
   decode_year (PInt 20101001) = Some 2010 \<and> decode_year (PInt 20109001) = Some 2010 \<and>
   pd_to_datetime (py_str 2010 @ ''-01-01'') = Some ''2010-01-01'' \<and>
   create_fact_table pd_to_datetime [crash_type 20101001 1, crash_type 20109001 2] []
     [\<lparr>lo_location_id = PInt 7, lo_state = PStr ''NSW''\<rparr>] [] []
     = Inr [fact_line 1 20101001 (PInt 7) 1 2 3, fact_line 2 20109001 PNaN 2 2 3] \<and>
   ft_location_id (fact_line 2 20109001 PNaN 2 2 3) = PNaN"
proof -
  have s: "str_at 4 (astype_str (PInt 20101001)) = Some ''1''"
    "str_at 4 (astype_str (PInt 20108001)) = Some ''8''"
    "str_at 4 (astype_str (PInt 2010)) = None"
    "str_at 4 (astype_str (PInt 20109001)) = Some ''9''"
    "map_of state_table ''9'' = None"
    by (simp_all add: state_table_def text_eval)
  have y: "decode_year (PStr ''ABCD1001'') = None" "decode_year (PInt 20101001) = Some 2010"
    "decode_year (PInt 20109001) = Some 2010"
    "pd_to_datetime (py_str 2010 @ ''-01-01'') = Some ''2010-01-01''"
    by (simp_all add: decode_year_def text_eval example_dates)
  have h: "\<forall>c\<in>set [crash_type 20101001 1, crash_type 20109001 2].
             \<exists>y. decode_year (ct_crash_id c) = Some y \<and>
                 pd_to_datetime (py_str y @ ''-01-01'') \<noteq> None"
    using y by (simp add: crash_type_def)
  have l: "ft_location_id (fact_line 2 20109001 PNaN 2 2 3) = PNaN"
    by (simp add: fact_line_def)
  from key_decode [where cid = "PInt 20101001" and to_datetime = pd_to_datetime
      and c = "\<lparr>ct_crash_id = PStr ''ABCD1001'', ct_crash_type = PStr ''Single'',
                 ct_number_fatalities = Some 1\<rparr>"
      and crash_df = "[\<lparr>ct_crash_id = PStr ''ABCD1001'', ct_crash_type = PStr ''Single'',
                 ct_number_fatalities = Some 1\<rparr>]"
      and driver_df = "[]" and location_df = "[]" and population_df = "[]" and season_df = "[]"]
    key_decode [where cid = "PInt 20108001"]
    key_decode [where cid = "PInt 2010"]
    key_decode [where cid = "PInt 20109001" and to_datetime = pd_to_datetime
      and crash_df = "[crash_type 20101001 1, crash_type 20109001 2]"
      and driver_df = "[]" and location_df = "[\<lparr>lo_location_id = PInt 7, lo_state = PStr ''NSW''\<rparr>]"
      and population_df = "[]" and season_df = "[]"]
    s y h l example_state_fact
  show ?thesis by simp
qed

text \<open>
  The claim as it stands lets an undecodable year degrade to a missing value.  One crash
  row without an identifier stops the whole run, although the other row decodes.
\<close>

theorem key_decode_counterexample:
  "decode_year PNaN = None \<and>
   create_fact_table Some
     [\<lparr>ct_crash_id = PInt 20101001, ct_crash_type = PStr ''Single'', ct_number_fatalities = Some 1\<rparr>,
      \<lparr>ct_crash_id = PNaN, ct_crash_type = PStr ''Single'', ct_number_fatalities = Some 2\<rparr>]
     [] [] [] [] = Inl ValueError"
  by (simp add: create_fact_table_def decode_years_def decode_year_def text_eval)


text \<open>
  C3 (as amended).  \<open>etl.py\<close> gives a Season row the \<open>Season_ID\<close> made of the year, an
  underscore and the quarter of the month.  \<open>create_fact_table\<close> gives a season row the
  \<open>time_id\<close> read from the year's text followed by the month's text filled to two
  characters; for a year that is not negative and a month from 0 to 99 that is the number
  100 * year + month, so two season rows with different (year, month) never share a
  \<open>time_id\<close>.
\<close>

theorem season_keys:
  "(season_row_of y (PInt m) = Inr r \<longrightarrow>
      sd_season_id r = astype_str y @ ''_'' @ py_str ((m - 1) div 3 + 1)) \<and>
   time_id_of s = parse_int (astype_str (se_year s) @ zfill 2 (astype_str (se_month s))) \<and>
   (se_year s = PInt y1 \<and> se_month s = PInt m1 \<and> 0 \<le> y1 \<and> 0 \<le> m1 \<and> m1 < 100 \<longrightarrow>
      time_id_of s = Some (100 * y1 + m1)) \<and>
   (se_year s = PInt y1 \<and> se_month s = PInt m1 \<and> 0 \<le> y1 \<and> 0 \<le> m1 \<and> m1 < 100 \<and>
    se_year s' = PInt y2 \<and> se_month s' = PInt m2 \<and> 0 \<le> y2 \<and> 0 \<le> m2 \<and> m2 < 100 \<and>
    time_id_of s = time_id_of s' \<longrightarrow> y1 = y2 \<and> m1 = m2)"
proof (intro conjI impI)
  assume "season_row_of y (PInt m) = Inr r"
  then show "sd_season_id r = astype_str y @ ''_'' @ py_str ((m - 1) div 3 + 1)"
    by (auto simp: season_row_of_def Let_def)
next
  show "time_id_of s = parse_int (astype_str (se_year s) @ zfill 2 (astype_str (se_month s)))"
    by (simp add: time_id_of_def)
next
  assume "se_year s = PInt y1 \<and> se_month s = PInt m1 \<and> 0 \<le> y1 \<and> 0 \<le> m1 \<and> m1 < 100"
  then show "time_id_of s = Some (100 * y1 + m1)"
    by (simp add: time_id_value)
next
  assume a: "se_year s = PInt y1 \<and> se_month s = PInt m1 \<and> 0 \<le> y1 \<and> 0 \<le> m1 \<and> m1 < 100 \<and>
    se_year s' = PInt y2 \<and> se_month s' = PInt m2 \<and> 0 \<le> y2 \<and> 0 \<le> m2 \<and> m2 < 100 \<and>
    time_id_of s = time_id_of s'"
  then have s1: "se_year s = PInt y1" "se_month s = PInt m1" "0 \<le> y1" "0 \<le> m1" "m1 < 100"
    and s2: "se_year s' = PInt y2" "se_month s' = PInt m2" "0 \<le> y2" "0 \<le> m2" "m2 < 100"
    by blast+
  have t: "time_id_of s = Some (100 * y1 + m1)" "time_id_of s' = Some (100 * y2 + m2)"
    by (rule time_id_value [OF s1], rule time_id_value [OF s2])
  from a have "time_id_of s = time_id_of s'"
    by simp
  then have eq: "100 * y1 + m1 = 100 * y2 + m2"
    unfolding t by simp
  with a show "y1 = y2" by arith
  with eq show "m1 = m2" by simp
qed

theorem season_keys_witness:
  "season_row_of (PInt 2010) (PInt 5)
     = Inr \<lparr>sd_year = PInt 2010, sd_month = PInt 5, sd_season = ''Autumn'', sd_quarter = 2,
            sd_is_holiday_season = 0, sd_is_school_holiday = 0,
            sd_tourism_season = ''Off Peak'', sd_date = ''2010-05-01'',
            sd_season_id = ''2010_2''\<rparr> \<and>
   astype_str (PInt 2010) @ ''_'' @ py_str ((5 - 1) div 3 + 1) = ''2010_2'' \<and>
   time_id_of \<lparr>se_season_id = PStr ''2010_2'', se_year = PInt 2010, se_month = PInt 5\<rparr>
     = Some 201005 \<and>
   time_id_of \<lparr>se_season_id = PStr ''2010_2'', se_year = PInt 2010, se_month = PInt 5\<rparr>
     = time_id_of \<lparr>se_season_id = PNaN, se_year = PInt 2010, se_month = PInt 5\<rparr>"
  using season_keys [of "PInt 2010" 5
      "\<lparr>sd_year = PInt 2010, sd_month = PInt 5, sd_season = ''Autumn'', sd_quarter = 2,
        sd_is_holiday_season = 0, sd_is_school_holiday = 0,
        sd_tourism_season = ''Off Peak'', sd_date = ''2010-05-01'',
        sd_season_id = ''2010_2''\<rparr>"
      "\<lparr>se_season_id = PStr ''2010_2'', se_year = PInt 2010, se_month = PInt 5\<rparr>"
      2010 5
      "\<lparr>se_season_id = PNaN, se_year = PInt 2010, se_month = PInt 5\<rparr>" 2010 5]
  by (simp add: season_row_of_def get_season_def time_id_of_def text_eval)

text \<open>
  The claim as it stands makes \<open>season_id\<close> the year followed by the zero-padded month
  and free of collisions.  The season rows of January and February 2010 both get the
  \<open>Season_ID\<close> "2010_1", which is neither "201001" nor "201002".
\<close>

theorem season_keys_counterexample:
  "map_sum id sd_season_id (season_row_of (PInt 2010) (PInt 1)) = Inr ''2010_1'' \<and>
   map_sum id sd_season_id (season_row_of (PInt 2010) (PInt 2)) = Inr ''2010_1'' \<and>
   astype_str (PInt 2010) @ zfill 2 (astype_str (PInt 1)) = ''201001'' \<and>
   astype_str (PInt 2010) @ zfill 2 (astype_str (PInt 2)) = ''201002''"
  by (simp add: season_row_of_def get_season_def text_eval)

text \<open>
  C1.  The matching loop does not give an equal reference name precedence over a
  contained one: it stops at the first reference row whose name equals the area name or
  is contained in it.  The reference table lists "Remote" before "Very Remote" for every
  state, and "Remote Australia (NSW)" is contained in "Very Remote Australia (NSW)"; so
  the area "Very Remote Australia (NSW)" is matched with the row of "Remote Australia
  (NSW)" and its entry carries that row's population, although the table holds a row
  with exactly its name.
\<close>

theorem exact_match_shadowed:
  "find_match ''Very Remote Australia (NSW)''
     [\<lparr>rr_state = ''NSW'', rr_remoteness_category = ''Remote'',
       rr_remoteness_area = ''Remote Australia (NSW)'', rr_population = 30000\<rparr>,
      \<lparr>rr_state = ''NSW'', rr_remoteness_category = ''Very Remote'',
       rr_remoteness_area = ''Very Remote Australia (NSW)'', rr_population = 8000\<rparr>] None
   = Some \<lparr>rr_state = ''NSW'', rr_remoteness_category = ''Remote'',
            rr_remoteness_area = ''Remote Australia (NSW)'', rr_population = 30000\<rparr> \<and>
   remoteness_entries [PStr ''Very Remote Australia (NSW)'']
     [\<lparr>rr_state = ''NSW'', rr_remoteness_category = ''Remote'',
       rr_remoteness_area = ''Remote Australia (NSW)'', rr_population = 30000\<rparr>,
      \<lparr>rr_state = ''NSW'', rr_remoteness_category = ''Very Remote'',
       rr_remoteness_area = ''Very Remote Australia (NSW)'', rr_population = 8000\<rparr>]
   = [\<lparr>pe_remoteness_area = ''Very Remote Australia (NSW)'', pe_state = ''NSW'',
       pe_population = Some 30000, pe_data_source = ''Reference Data''\<rparr>]"
  by (simp add: remoteness_entries_def text_cells_def area_state_def states_def)

text \<open>
  C7 (as amended).  A Driver row without an age is filled as follows.  If its age-group
  label is present and does not stand for "unknown", and rows with that label have known
  ages, it gets the median of those ages.  If its label is missing or stands for
  "unknown", it gets the median of all known ages of the table.  If its label is a
  proper one but no row with it has a known age, it gets the median of the \<open>Age\<close> column
  as the first fill left it, that is of the known ages together with the ages just
  filled in.  (\<open>etl.py\<close> takes \<open>'Unknown'\<close> and \<open>'-9'\<close> for "unknown", \<open>fix_driver_age.py\<close>
  only \<open>'Unknown'\<close>.)
\<close>

theorem age_backfill:
  assumes "i < length rows" and "dd_age (rows ! i) = None"
  shows "(dd_age_group (rows ! i) \<noteq> PNaN \<and> dd_age_group (rows ! i) \<notin> PStr ` set unknown \<and>
          median_age (filter (\<lambda>r. dd_age_group r = dd_age_group (rows ! i)) rows) = Some m
            \<longrightarrow> dd_age (fill_missing_ages unknown rows ! i) = Some m) \<and>
         ((dd_age_group (rows ! i) = PNaN \<or> dd_age_group (rows ! i) \<in> PStr ` set unknown) \<and>
          median_age rows = Some m
            \<longrightarrow> dd_age (fill_missing_ages unknown rows ! i) = Some m) \<and>
         (dd_age_group (rows ! i) \<noteq> PNaN \<and> dd_age_group (rows ! i) \<notin> PStr ` set unknown \<and>
          median_age (filter (\<lambda>r. dd_age_group r = dd_age_group (rows ! i)) rows) = None
            \<longrightarrow> dd_age (fill_missing_ages unknown rows ! i)
                  = median_age (fill_by_age_group unknown rows))"
  using assms
  by (simp add: fill_missing_ages_nth fill_by_age_group_nth)

theorem age_backfill_witness:
  "3 < length example_drivers \<and> dd_age (example_drivers ! 3) = None \<and>
   dd_age_group (example_drivers ! 3) = PStr ''17_to_25'' \<and>
   median_age (filter (\<lambda>r. dd_age_group r = PStr ''17_to_25'') example_drivers) = Some 22 \<and>
   dd_age (fill_missing_ages [''Unknown'', ''-9''] example_drivers ! 3) = Some 22 \<and>
   4 < length example_drivers \<and> dd_age (example_drivers ! 4) = None \<and>
   dd_age_group (example_drivers ! 4) = PStr ''Unknown'' \<and>
   median_age example_drivers = Some 22 \<and>
   dd_age (fill_missing_ages [''Unknown'', ''-9''] example_drivers ! 4) = Some 22 \<and>
   5 < length example_drivers \<and> dd_age (example_drivers ! 5) = None \<and>
   dd_age_group (example_drivers ! 5) = PStr ''26_to_39'' \<and>
   median_age (filter (\<lambda>r. dd_age_group r = PStr ''26_to_39'') example_drivers) = None \<and>
   median_age (fill_by_age_group [''Unknown'', ''-9''] example_drivers) = Some 22 \<and>
   dd_age (fill_missing_ages [''Unknown'', ''-9''] example_drivers ! 5) = Some 22"
  using age_backfill [of 3 example_drivers "[''Unknown'', ''-9'']" 22]
    age_backfill [of 4 example_drivers "[''Unknown'', ''-9'']" 22]
    age_backfill [of 5 example_drivers "[''Unknown'', ''-9'']" 22]
  by (simp add: example_drivers_def age_eval)

text \<open>
  The claim as it stands fills a row whose age group has no known age with the global
  median age of the Driver dimension.  In this table the known ages are 10 and 100,
  global median 55; the row of the group without known ages is filled with 10, the
  median after the three rows of the first group were filled, while the row with the
  unknown group is filled with 55.
\<close>

theorem age_backfill_counterexample:
  "map dd_age (fill_missing_ages [''Unknown'', ''-9''] skewed_drivers)
     = [Some 10, Some 100, Some 10, Some 10, Some 10, Some 55, Some 10] \<and>
   median_age skewed_drivers = Some 55 \<and>
   dd_age (skewed_drivers ! 6) = None \<and>
   dd_age_group (skewed_drivers ! 6) = PStr ''40_to_64'' \<and>
   median_age (filter (\<lambda>r. dd_age_group r = PStr ''40_to_64'') skewed_drivers) = None"
  by (simp add: skewed_drivers_def age_eval)





text \<open>
  C2 (as amended).  On every row of the fact table written by \<open>create_fact_table\<close>,
  \<open>yearly_crash_count\<close> is the number of rows of that table with the row's year (the year
  decoded from the crash identifier) and \<open>yearly_fatality_count\<close> is the sum of their
  fatalities: the aggregates are taken after the joins, over the joined rows.  When no
  state has two location rows and no state and year two population rows, the joins add
  no row, and the two aggregates are the number of crashes of that year in the Crash
  Type dimension and the sum of their fatalities.  On every row of the fact table of
  \<open>etl.py\<close>, \<open>Monthly_Crash_Count\<close> and \<open>Monthly_Fatality_Count\<close> are the number of loaded
  crash records with an identifier and the sum of the fatalities of the loaded crash
  records, in the year and month of a crash record that has the row's crash identifier.
  When the crash identifiers of the loaded table are present and pairwise different,
  that record is the row's own and the two aggregates are the number of rows of the fact
  table with the row's year and month and the sum of their fatalities.  With three
  crashes in January 2010 and two in February 2010 every row has the yearly count 5 and
  the January rows have the monthly count 3.
\<close>

theorem aggregate_counts:
  "(create_fact_table to_datetime crash_df driver_df location_df population_df season_df
      = Inr table \<and> r \<in> set table \<longrightarrow>
      ft_yearly_crash_count r =
        int (length (filter (\<lambda>r'. decode_year (ft_crash_id r') = decode_year (ft_crash_id r))
                       table)) \<and>
      ft_yearly_fatality_count r =
        nansum (map ft_fatalities
                  (filter (\<lambda>r'. decode_year (ft_crash_id r') = decode_year (ft_crash_id r))
                     table)) \<and>
      (distinct (map lo_state location_df) \<and>
       distinct (map (\<lambda>p. (po_state p, po_year p)) population_df) \<longrightarrow>
         ft_yearly_crash_count r =
           int (length (filter (\<lambda>c. decode_year (ct_crash_id c) = decode_year (ft_crash_id r))
                          crash_df)) \<and>
         ft_yearly_fatality_count r =
           nansum (map ct_number_fatalities
                     (filter (\<lambda>c. decode_year (ct_crash_id c) = decode_year (ft_crash_id r))
                        crash_df)))) \<and>
   (load raw_crashes raw_fatalities = Inr (fatal_crash, fatality_rows) \<and>
    season_dim fatal_crash = Inr season_lookup \<and>
    e \<in> set (fact_table fatal_crash season_lookup) \<longrightarrow>
      (\<exists>r1\<in>set fatal_crash. fc_crash_id r1 = ef_crash_id e \<and>
          ef_monthly_crash_count e =
            Some (int (length (filter (\<lambda>r. fc_year r = fc_year r1 \<and> fc_month r = fc_month r1 \<and>
                                         fc_crash_id r \<noteq> PNaN) fatal_crash))) \<and>
          ef_monthly_fatality_count e =
            Some (nansum (map fc_number_fatalities
                            (filter (\<lambda>r. fc_year r = fc_year r1 \<and> fc_month r = fc_month r1)
                               fatal_crash)))) \<and>
      (distinct (map fc_crash_id fatal_crash) \<and> PNaN \<notin> fc_crash_id ` set fatal_crash \<longrightarrow>
         ef_monthly_crash_count e =
           Some (int (length (filter (\<lambda>e'. ef_year e' = ef_year e \<and> ef_month e' = ef_month e)
                                (fact_table fatal_crash season_lookup)))) \<and>
         ef_monthly_fatality_count e =
           Some (nansum (map ef_number_fatalities
                           (filter (\<lambda>e'. ef_year e' = ef_year e \<and> ef_month e' = ef_month e)
                              (fact_table fatal_crash season_lookup))))))"
  using yearly_aggregates [of to_datetime crash_df driver_df location_df population_df season_df
      table r]
    yearly_aggregates_crashes [of to_datetime crash_df driver_df location_df population_df
      season_df table r]
    monthly_counts_of_crashes [of raw_crashes raw_fatalities fatal_crash fatality_rows
      season_lookup e]
    monthly_aggregates [of raw_crashes raw_fatalities fatal_crash fatality_rows
      season_lookup e]
  by blast

theorem aggregate_counts_witness:
  "create_fact_table pd_to_datetime example_crash_types example_driver_rows example_locations
     example_populations example_season_table
     = Inr [fact_out 1 20101001 2 1, fact_out 2 20101002 0 2, fact_out 3 20101003 1 1,
            fact_out 4 20101004 0 1, fact_out 5 20101005 0 3] \<and>
   distinct (map lo_state example_locations) \<and>
   distinct (map (\<lambda>p. (po_state p, po_year p)) example_populations) \<and>
   ft_yearly_crash_count (fact_out 1 20101001 2 1) = 5 \<and>
   ft_yearly_fatality_count (fact_out 1 20101001 2 1) = 8 \<and>
   load example_month_crashes [] = Inr (example_month_loaded, []) \<and>
   season_dim example_month_loaded = Inr example_month_seasons \<and>
   distinct (map fc_crash_id example_month_loaded) \<and>
   PNaN \<notin> fc_crash_id ` set example_month_loaded \<and>
   fact_table example_month_loaded example_month_seasons
     = [etl_fact 20101001 1 ''2010-01-01'' 3, etl_fact 20101002 1 ''2010-01-01'' 3,
        etl_fact 20101003 1 ''2010-01-01'' 3, etl_fact 20101004 2 ''2010-02-01'' 2,
        etl_fact 20101005 2 ''2010-02-01'' 2] \<and>
   ef_monthly_crash_count (etl_fact 20101001 1 ''2010-01-01'' 3) = Some 3 \<and>
   ef_monthly_fatality_count (etl_fact 20101001 1 ''2010-01-01'' 3) = Some 3"
proof -
  have d: "distinct (map fc_crash_id example_month_loaded)"
    "PNaN \<notin> fc_crash_id ` set example_month_loaded"
    by (simp_all add: example_month_loaded_def example_crash_def)
  have k: "distinct (map lo_state example_locations)"
    "distinct (map (\<lambda>p. (po_state p, po_year p)) example_populations)"
    by (simp_all add: example_locations_def example_populations_def)
  have r: "fact_out 1 20101001 2 1 \<in> set [fact_out 1 20101001 2 1, fact_out 2 20101002 0 2,
      fact_out 3 20101003 1 1, fact_out 4 20101004 0 1, fact_out 5 20101005 0 3]"
    by simp
  have e: "etl_fact 20101001 1 ''2010-01-01'' 3
             \<in> set (fact_table example_month_loaded example_month_seasons)"
    by (simp add: example_month_fact_table)
  have v: "ft_yearly_crash_count (fact_out 1 20101001 2 1) = 5"
    "ft_yearly_fatality_count (fact_out 1 20101001 2 1) = 8"
    "ef_monthly_crash_count (etl_fact 20101001 1 ''2010-01-01'' 3) = Some 3"
    "ef_monthly_fatality_count (etl_fact 20101001 1 ''2010-01-01'' 3) = Some 3"
    by (simp_all add: fact_out_def etl_fact_def)
  from aggregate_counts [where to_datetime = pd_to_datetime and crash_df = example_crash_types
      and driver_df = example_driver_rows and location_df = example_locations
      and population_df = example_populations and season_df = example_season_table
      and table = "[fact_out 1 20101001 2 1, fact_out 2 20101002 0 2, fact_out 3 20101003 1 1,
        fact_out 4 20101004 0 1, fact_out 5 20101005 0 3]" and r = "fact_out 1 20101001 2 1"
      and raw_crashes = example_month_crashes and raw_fatalities = "[]"
      and fatal_crash = example_month_loaded and fatality_rows = "[]"
      and season_lookup = example_month_seasons
      and e = "etl_fact 20101001 1 ''2010-01-01'' 3"]
    example_fact_table example_month_load example_month_season_dim example_month_fact_table
    d k r e v
  show ?thesis by blast
qed

text \<open>
  The claim as it stands counts crashes.  Two crashes of 2010 with five fatalities, the
  first in a state with two location rows: \<open>create_fact_table\<close> writes three rows, each
  with the yearly count 3 and the yearly sum 7.  Three crash records of \<open>etl.py\<close>, two of
  them under one crash identifier in January and February: its fact table has five rows,
  and a row of January carries the count of February.
\<close>

theorem aggregate_counts_counterexample:
  "create_fact_table pd_to_datetime [crash_type 20101001 2, crash_type 20102002 3] []
     [\<lparr>lo_location_id = PInt 1, lo_state = PStr ''NSW''\<rparr>,
      \<lparr>lo_location_id = PInt 2, lo_state = PStr ''NSW''\<rparr>] [] []
     = Inr [fact_line 1 20101001 (PInt 1) 2 3 7, fact_line 1 20101001 (PInt 2) 2 3 7,
            fact_line 2 20102002 PNaN 3 3 7] \<and>
   ft_yearly_crash_count (fact_line 1 20101001 (PInt 1) 2 3 7) = 3 \<and>
   ft_yearly_fatality_count (fact_line 1 20101001 (PInt 1) 2 3 7) = 7 \<and>
   load example_repeated_crashes [] = Inr (example_repeated_loaded, []) \<and>
   season_dim example_repeated_loaded = Inr example_month_seasons \<and>
   fact_table example_repeated_loaded example_month_seasons
     = [etl_fact 20101001 1 ''2010-01-01'' 2, etl_fact 20101001 1 ''2010-01-01'' 1,
        etl_fact 20101001 2 ''2010-02-01'' 2, etl_fact 20101001 2 ''2010-02-01'' 1,
        etl_fact 20101002 1 ''2010-01-01'' 2] \<and>
   ef_month (etl_fact 20101001 1 ''2010-01-01'' 1) = PInt 1 \<and>
   ef_monthly_crash_count (etl_fact 20101001 1 ''2010-01-01'' 1) = Some 1"
  by (simp add: example_duplicated_fact example_repeated_load example_repeated_season_dim
      example_repeated_fact_table fact_line_def etl_fact_def)

end
